theory Spec2Isabelle
  imports Complex_Main "HOL-Library.List_Lexorder" "HOL-Library.Char_ord"
begin

section \<open>JavaScript values used by the attendance and overtime code\<close>

text \<open>
  A JavaScript \<^verbatim>\<open>number\<close> is an IEEE 754 double. A finite double is modelled by its exact
  rational value, and every arithmetic operation rounds its exact result to the nearest
  double, ties to the even significand, as the hardware does (\<open>double\<close> below): dividing
  130 minutes by 60 yields the double next to 13/6, not 13/6. \<^verbatim>\<open>NaN\<close> is a value of its
  own, and \<^verbatim>\<open>undefined\<close> in arithmetic position is \<^verbatim>\<open>NaN\<close>. The exponent of a double is
  taken to be unbounded: overflow to an infinity and gradual underflow need magnitudes
  beyond 2 to the power 1023 or below 2 to the power -1022, far from the hours and minutes
  of this code; the infinities and the sign of zero are not modelled.
\<close>

datatype number = Num rat | NaN

text \<open>The number of binary digits of a natural number.\<close>

fun bit_length :: "nat \<Rightarrow> nat" where
  "bit_length n = (if n = 0 then 0 else Suc (bit_length (n div 2)))"

declare bit_length.simps [simp del]

definition pow2 :: "int \<Rightarrow> rat" where
  "pow2 e = (if 0 \<le> e then 2 ^ nat e else 1 / 2 ^ nat (- e))"

text \<open>The binary exponent of a non-zero rational \<open>x\<close>: the \<open>e\<close> with
  \<open>pow2 e \<le> \<bar>x\<bar>\<close> and \<open>\<bar>x\<bar> < pow2 (e + 1)\<close>.\<close>

definition binade :: "rat \<Rightarrow> int" where
  "binade x = (if 1 \<le> \<bar>x\<bar> then int (bit_length (nat \<lfloor>\<bar>x\<bar>\<rfloor>)) - 1
               else - int (bit_length (nat (\<lceil>1 / \<bar>x\<bar>\<rceil> - 1))))"

text \<open>The nearest integer, a tie going to the even one.\<close>

definition round_even :: "rat \<Rightarrow> int" where
  "round_even r = (let f = \<lfloor>r\<rfloor>; d = r - of_int f
                   in if d < 1 / 2 then f else if 1 / 2 < d then f + 1
                      else if even f then f else f + 1)"

text \<open>The nearest double: a significand of 53 binary digits, so the unit in the last
  place of a value with binary exponent \<open>e\<close> is \<open>pow2 (e - 52)\<close>.\<close>

definition double :: "rat \<Rightarrow> rat" where
  "double x = (if x = 0 then 0
               else let u = pow2 (binade x - 52) in of_int (round_even (x / u)) * u)"

fun js_add :: "number \<Rightarrow> number \<Rightarrow> number" where
  "js_add (Num a) (Num b) = Num (double (a + b))"
| "js_add _ _ = NaN"

fun js_sub :: "number \<Rightarrow> number \<Rightarrow> number" where
  "js_sub (Num a) (Num b) = Num (double (a - b))"
| "js_sub _ _ = NaN"

fun js_mul :: "number \<Rightarrow> number \<Rightarrow> number" where
  "js_mul (Num a) (Num b) = Num (double (a * b))"
| "js_mul _ _ = NaN"

text \<open>Division; a zero divisor (an infinity or NaN in JavaScript) yields \<^verbatim>\<open>NaN\<close> here.\<close>

fun js_div :: "number \<Rightarrow> number \<Rightarrow> number" where
  "js_div (Num a) (Num b) = (if b = 0 then NaN else Num (double (a / b)))"
| "js_div _ _ = NaN"

text \<open>The remainder operator \<^verbatim>\<open>%\<close>: truncated division, the sign follows the dividend.
  The remainder of two doubles is a double, so nothing is rounded; nor is it by
  \<^verbatim>\<open>Math.max\<close>, \<^verbatim>\<open>Math.ceil\<close> and \<^verbatim>\<open>Math.floor\<close>.\<close>

fun js_rem :: "number \<Rightarrow> number \<Rightarrow> number" where
  "js_rem (Num a) (Num b) =
     (if b = 0 then NaN
      else Num (a - b * of_int (if 0 \<le> a / b then \<lfloor>a / b\<rfloor> else \<lceil>a / b\<rceil>)))"
| "js_rem _ _ = NaN"

text \<open>Comparisons with \<^verbatim>\<open>NaN\<close> are false.\<close>

fun js_lt :: "number \<Rightarrow> number \<Rightarrow> bool" where
  "js_lt (Num a) (Num b) = (a < b)"
| "js_lt _ _ = False"

fun js_gt :: "number \<Rightarrow> number \<Rightarrow> bool" where
  "js_gt (Num a) (Num b) = (a > b)"
| "js_gt _ _ = False"

fun js_strict_eq :: "number \<Rightarrow> number \<Rightarrow> bool" where
  "js_strict_eq (Num a) (Num b) = (a = b)"
| "js_strict_eq _ _ = False"

fun Math_max :: "number \<Rightarrow> number \<Rightarrow> number" where
  "Math_max (Num a) (Num b) = Num (max a b)"
| "Math_max _ _ = NaN"

fun Math_ceil :: "number \<Rightarrow> number" where
  "Math_ceil (Num a) = Num (of_int \<lceil>a\<rceil>)"
| "Math_ceil NaN = NaN"

fun Math_floor :: "number \<Rightarrow> number" where
  "Math_floor (Num a) = Num (of_int \<lfloor>a\<rfloor>)"
| "Math_floor NaN = NaN"

text \<open>Truthiness: a number is falsy when it is 0 or NaN, a string when it is empty,
  \<^verbatim>\<open>null\<close> and \<^verbatim>\<open>undefined\<close> (here \<open>None\<close>) always.\<close>

fun truthy_number :: "number \<Rightarrow> bool" where
  "truthy_number (Num a) = (a \<noteq> 0)"
| "truthy_number NaN = False"

definition truthy_string :: "string \<Rightarrow> bool" where
  "truthy_string s = (s \<noteq> [])"

fun truthy :: "string option \<Rightarrow> bool" where
  "truthy None = False"
| "truthy (Some s) = truthy_string s"

text \<open>\<^verbatim>\<open>a || b\<close> on strings and on numbers, the left operand possibly \<^verbatim>\<open>null\<close>.\<close>

definition or_string :: "string option \<Rightarrow> string \<Rightarrow> string" where
  "or_string a b = (case a of Some s \<Rightarrow> (if truthy_string s then s else b) | None \<Rightarrow> b)"

definition or_number :: "number option \<Rightarrow> number \<Rightarrow> number" where
  "or_number a b = (case a of Some n \<Rightarrow> (if truthy_number n then n else b) | None \<Rightarrow> b)"

text \<open>A value that is a string or a number, and \<^verbatim>\<open>a || b\<close> with a string or \<^verbatim>\<open>null\<close> on the
  left and a number on the right.\<close>

datatype jsvalue = Text string | Numeric number

definition or_text_number :: "string option \<Rightarrow> number \<Rightarrow> jsvalue" where
  "or_text_number a b =
     (case a of Some s \<Rightarrow> (if truthy_string s then Text s else Numeric b) | None \<Rightarrow> Numeric b)"

text \<open>Reading an array of numbers at an index; out of range is \<^verbatim>\<open>undefined\<close>.\<close>

definition at_index :: "number list \<Rightarrow> nat \<Rightarrow> number" where
  "at_index xs i = (if i < length xs then xs ! i else NaN)"

definition at_string :: "string list \<Rightarrow> nat \<Rightarrow> string option" where
  "at_string xs i = (if i < length xs then Some (xs ! i) else None)"

subsection \<open>Strings\<close>

text \<open>
  Strings are compared as JavaScript compares them, lexicographically by code unit
  (the lexicographic order on lists over the order of characters by code; the strings
  of this code are ASCII).
\<close>

definition string_gt :: "string \<Rightarrow> string \<Rightarrow> bool" where
  "string_gt a b = (b < a)"

definition is_digit :: "char \<Rightarrow> bool" where
  "is_digit c = (CHR ''0'' \<le> c \<and> c \<le> CHR ''9'')"

definition digit_val :: "char \<Rightarrow> nat" where
  "digit_val c = of_char c - 48"

definition digits_val :: "string \<Rightarrow> nat" where
  "digits_val s = foldl (\<lambda>a c. 10 * a + digit_val c) 0 s"

text \<open>\<^verbatim>\<open>s.split(':')\<close>: the pieces between colons; never an empty array.\<close>

fun split_colon :: "string \<Rightarrow> string list" where
  "split_colon [] = [[]]"
| "split_colon (c # cs) =
     (if c = CHR '':'' then [] # split_colon cs
      else (case split_colon cs of w # ws \<Rightarrow> (c # w) # ws | [] \<Rightarrow> [[c]]))"

text \<open>
  \<^verbatim>\<open>Number(s)\<close>, which is also the conversion that \<^verbatim>\<open><\<close> and \<^verbatim>\<open>-\<close> apply to a string operand:
  an optional sign, decimal digits and an optional fraction, at least one digit in all,
  read as the nearest double; the empty string is 0 and any other string is \<^verbatim>\<open>NaN\<close>.
  Blanks around the number, exponents, radix prefixes and \<^verbatim>\<open>Infinity\<close>, which \<^verbatim>\<open>Number\<close>
  also reads, do not occur in the texts of the \<^verbatim>\<open>TIME\<close> and \<^verbatim>\<open>DECIMAL\<close> columns.
\<close>

definition unsigned_decimal :: "string \<Rightarrow> rat option" where
  "unsigned_decimal t =
     (let whole = takeWhile is_digit t;
          rest = dropWhile is_digit t;
          fraction = (case rest of
                        [] \<Rightarrow> Some []
                      | c # f \<Rightarrow> if c = CHR ''.'' \<and> list_all is_digit f then Some f else None)
      in case fraction of
           None \<Rightarrow> None
         | Some f \<Rightarrow>
             if whole = [] \<and> f = [] then None
             else Some (of_nat (digits_val whole) + of_nat (digits_val f) / 10 ^ length f))"

definition Number :: "string \<Rightarrow> number" where
  "Number s =
     (case s of
        [] \<Rightarrow> Num 0
      | c # r \<Rightarrow>
          (case (if c = CHR ''-'' \<or> c = CHR ''+'' then unsigned_decimal r else unsigned_decimal s) of
             None \<Rightarrow> NaN
           | Some x \<Rightarrow> Num (double (if c = CHR ''-'' then - x else x))))"

text \<open>The relation \<^verbatim>\<open>a < b\<close>: two strings are compared as strings, by code unit; in every
  other case both operands are converted to numbers.\<close>

fun to_number :: "jsvalue \<Rightarrow> number" where
  "to_number (Text s) = Number s"
| "to_number (Numeric n) = n"

fun js_less :: "jsvalue \<Rightarrow> jsvalue \<Rightarrow> bool" where
  "js_less (Text a) (Text b) = (a < b)"
| "js_less a b = js_lt (to_number a) (to_number b)"

text \<open>\<^verbatim>\<open>parseInt(s)\<close>: the leading decimal digits, \<^verbatim>\<open>NaN\<close> when there are none or \<^verbatim>\<open>s\<close>
  is \<^verbatim>\<open>undefined\<close>. Leading blanks, signs and radix prefixes are not modelled.\<close>

definition parseInt :: "string option \<Rightarrow> number" where
  "parseInt s =
     (case s of None \<Rightarrow> NaN
      | Some t \<Rightarrow> (let ds = takeWhile is_digit t
                   in if ds = [] then NaN else Num (double (of_nat (digits_val ds)))))"

text \<open>Decimal rendering of a natural number, as a template literal renders it.\<close>

fun decimal :: "nat \<Rightarrow> string" where
  "decimal n = (if n < 10 then [char_of (48 + n)] else decimal (n div 10) @ [char_of (48 + n mod 10)])"

declare decimal.simps [simp del]

subsection \<open>The clock\<close>

text \<open>
  Every reading the code takes from \<^verbatim>\<open>new Date()\<close>, \<^verbatim>\<open>Date.now()\<close> and SQL \<^verbatim>\<open>NOW()\<close> during
  one request. \<^verbatim>\<open>toISOString\<close> reads UTC while \<^verbatim>\<open>toTimeString\<close>, \<^verbatim>\<open>getDay\<close>, \<^verbatim>\<open>getMonth\<close> and
  \<^verbatim>\<open>getFullYear\<close> read local time, so the readings are independent fields.
\<close>

record clock =
  toISODate :: string      \<comment> \<open>\<^verbatim>\<open>now.toISOString().split('T')[0]\<close>\<close>
  getHours :: nat
  getMinutes :: nat
  getDay :: nat            \<comment> \<open>Sunday is 0\<close>
  getMonth :: nat          \<comment> \<open>January is 0\<close>
  getFullYear :: nat
  Date_now :: nat          \<comment> \<open>milliseconds since the epoch\<close>
  sql_NOW :: string

definition pad2 :: "nat \<Rightarrow> string" where
  "pad2 n = [char_of (48 + n div 10), char_of (48 + n mod 10)]"

text \<open>\<^verbatim>\<open>now.toTimeString().slice(0, 5)\<close>, the local time as \<^verbatim>\<open>HH:MM\<close>.\<close>

definition timeString :: "clock \<Rightarrow> string" where
  "timeString c = pad2 (getHours c) @ '':'' @ pad2 (getMinutes c)"

section \<open>Data model\<close>

text \<open>
  The shapes of \<^verbatim>\<open>lib/types\<close> as the row mappers and the object literals of the code
  show them. Field names shared by several shapes carry a prefix. The \<^verbatim>\<open>overtime\<close> field
  of an attendance record is \<^verbatim>\<open>null\<close> wherever the code writes it and is left out. The
  hours of a record are a number in local storage and the text of a \<^verbatim>\<open>DECIMAL\<close> column in
  the answers of the routes (see the rows below); the type parameter is that type.
\<close>

datatype Role = employee | admin

record User =
  user_id_of :: string
  role :: Role

record Location =
  latitude :: number
  longitude :: number
  address :: string

record CheckEvent =
  time :: string
  photo :: string
  location :: Location

datatype AttendanceStatus = present | late | absent | holiday

record 'h AttendanceRecord =
  rec_id :: string
  userId :: string
  date :: string
  checkIn :: "CheckEvent option"
  checkOut :: "CheckEvent option"
  status :: AttendanceStatus
  workHours :: 'h

datatype OvertimeStatus = pending | approved | rejected

record 'h OvertimeRecord =
  ot_rec_id :: string
  ot_userId :: string
  ot_date :: string
  startTime :: string
  endTime :: "string option"
  ot_duration :: 'h
  ot_reason :: string
  ot_status :: OvertimeStatus
  approvedBy :: "string option"

subsection \<open>Rows of the MySQL tables\<close>

text \<open>
  A row is what the driver hands to the route. \<^verbatim>\<open>mysql2\<close> as \<^verbatim>\<open>lib/db.ts\<close> sets it up (no
  \<^verbatim>\<open>decimalNumbers\<close>) returns a \<^verbatim>\<open>DECIMAL\<close> column as text with the digits of the column's
  scale: \<^verbatim>\<open>work_hours\<close>, \<^verbatim>\<open>min_work_hours\<close> and \<^verbatim>\<open>duration\<close> are strings such as \<^verbatim>\<open>'8.00'\<close>,
  whatever the row interfaces of the routes declare. A number written to such a column
  is kept rounded to two places, half away from zero (\<open>DECIMAL_scale_2\<close>); MySQL has no
  \<^verbatim>\<open>NaN\<close>, and a statement that is given one fails, here \<open>None\<close>.

  Not modelled: the precision of the columns (hours stay far below the 999.99 that
  \<^verbatim>\<open>DECIMAL(5,2)\<close> holds), the \<^verbatim>\<open>HH:MM:SS\<close> rendering of \<^verbatim>\<open>TIME\<close> (the theorems below are stated
  for time strings with and without seconds), and the latitude and longitude columns,
  which the code only stores and returns: they keep the numbers of the request.
\<close>

definition DECIMAL_scale_2 :: "number \<Rightarrow> string option" where
  "DECIMAL_scale_2 v =
     (case v of
        NaN \<Rightarrow> None
      | Num x \<Rightarrow>
          (let hundredths = nat \<lfloor>\<bar>x\<bar> * 100 + 1 / 2\<rfloor>
           in Some ((if x < 0 \<and> 0 < hundredths then ''-'' else [])
                    @ decimal (hundredths div 100) @ ''.'' @ pad2 (hundredths mod 100))))"

record AttendanceRow =
  att_id :: string
  att_user_id :: string
  att_date :: string
  check_in_time :: "string option"
  check_in_photo :: "string option"
  check_in_latitude :: "number option"
  check_in_longitude :: "number option"
  check_in_address :: "string option"
  check_out_time :: "string option"
  check_out_photo :: "string option"
  check_out_latitude :: "number option"
  check_out_longitude :: "number option"
  check_out_address :: "string option"
  att_status :: AttendanceStatus
  work_hours :: string

record WorkScheduleRow =
  day_of_week :: nat
  start_time :: string
  end_time :: string
  min_work_hours :: string

record OvertimeRow =
  ovt_id :: string
  ovt_user_id :: string
  ovt_date :: string
  ovt_start_time :: string
  ovt_end_time :: "string option"
  duration :: string
  reason :: string
  ovt_status :: OvertimeStatus
  approved_by :: "string option"
  approved_at :: "string option"

record db =
  attendance_records :: "AttendanceRow list"
  overtime_records :: "OvertimeRow list"
  work_schedules :: "WorkScheduleRow list"

text \<open>\<^verbatim>\<open>queryOne\<close> of \<^verbatim>\<open>lib/db.ts\<close>: the first row of the result, or \<^verbatim>\<open>null\<close>.\<close>

definition queryOne :: "'a list \<Rightarrow> 'a option" where
  "queryOne results = (case results of [] \<Rightarrow> None | r # _ \<Rightarrow> Some r)"

definition mapRowToAttendanceRecord :: "AttendanceRow \<Rightarrow> string AttendanceRecord" where
  "mapRowToAttendanceRecord row =
     \<lparr> rec_id = att_id row,
       userId = att_user_id row,
       date = att_date row,
       checkIn = (case check_in_time row of
                    Some t \<Rightarrow> (if truthy_string t
                      then Some \<lparr> time = t,
                                  photo = or_string (check_in_photo row) [],
                                  location = \<lparr> latitude = or_number (check_in_latitude row) (Num 0),
                                               longitude = or_number (check_in_longitude row) (Num 0),
                                               address = or_string (check_in_address row) [] \<rparr> \<rparr>
                      else None)
                  | None \<Rightarrow> None),
       checkOut = (case check_out_time row of
                    Some t \<Rightarrow> (if truthy_string t
                      then Some \<lparr> time = t,
                                  photo = or_string (check_out_photo row) [],
                                  location = \<lparr> latitude = or_number (check_out_latitude row) (Num 0),
                                               longitude = or_number (check_out_longitude row) (Num 0),
                                               address = or_string (check_out_address row) [] \<rparr> \<rparr>
                      else None)
                  | None \<Rightarrow> None),
       status = att_status row,
       workHours = work_hours row \<rparr>"

definition mapRowToOvertimeRecord :: "OvertimeRow \<Rightarrow> string OvertimeRecord" where
  "mapRowToOvertimeRecord row =
     \<lparr> ot_rec_id = ovt_id row,
       ot_userId = ovt_user_id row,
       ot_date = ovt_date row,
       startTime = ovt_start_time row,
       endTime = ovt_end_time row,
       ot_duration = duration row,
       ot_reason = reason row,
       ot_status = ovt_status row,
       approvedBy = approved_by row \<rparr>"

subsection \<open>Failures\<close>

text \<open>
  The routes answer a failure with a message and an HTTP status. Each constructor stands
  for one message of the code, named after the failure kind it reports; the values the
  message interpolates are its arguments.
\<close>

datatype timeRemaining =
    JamMenit number number   \<comment> \<open>\<^verbatim>\<open>`${hours} jam ${minutes} menit`\<close>\<close>
  | Menit number             \<comment> \<open>\<^verbatim>\<open>`${minutes} menit`\<close>\<close>

datatype error =
    Unauthenticated          \<comment> \<open>401 \<^verbatim>\<open>Tidak terautentikasi\<close>\<close>
  | ScheduleMissing          \<comment> \<open>400 \<^verbatim>\<open>Jadwal kerja tidak ditemukan\<close>\<close>
  | AlreadyCheckedIn         \<comment> \<open>400 \<^verbatim>\<open>Anda sudah melakukan check-in hari ini\<close>\<close>
  | NotCheckedIn             \<comment> \<open>400 \<^verbatim>\<open>Anda belum melakukan check-in hari ini\<close>\<close>
  | AlreadyCheckedOut        \<comment> \<open>400 \<^verbatim>\<open>Anda sudah melakukan check-out hari ini\<close>\<close>
  | MinimumHoursNotMet jsvalue timeRemaining
      \<comment> \<open>400 \<^verbatim>\<open>Anda belum memenuhi jam kerja minimal (${min} jam). Sisa waktu: ${timeRemaining}\<close>\<close>
  | InvalidAction            \<comment> \<open>400 \<^verbatim>\<open>Action tidak valid\<close>\<close>
  | ServerError              \<comment> \<open>500 \<^verbatim>\<open>Terjadi kesalahan server\<close>, the \<^verbatim>\<open>catch\<close> of every route\<close>
  | ReasonRequired           \<comment> \<open>400 \<^verbatim>\<open>Alasan lembur wajib diisi\<close>\<close>
  | CheckInRequired          \<comment> \<open>400 \<^verbatim>\<open>Anda harus check-in terlebih dahulu\<close>\<close>
  | CheckOutRequired         \<comment> \<open>400 \<^verbatim>\<open>Anda harus check-out terlebih dahulu\<close>\<close>
  | OvertimeMinimumHoursNotMet jsvalue
      \<comment> \<open>400 \<^verbatim>\<open>Anda harus memenuhi minimal ${min} jam kerja sebelum lembur\<close>\<close>
  | OvertimeAlreadyOpen      \<comment> \<open>400 \<^verbatim>\<open>Anda sudah memiliki lembur yang sedang berjalan\<close>\<close>
  | NoOpenOvertime           \<comment> \<open>400 \<^verbatim>\<open>Tidak ada lembur yang sedang berjalan\<close>\<close>
  | Forbidden                \<comment> \<open>403 \<^verbatim>\<open>Akses ditolak\<close>\<close>
  | OvertimeIdRequired       \<comment> \<open>400 \<^verbatim>\<open>ID lembur wajib diisi\<close>\<close>
  | RecordNotFound           \<comment> \<open>404 \<^verbatim>\<open>Data lembur tidak ditemukan\<close>\<close>

datatype 'r response = Success 'r string | Failure error

section \<open>The attendance route (\<^verbatim>\<open>app/api/attendance/route.ts\<close>)\<close>

text \<open>
  The request body. A field the client left out is \<^verbatim>\<open>undefined\<close> in the code; the empty
  string stands for it, which every test of the routes on these fields treats alike.
\<close>

record AttendanceBody =
  action :: string
  body_photo :: string
  body_location :: Location

subsection \<open>The SQL statements\<close>

text \<open>\<^verbatim>\<open>SELECT * FROM work_schedules WHERE day_of_week = ?\<close>\<close>

definition select_schedule :: "db \<Rightarrow> nat \<Rightarrow> WorkScheduleRow list" where
  "select_schedule d dayOfWeek = filter (\<lambda>s. day_of_week s = dayOfWeek) (work_schedules d)"

text \<open>\<^verbatim>\<open>SELECT * FROM attendance_records WHERE user_id = ? AND date = ?\<close>\<close>

definition select_attendance :: "db \<Rightarrow> string \<Rightarrow> string \<Rightarrow> AttendanceRow list" where
  "select_attendance d uid today =
     filter (\<lambda>r. att_user_id r = uid \<and> att_date r = today) (attendance_records d)"

text \<open>\<^verbatim>\<open>SELECT * FROM attendance_records WHERE id = ?\<close>\<close>

definition select_attendance_by_id :: "db \<Rightarrow> string \<Rightarrow> AttendanceRow list" where
  "select_attendance_by_id d i = filter (\<lambda>r. att_id r = i) (attendance_records d)"

text \<open>\<^verbatim>\<open>UPDATE attendance_records SET check_in_time = ?, check_in_photo = ?, check_in_latitude = ?,
  check_in_longitude = ?, check_in_address = ?, status = ? WHERE id = ?\<close>\<close>

definition update_check_in ::
  "db \<Rightarrow> string \<Rightarrow> string \<Rightarrow> Location \<Rightarrow> AttendanceStatus \<Rightarrow> string \<Rightarrow> db" where
  "update_check_in d t p loc st i =
     d\<lparr>attendance_records :=
         map (\<lambda>r. if att_id r = i
                  then r\<lparr>check_in_time := Some t, check_in_photo := Some p,
                         check_in_latitude := Some (latitude loc),
                         check_in_longitude := Some (longitude loc),
                         check_in_address := Some (address loc), att_status := st\<rparr>
                  else r)
             (attendance_records d)\<rparr>"

text \<open>
  \<^verbatim>\<open>INSERT INTO attendance_records (id, user_id, date, check_in_time, check_in_photo,
  check_in_latitude, check_in_longitude, check_in_address, status) VALUES (...)\<close>. The
  other columns take their defaults (\<^verbatim>\<open>NULL\<close>, \<^verbatim>\<open>work_hours\<close> 0.00). The table has
  \<^verbatim>\<open>PRIMARY KEY (id)\<close> and \<^verbatim>\<open>UNIQUE KEY (user_id, date)\<close>: a duplicate makes the statement
  throw, here \<open>None\<close>.
\<close>

definition insert_attendance ::
  "db \<Rightarrow> string \<Rightarrow> string \<Rightarrow> string \<Rightarrow> string \<Rightarrow> string \<Rightarrow> Location \<Rightarrow> AttendanceStatus
     \<Rightarrow> db option" where
  "insert_attendance d i uid today t p loc st =
     (if list_ex (\<lambda>r. att_id r = i \<or> (att_user_id r = uid \<and> att_date r = today))
                 (attendance_records d)
      then None
      else Some (d\<lparr>attendance_records := attendance_records d @
             [\<lparr> att_id = i, att_user_id = uid, att_date = today,
                check_in_time = Some t, check_in_photo = Some p,
                check_in_latitude = Some (latitude loc),
                check_in_longitude = Some (longitude loc),
                check_in_address = Some (address loc),
                check_out_time = None, check_out_photo = None,
                check_out_latitude = None, check_out_longitude = None,
                check_out_address = None,
                att_status = st, work_hours = ''0.00'' \<rparr>]\<rparr>))"

text \<open>\<^verbatim>\<open>UPDATE attendance_records SET check_out_time = ?, check_out_photo = ?,
  check_out_latitude = ?, check_out_longitude = ?, check_out_address = ?, work_hours = ?
  WHERE id = ?\<close>, the hours as the column keeps them.\<close>

definition update_check_out ::
  "db \<Rightarrow> string \<Rightarrow> string \<Rightarrow> Location \<Rightarrow> string \<Rightarrow> string \<Rightarrow> db" where
  "update_check_out d t p loc wh i =
     d\<lparr>attendance_records :=
         map (\<lambda>r. if att_id r = i
                  then r\<lparr>check_out_time := Some t, check_out_photo := Some p,
                         check_out_latitude := Some (latitude loc),
                         check_out_longitude := Some (longitude loc),
                         check_out_address := Some (address loc), work_hours := wh\<rparr>
                  else r)
             (attendance_records d)\<rparr>"

subsection \<open>The arithmetic of check-out\<close>

text \<open>Lines 226 to 230: the hours between the stored check-in time and now.\<close>

definition workHours_between :: "string \<Rightarrow> string \<Rightarrow> number" where
  "workHours_between check_in timeStr =
     (let checkInTime = map Number (split_colon check_in);
          checkOutTime = map Number (split_colon timeStr);
          checkInMinutes = js_add (js_mul (at_index checkInTime 0) (Num 60)) (at_index checkInTime 1);
          checkOutMinutes = js_add (js_mul (at_index checkOutTime 0) (Num 60)) (at_index checkOutTime 1)
      in js_div (js_sub checkOutMinutes checkInMinutes) (Num 60))"

text \<open>Lines 234 to 240: the time still to work, as the message renders it. The minimum
  is the number that \<^verbatim>\<open>-\<close> reads from the schedule's text.\<close>

definition remaining_time :: "number \<Rightarrow> number \<Rightarrow> timeRemaining" where
  "remaining_time minWorkHours workHrs =
     (let remainingHours = js_sub minWorkHours workHrs;
          remainingMinutes = Math_ceil (js_mul remainingHours (Num 60));
          hours = Math_floor (js_div remainingMinutes (Num 60));
          minutes = js_rem remainingMinutes (Num 60)
      in if js_gt hours (Num 0) then JamMenit hours minutes else Menit minutes)"

subsection \<open>\<^verbatim>\<open>POST\<close>: check-in and check-out\<close>

text \<open>The branch \<^verbatim>\<open>action === 'check-in'\<close> (lines 152 to 202).\<close>

definition check_in_action ::
  "db \<Rightarrow> User \<Rightarrow> AttendanceBody \<Rightarrow> clock \<Rightarrow> WorkScheduleRow
     \<Rightarrow> db \<times> string AttendanceRecord response" where
  "check_in_action d currentUser body c schedule =
     (let today = toISODate c;
          timeStr = timeString c;
          existing = queryOne (select_attendance d (user_id_of currentUser) today)
      in if (case existing of Some e \<Rightarrow> truthy (check_in_time e) | None \<Rightarrow> False)
         then (d, Failure AlreadyCheckedIn)
         else
           let isLate = string_gt timeStr (start_time schedule);
               st = (if isLate then late else present);
               recordId = ''att-'' @ decimal (Date_now c);
               written =
                 (case existing of
                    Some e \<Rightarrow> Some (update_check_in d timeStr (body_photo body)
                                      (body_location body) st (att_id e))
                  | None \<Rightarrow> insert_attendance d recordId (user_id_of currentUser) today timeStr
                              (body_photo body) (body_location body) st)
           in (case written of
                 None \<Rightarrow> (d, Failure ServerError)
               | Some d' \<Rightarrow>
                   (case queryOne (select_attendance d' (user_id_of currentUser) today) of
                      None \<Rightarrow> (d', Failure ServerError)
                    | Some updatedRecord \<Rightarrow>
                        (d', Success (mapRowToAttendanceRecord updatedRecord)
                               (if isLate then ''Check-in berhasil (Terlambat)''
                                else ''Check-in berhasil'')))))"

text \<open>The branch \<^verbatim>\<open>action === 'check-out'\<close> (lines 204 to 267).\<close>

definition check_out_action ::
  "db \<Rightarrow> User \<Rightarrow> AttendanceBody \<Rightarrow> clock \<Rightarrow> WorkScheduleRow
     \<Rightarrow> db \<times> string AttendanceRecord response" where
  "check_out_action d currentUser body c schedule =
     (let today = toISODate c;
          timeStr = timeString c
      in case queryOne (select_attendance d (user_id_of currentUser) today) of
           None \<Rightarrow> (d, Failure NotCheckedIn)
         | Some existing \<Rightarrow>
            (case check_in_time existing of
               None \<Rightarrow> (d, Failure NotCheckedIn)
             | Some check_in \<Rightarrow>
                if \<not> truthy_string check_in then (d, Failure NotCheckedIn)
                else if truthy (check_out_time existing) then (d, Failure AlreadyCheckedOut)
                else
                  let workHrs = workHours_between check_in timeStr
                  in if js_less (Numeric workHrs) (Text (min_work_hours schedule))
                     then (d, Failure (MinimumHoursNotMet (Text (min_work_hours schedule))
                                         (remaining_time (Number (min_work_hours schedule)) workHrs)))
                     else
                       (case DECIMAL_scale_2 (Math_max (Num 0) workHrs) of
                          None \<Rightarrow> (d, Failure ServerError)
                        | Some hours \<Rightarrow>
                           let d' = update_check_out d timeStr (body_photo body) (body_location body)
                                      hours (att_id existing)
                           in (case queryOne (select_attendance_by_id d' (att_id existing)) of
                                 None \<Rightarrow> (d', Failure ServerError)
                               | Some updatedRecord \<Rightarrow>
                                   (d', Success (mapRowToAttendanceRecord updatedRecord)
                                          ''Check-out berhasil'')))))"

text \<open>
  The handler: the session, then the schedule of the local weekday, then the action.
  The state it returns is the database after the request.
\<close>

definition attendance_POST ::
  "db \<Rightarrow> User option \<Rightarrow> AttendanceBody \<Rightarrow> clock \<Rightarrow> db \<times> string AttendanceRecord response" where
  "attendance_POST d session body c =
     (case session of
        None \<Rightarrow> (d, Failure Unauthenticated)
      | Some currentUser \<Rightarrow>
         (case queryOne (select_schedule d (getDay c)) of
            None \<Rightarrow> (d, Failure ScheduleMissing)
          | Some schedule \<Rightarrow>
              if action body = ''check-in'' then check_in_action d currentUser body c schedule
              else if action body = ''check-out'' then check_out_action d currentUser body c schedule
              else (d, Failure InvalidAction)))"

section \<open>The overtime route\<close>

record OvertimeBody =
  put_action :: string
  overtimeId :: string

text \<open>\<^verbatim>\<open>SELECT * FROM overtime_records WHERE user_id = ? AND date = ? AND end_time IS NULL\<close>\<close>

definition select_open_overtime :: "db \<Rightarrow> string \<Rightarrow> string \<Rightarrow> OvertimeRow list" where
  "select_open_overtime d uid today =
     filter (\<lambda>r. ovt_user_id r = uid \<and> ovt_date r = today \<and> ovt_end_time r = None)
            (overtime_records d)"

text \<open>\<^verbatim>\<open>SELECT * FROM overtime_records WHERE id = ?\<close>\<close>

definition select_overtime_by_id :: "db \<Rightarrow> string \<Rightarrow> OvertimeRow list" where
  "select_overtime_by_id d i = filter (\<lambda>r. ovt_id r = i) (overtime_records d)"

text \<open>
  \<^verbatim>\<open>INSERT INTO overtime_records (id, user_id, date, start_time, reason, status)
  VALUES (?, ?, ?, ?, ?, 'pending')\<close>, the other columns at their defaults; the table has
  \<^verbatim>\<open>PRIMARY KEY (id)\<close> and no other unique key.
\<close>

definition insert_overtime ::
  "db \<Rightarrow> string \<Rightarrow> string \<Rightarrow> string \<Rightarrow> string \<Rightarrow> string \<Rightarrow> db option" where
  "insert_overtime d i uid today t why =
     (if list_ex (\<lambda>r. ovt_id r = i) (overtime_records d) then None
      else Some (d\<lparr>overtime_records := overtime_records d @
             [\<lparr> ovt_id = i, ovt_user_id = uid, ovt_date = today, ovt_start_time = t,
                ovt_end_time = None, duration = ''0.00'', reason = why, ovt_status = pending,
                approved_by = None, approved_at = None \<rparr>]\<rparr>))"

text \<open>\<^verbatim>\<open>UPDATE overtime_records SET end_time = ?, duration = ? WHERE id = ?\<close>, the
  duration as the column keeps it.\<close>

definition update_overtime_end :: "db \<Rightarrow> string \<Rightarrow> string \<Rightarrow> string \<Rightarrow> db" where
  "update_overtime_end d t dur i =
     d\<lparr>overtime_records :=
         map (\<lambda>r. if ovt_id r = i then r\<lparr>ovt_end_time := Some t, duration := dur\<rparr> else r)
             (overtime_records d)\<rparr>"

text \<open>\<^verbatim>\<open>UPDATE overtime_records SET status = ?, approved_by = ?, approved_at = NOW()
  WHERE id = ?\<close>\<close>

definition update_overtime_status :: "db \<Rightarrow> OvertimeStatus \<Rightarrow> string \<Rightarrow> string \<Rightarrow> string \<Rightarrow> db" where
  "update_overtime_status d st approver now i =
     d\<lparr>overtime_records :=
         map (\<lambda>r. if ovt_id r = i
                  then r\<lparr>ovt_status := st, approved_by := Some approver, approved_at := Some now\<rparr>
                  else r)
             (overtime_records d)\<rparr>"

subsection \<open>\<^verbatim>\<open>POST\<close>: start overtime\<close>

text \<open>
  Lines 95 to 188. The hours worked and the schedule's minimum are the texts of their
  \<^verbatim>\<open>DECIMAL\<close> columns: \<^verbatim>\<open>schedule?.min_work_hours || 8\<close> is the text of the row when there is a
  row (a text with digits is truthy) and the number 8 when there is none, and
  \<^verbatim>\<open>attendance.work_hours < ...\<close> compares two strings in the first case and two numbers in
  the second.
\<close>

definition overtime_POST ::
  "db \<Rightarrow> User option \<Rightarrow> string \<Rightarrow> clock \<Rightarrow> db \<times> string OvertimeRecord response" where
  "overtime_POST d session why c =
     (case session of
        None \<Rightarrow> (d, Failure Unauthenticated)
      | Some currentUser \<Rightarrow>
         if \<not> truthy_string why then (d, Failure ReasonRequired)
         else
           let today = toISODate c;
               timeStr = timeString c;
               dayOfWeek = getDay c
           in (case queryOne (select_attendance d (user_id_of currentUser) today) of
                 None \<Rightarrow> (d, Failure CheckInRequired)
               | Some attendance \<Rightarrow>
                  if \<not> truthy (check_in_time attendance) then (d, Failure CheckInRequired)
                  else if \<not> truthy (check_out_time attendance) then (d, Failure CheckOutRequired)
                  else
                    let schedule = queryOne (select_schedule d dayOfWeek);
                        minimum = or_text_number (map_option min_work_hours schedule) (Num 8)
                    in if js_less (Text (work_hours attendance)) minimum
                       then (d, Failure (OvertimeMinimumHoursNotMet minimum))
                       else
                         (case queryOne (select_open_overtime d (user_id_of currentUser) today) of
                            Some existingOvertime \<Rightarrow> (d, Failure OvertimeAlreadyOpen)
                          | None \<Rightarrow>
                             let newId = ''ot-'' @ decimal (Date_now c)
                             in (case insert_overtime d newId (user_id_of currentUser) today
                                        timeStr why of
                                   None \<Rightarrow> (d, Failure ServerError)
                                 | Some d' \<Rightarrow>
                                    (case queryOne (select_overtime_by_id d' newId) of
                                       None \<Rightarrow> (d', Failure ServerError)
                                     | Some newRecord \<Rightarrow>
                                        (d', Success (mapRowToOvertimeRecord newRecord)
                                               ''Lembur dimulai''))))))"

subsection \<open>\<^verbatim>\<open>PUT\<close>: end overtime, approve or reject\<close>

text \<open>The branch \<^verbatim>\<open>action === 'end'\<close> (lines 209 to 247).\<close>

definition end_action :: "db \<Rightarrow> User \<Rightarrow> clock \<Rightarrow> db \<times> string OvertimeRecord response" where
  "end_action d currentUser c =
     (let today = toISODate c;
          timeStr = timeString c
      in case queryOne (select_open_overtime d (user_id_of currentUser) today) of
           None \<Rightarrow> (d, Failure NoOpenOvertime)
         | Some overtime \<Rightarrow>
            let startMinutes =
                  js_add (js_mul (parseInt (at_string (split_colon (ovt_start_time overtime)) 0)) (Num 60))
                         (parseInt (at_string (split_colon (ovt_start_time overtime)) 1));
                endMinutes =
                  js_add (js_mul (parseInt (at_string (split_colon timeStr) 0)) (Num 60))
                         (parseInt (at_string (split_colon timeStr) 1));
                dur = Math_max (Num 0) (js_div (js_sub endMinutes startMinutes) (Num 60))
            in (case DECIMAL_scale_2 dur of
                  None \<Rightarrow> (d, Failure ServerError)
                | Some hours \<Rightarrow>
                   let d' = update_overtime_end d timeStr hours (ovt_id overtime)
                   in (case queryOne (select_overtime_by_id d' (ovt_id overtime)) of
                         None \<Rightarrow> (d', Failure ServerError)
                       | Some updatedRecord \<Rightarrow>
                           (d', Success (mapRowToOvertimeRecord updatedRecord) ''Lembur selesai''))))"

text \<open>
  The branch \<^verbatim>\<open>action === 'approve' || action === 'reject'\<close> (lines 249 to 289);
  \<^verbatim>\<open>isAdmin\<close> of \<^verbatim>\<open>lib/auth\<close> is \<^verbatim>\<open>user?.role === 'admin'\<close>.
\<close>

definition decide_action ::
  "db \<Rightarrow> User \<Rightarrow> OvertimeBody \<Rightarrow> clock \<Rightarrow> db \<times> string OvertimeRecord response" where
  "decide_action d currentUser body c =
     (if role currentUser \<noteq> admin then (d, Failure Forbidden)
      else if \<not> truthy_string (overtimeId body) then (d, Failure OvertimeIdRequired)
      else
        let st = (if put_action body = ''approve'' then approved else rejected);
            d' = update_overtime_status d st (user_id_of currentUser) (sql_NOW c) (overtimeId body)
        in (case queryOne (select_overtime_by_id d' (overtimeId body)) of
              None \<Rightarrow> (d', Failure RecordNotFound)
            | Some updatedRecord \<Rightarrow>
                (d', Success (mapRowToOvertimeRecord updatedRecord)
                       (''Lembur '' @ (if st = approved then ''disetujui'' else ''ditolak'')))))"

definition overtime_PUT ::
  "db \<Rightarrow> User option \<Rightarrow> OvertimeBody \<Rightarrow> clock \<Rightarrow> db \<times> string OvertimeRecord response" where
  "overtime_PUT d session body c =
     (case session of
        None \<Rightarrow> (d, Failure Unauthenticated)
      | Some currentUser \<Rightarrow>
          if put_action body = ''end'' then end_action d currentUser c
          else if put_action body = ''approve'' \<or> put_action body = ''reject''
          then decide_action d currentUser body c
          else (d, Failure InvalidAction))"

section \<open>Statistics (\<^verbatim>\<open>getAttendanceStats\<close> of \<^verbatim>\<open>lib/data-store.ts\<close>)\<close>

text \<open>
  \<^verbatim>\<open>new Date(a.date)\<close> on the date-only form \<^verbatim>\<open>YYYY-MM-DD\<close>, which is what the code stores
  (the first half of \<^verbatim>\<open>toISOString()\<close>). JavaScript reads such a string as midnight UTC
  and \<^verbatim>\<open>getMonth\<close> and \<^verbatim>\<open>getFullYear\<close> answer in local time: the local zone is taken to be
  UTC or ahead of it (the deployment runs in UTC+7), where the local calendar date is
  the stored one. A string that is not the ISO form of a calendar date is an invalid
  date here, and its month and year are \<^verbatim>\<open>NaN\<close>.
\<close>

definition leap_year :: "nat \<Rightarrow> bool" where
  "leap_year y = (y mod 4 = 0 \<and> (y mod 100 \<noteq> 0 \<or> y mod 400 = 0))"

definition days_in_month :: "nat \<Rightarrow> nat \<Rightarrow> nat" where
  "days_in_month y m =
     (if m = 2 then (if leap_year y then 29 else 28)
      else if m = 4 \<or> m = 6 \<or> m = 9 \<or> m = 11 then 30 else 31)"

definition new_Date :: "string \<Rightarrow> (nat \<times> nat \<times> nat) option" where
  "new_Date s =
     (let y = take 4 s; m = take 2 (drop 5 s); dd = drop 8 s
      in if length s = 10 \<and> s ! 4 = CHR ''-'' \<and> s ! 7 = CHR ''-''
            \<and> list_all is_digit y \<and> list_all is_digit m \<and> list_all is_digit dd
            \<and> 1 \<le> digits_val m \<and> digits_val m \<le> 12
            \<and> 1 \<le> digits_val dd \<and> digits_val dd \<le> days_in_month (digits_val y) (digits_val m)
         then Some (digits_val y, digits_val m, digits_val dd)
         else None)"

definition Date_getMonth :: "string \<Rightarrow> number" where
  "Date_getMonth s = (case new_Date s of Some (y, m, dd) \<Rightarrow> Num (of_nat (m - 1)) | None \<Rightarrow> NaN)"

definition Date_getFullYear :: "string \<Rightarrow> number" where
  "Date_getFullYear s = (case new_Date s of Some (y, m, dd) \<Rightarrow> Num (of_nat y) | None \<Rightarrow> NaN)"

record AttendanceStats =
  stats_present :: nat
  stats_late :: nat
  stats_absent :: nat
  totalWorkHours :: number
  total :: nat

text \<open>
  The first argument is what \<^verbatim>\<open>getAttendanceRecords()\<close> reads from local storage. The
  three optional parameters are \<open>None\<close> when the caller leaves them out.
\<close>

definition getAttendanceStats ::
  "number AttendanceRecord list \<Rightarrow> clock \<Rightarrow> string option \<Rightarrow> number option \<Rightarrow> number option
     \<Rightarrow> AttendanceStats" where
  "getAttendanceStats stored now uid month year =
     (let targetMonth = (case month of Some m \<Rightarrow> m | None \<Rightarrow> Num (of_nat (getMonth now)));
          targetYear = (case year of Some y \<Rightarrow> y | None \<Rightarrow> Num (of_nat (getFullYear now)));
          records = stored;
          records = (if truthy uid then filter (\<lambda>a. Some (userId a) = uid) records else records);
          records = filter (\<lambda>a. js_strict_eq (Date_getMonth (date a)) targetMonth
                                \<and> js_strict_eq (Date_getFullYear (date a)) targetYear) records
      in \<lparr> stats_present = length (filter (\<lambda>a. status a = present) records),
           stats_late = length (filter (\<lambda>a. status a = late) records),
           stats_absent = length (filter (\<lambda>a. status a = absent) records),
           totalWorkHours = foldl (\<lambda>sum a. js_add sum (workHours a)) (Num 0) records,
           total = length records \<rparr>)"

section \<open>The local-storage operations (\<^verbatim>\<open>lib/data-store.ts\<close>)\<close>

text \<open>
  The in-browser variant of the same operations. The state is what local storage holds
  under the attendance, overtime and schedule keys; \<^verbatim>\<open>getWorkSchedules\<close> yields the stored
  schedules or \<^verbatim>\<open>DEFAULT_WORK_SCHEDULES\<close> of \<^verbatim>\<open>lib/types\<close>, and the field here is that
  array, read at the index of the weekday. A function returns the record, or an object
  with an \<^verbatim>\<open>error\<close> message, or throws when it reads a field of \<^verbatim>\<open>undefined\<close> (the
  schedule at an index the array does not have); nothing is stored before a throw.
\<close>

record WorkSchedule =
  dayOfWeek :: nat
  sched_startTime :: string
  sched_endTime :: string
  minWorkHours :: number

record storage =
  ATTENDANCE :: "number AttendanceRecord list"
  OVERTIME :: "number OvertimeRecord list"
  WORK_SCHEDULES :: "WorkSchedule list"

datatype 'r result = Returns 'r | ReturnsError error | Throws

fun findIndex :: "('a \<Rightarrow> bool) \<Rightarrow> 'a list \<Rightarrow> nat option" where
  "findIndex P [] = None"
| "findIndex P (x # xs) = (if P x then Some 0 else map_option Suc (findIndex P xs))"

definition at_schedule :: "WorkSchedule list \<Rightarrow> nat \<Rightarrow> WorkSchedule option" where
  "at_schedule schedules i = (if i < length schedules then Some (schedules ! i) else None)"

text \<open>
  The functions change the object that \<^verbatim>\<open>find\<close> returned, which is the element of the
  array at the position where it was found, and then assign it to
  \<^verbatim>\<open>records[findIndex(same id)]\<close>: both positions hold the changed record afterwards.
\<close>

definition write_back :: "'a list \<Rightarrow> ('a \<Rightarrow> bool) \<Rightarrow> ('a \<Rightarrow> bool) \<Rightarrow> 'a \<Rightarrow> 'a list" where
  "write_back records found same_id changed =
     (let mutated = (case findIndex found records of
                       Some j \<Rightarrow> records[j := changed] | None \<Rightarrow> records)
      in case findIndex same_id mutated of
           Some index \<Rightarrow> mutated[index := changed] | None \<Rightarrow> mutated)"

text \<open>\<^verbatim>\<open>checkIn\<close> (lines 220 to 269).\<close>

definition checkIn_fn ::
  "storage \<Rightarrow> clock \<Rightarrow> string \<Rightarrow> string \<Rightarrow> Location
     \<Rightarrow> storage \<times> number AttendanceRecord result" where
  "checkIn_fn st now uid ph loc =
     (let records = ATTENDANCE st;
          today = toISODate now;
          timeStr = timeString now;
          existing = find (\<lambda>a. userId a = uid \<and> date a = today) records
      in if (case existing of Some a \<Rightarrow> checkIn a \<noteq> None | None \<Rightarrow> False)
         then (st, ReturnsError AlreadyCheckedIn)
         else (case at_schedule (WORK_SCHEDULES st) (getDay now) of
                 None \<Rightarrow> (st, Throws)
               | Some schedule \<Rightarrow>
                  (let isLate = string_gt timeStr (sched_startTime schedule);
                       fresh = \<lparr> rec_id = ''att-'' @ decimal (Date_now now), userId = uid,
                                 date = today, checkIn = None, checkOut = None,
                                 status = present, workHours = Num 0 \<rparr>;
                       changed = (case existing of Some a \<Rightarrow> a | None \<Rightarrow> fresh)
                                   \<lparr>checkIn := Some \<lparr> time = timeStr, photo = ph, location = loc \<rparr>,
                                    status := (if isLate then late else present)\<rparr>
                   in (case existing of
                         Some a \<Rightarrow>
                           (st\<lparr>ATTENDANCE :=
                                 write_back records (\<lambda>a. userId a = uid \<and> date a = today)
                                   (\<lambda>b. rec_id b = rec_id a) changed\<rparr>,
                            Returns changed)
                       | None \<Rightarrow> (st\<lparr>ATTENDANCE := records @ [changed]\<rparr>, Returns changed)))))"

text \<open>\<^verbatim>\<open>checkOut\<close> (lines 271 to 325).\<close>

definition checkOut_fn ::
  "storage \<Rightarrow> clock \<Rightarrow> string \<Rightarrow> string \<Rightarrow> Location
     \<Rightarrow> storage \<times> number AttendanceRecord result" where
  "checkOut_fn st now uid ph loc =
     (let records = ATTENDANCE st;
          today = toISODate now;
          timeStr = timeString now
      in case find (\<lambda>a. userId a = uid \<and> date a = today) records of
           None \<Rightarrow> (st, ReturnsError NotCheckedIn)
         | Some existing \<Rightarrow>
            (case checkIn existing of
               None \<Rightarrow> (st, ReturnsError NotCheckedIn)
             | Some event \<Rightarrow>
                if checkOut existing \<noteq> None then (st, ReturnsError AlreadyCheckedOut)
                else
                  (let workHrs = workHours_between (time event) timeStr
                   in case at_schedule (WORK_SCHEDULES st) (getDay now) of
                        None \<Rightarrow> (st, Throws)
                      | Some schedule \<Rightarrow>
                          if js_lt workHrs (minWorkHours schedule)
                          then (st, ReturnsError (MinimumHoursNotMet (Numeric (minWorkHours schedule))
                                       (remaining_time (minWorkHours schedule) workHrs)))
                          else
                            (let changed = existing
                                    \<lparr>checkOut := Some \<lparr> time = timeStr, photo = ph, location = loc \<rparr>,
                                     workHours := Math_max (Num 0) workHrs\<rparr>
                             in (st\<lparr>ATTENDANCE :=
                                      write_back records (\<lambda>a. userId a = uid \<and> date a = today)
                                        (\<lambda>b. rec_id b = rec_id existing) changed\<rparr>,
                                 Returns changed)))))"

text \<open>\<^verbatim>\<open>startOvertime\<close> (lines 336 to 383); \<^verbatim>\<open>!o.endTime\<close> holds for \<^verbatim>\<open>null\<close> and for the
  empty string.\<close>

definition startOvertime ::
  "storage \<Rightarrow> clock \<Rightarrow> string \<Rightarrow> string \<Rightarrow> storage \<times> number OvertimeRecord result" where
  "startOvertime st now uid why =
     (let today = toISODate now
      in case find (\<lambda>a. userId a = uid \<and> date a = today) (ATTENDANCE st) of
           None \<Rightarrow> (st, ReturnsError CheckInRequired)
         | Some attendance \<Rightarrow>
            if checkIn attendance = None then (st, ReturnsError CheckInRequired)
            else if checkOut attendance = None then (st, ReturnsError CheckOutRequired)
            else
              (case at_schedule (WORK_SCHEDULES st) (getDay now) of
                 None \<Rightarrow> (st, Throws)
               | Some schedule \<Rightarrow>
                  if js_lt (workHours attendance) (minWorkHours schedule)
                  then (st, ReturnsError (OvertimeMinimumHoursNotMet (Numeric (minWorkHours schedule))))
                  else
                    (case find (\<lambda>x. ot_userId x = uid \<and> ot_date x = today \<and> \<not> truthy (endTime x))
                               (OVERTIME st) of
                       Some existingOvertime \<Rightarrow> (st, ReturnsError OvertimeAlreadyOpen)
                     | None \<Rightarrow>
                        (let started = \<lparr> ot_rec_id = ''ot-'' @ decimal (Date_now now), ot_userId = uid,
                                         ot_date = today, startTime = timeString now, endTime = None,
                                         ot_duration = Num 0, ot_reason = why, ot_status = pending,
                                         approvedBy = None \<rparr>
                         in (st\<lparr>OVERTIME := OVERTIME st @ [started]\<rparr>, Returns started)))))"

text \<open>\<^verbatim>\<open>endOvertime\<close> (lines 385 to 412).\<close>

definition endOvertime ::
  "storage \<Rightarrow> clock \<Rightarrow> string \<Rightarrow> storage \<times> number OvertimeRecord result" where
  "endOvertime st now uid =
     (let records = OVERTIME st;
          today = toISODate now
      in case find (\<lambda>x. ot_userId x = uid \<and> ot_date x = today \<and> \<not> truthy (endTime x)) records of
           None \<Rightarrow> (st, ReturnsError NoOpenOvertime)
         | Some overtime \<Rightarrow>
            (let ended = timeString now;
                 startMinutes =
                   js_add (js_mul (parseInt (at_string (split_colon (startTime overtime)) 0)) (Num 60))
                          (parseInt (at_string (split_colon (startTime overtime)) 1));
                 endMinutes =
                   js_add (js_mul (parseInt (at_string (split_colon ended) 0)) (Num 60))
                          (parseInt (at_string (split_colon ended) 1));
                 dur = js_div (js_sub endMinutes startMinutes) (Num 60);
                 changed = overtime\<lparr>endTime := Some ended, ot_duration := Math_max (Num 0) dur\<rparr>
             in (st\<lparr>OVERTIME :=
                      write_back records
                        (\<lambda>x. ot_userId x = uid \<and> ot_date x = today \<and> \<not> truthy (endTime x))
                        (\<lambda>x. ot_rec_id x = ot_rec_id overtime) changed\<rparr>,
                 Returns changed)))"

text \<open>\<^verbatim>\<open>approveOvertime\<close> (lines 414 to 433).\<close>

definition approveOvertime ::
  "storage \<Rightarrow> string \<Rightarrow> string \<Rightarrow> bool \<Rightarrow> storage \<times> number OvertimeRecord result" where
  "approveOvertime st oid adminId approve =
     (let records = OVERTIME st
      in case find (\<lambda>x. ot_rec_id x = oid) records of
           None \<Rightarrow> (st, ReturnsError RecordNotFound)
         | Some overtime \<Rightarrow>
            (let changed = overtime\<lparr>ot_status := (if approve then approved else rejected),
                                    approvedBy := Some adminId\<rparr>
             in (st\<lparr>OVERTIME :=
                      write_back records (\<lambda>x. ot_rec_id x = oid) (\<lambda>x. ot_rec_id x = oid) changed\<rparr>,
                 Returns changed)))"

section \<open>Notions the theorems are stated with\<close>

text \<open>
  A time of day as text: \<^verbatim>\<open>HH:MM\<close>, which is what the routes write, or \<^verbatim>\<open>HH:MM:SS\<close>, which
  is how MySQL renders a \<^verbatim>\<open>TIME\<close> column.
\<close>

fun time_text :: "nat \<Rightarrow> nat \<Rightarrow> nat option \<Rightarrow> string" where
  "time_text h m None = pad2 h @ '':'' @ pad2 m"
| "time_text h m (Some s) = pad2 h @ '':'' @ pad2 m @ '':'' @ pad2 s"

fun valid_seconds :: "nat option \<Rightarrow> bool" where
  "valid_seconds None = True"
| "valid_seconds (Some s) = (s < 60)"

text \<open>At most one attendance row for an employee and a date.\<close>

definition unique_user_date :: "AttendanceRow list \<Rightarrow> bool" where
  "unique_user_date rows = distinct (map (\<lambda>r. (att_user_id r, att_date r)) rows)"

text \<open>At most one overtime row without an end time for an employee and a date.\<close>

definition one_open_overtime :: "OvertimeRow list \<Rightarrow> bool" where
  "one_open_overtime rows =
     distinct (map (\<lambda>r. (ovt_user_id r, ovt_date r)) (filter (\<lambda>r. ovt_end_time r = None) rows))"

text \<open>The request the client sends for a decision (\<^verbatim>\<open>approveOvertime\<close> of \<^verbatim>\<open>lib/api-client.ts\<close>).\<close>

definition approveOvertime_request :: "string \<Rightarrow> bool \<Rightarrow> OvertimeBody" where
  "approveOvertime_request oid approve =
     \<lparr> put_action = (if approve then ''approve'' else ''reject''), overtimeId = oid \<rparr>"

text \<open>A calendar date and its ISO text \<^verbatim>\<open>YYYY-MM-DD\<close>, as \<^verbatim>\<open>toISOString\<close> writes it.\<close>

definition calendar_date :: "nat \<Rightarrow> nat \<Rightarrow> nat \<Rightarrow> bool" where
  "calendar_date y m dd = (y < 10000 \<and> 1 \<le> m \<and> m \<le> 12 \<and> 1 \<le> dd \<and> dd \<le> days_in_month y m)"

definition pad4 :: "nat \<Rightarrow> string" where
  "pad4 n = [char_of (48 + n div 1000), char_of (48 + n div 100 mod 10),
             char_of (48 + n div 10 mod 10), char_of (48 + n mod 10)]"

definition iso_date :: "nat \<Rightarrow> nat \<Rightarrow> nat \<Rightarrow> string" where
  "iso_date y m dd = pad4 y @ ''-'' @ pad2 m @ ''-'' @ pad2 dd"

subsection \<open>The scenario of the specification\<close>

text \<open>The schedules the schema inserts: 08:00 to 16:00 with 8 hours, Saturday 08:00 to 13:00
  with 5 hours.\<close>

definition default_work_schedules :: "WorkScheduleRow list" where
  "default_work_schedules =
     map (\<lambda>dw. \<lparr> day_of_week = dw, start_time = ''08:00:00'', end_time = ''16:00:00'',
                 min_work_hours = ''8.00'' \<rparr>) [0, 1, 2, 3, 4, 5]
     @ [\<lparr> day_of_week = 6, start_time = ''08:00:00'', end_time = ''13:00:00'',
          min_work_hours = ''5.00'' \<rparr>]"

definition empty_db :: db where
  "empty_db = \<lparr> attendance_records = [], overtime_records = [],
                work_schedules = default_work_schedules \<rparr>"

definition budi :: User where
  "budi = \<lparr> user_id_of = ''emp-001'', role = employee \<rparr>"

definition hr_admin :: User where
  "hr_admin = \<lparr> user_id_of = ''admin-001'', role = admin \<rparr>"

text \<open>Monday 5 January 2026 at the given local time.\<close>

definition monday_at :: "nat \<Rightarrow> nat \<Rightarrow> clock" where
  "monday_at h m =
     \<lparr> toISODate = ''2026-01-05'', getHours = h, getMinutes = m, getDay = 1, getMonth = 0,
       getFullYear = 2026, Date_now = 1767571200000 + (h * 60 + m) * 60000,
       sql_NOW = ''2026-01-05 '' @ pad2 h @ '':'' @ pad2 m @ '':00'' \<rparr>"

definition office :: Location where
  "office = \<lparr> latitude = Num (- 25 / 4), longitude = Num (427 / 4), address = ''Jakarta'' \<rparr>"

definition check_in_request :: AttendanceBody where
  "check_in_request = \<lparr> action = ''check-in'', body_photo = ''photo-in'', body_location = office \<rparr>"

definition check_out_request :: AttendanceBody where
  "check_out_request = \<lparr> action = ''check-out'', body_photo = ''photo-out'', body_location = office \<rparr>"

text \<open>The database after the employee checked in on that Monday at the given time.\<close>

definition checked_in_at :: "nat \<Rightarrow> nat \<Rightarrow> db" where
  "checked_in_at h m = fst (attendance_POST empty_db (Some budi) check_in_request (monday_at h m))"

text \<open>The same day continued: check-out at 16:00, overtime started at 16:05 and ended at
  18:05.\<close>

definition checked_out_at_16 :: db where
  "checked_out_at_16 =
     fst (attendance_POST (checked_in_at 8 0) (Some budi) check_out_request (monday_at 16 0))"

definition overtime_started :: db where
  "overtime_started = fst (overtime_POST checked_out_at_16 (Some budi) ''stock count'' (monday_at 16 5))"

definition end_request :: OvertimeBody where
  "end_request = \<lparr> put_action = ''end'', overtimeId = [] \<rparr>"

definition overtime_ended :: db where
  "overtime_ended = fst (overtime_PUT overtime_started (Some budi) end_request (monday_at 18 5))"

text \<open>Another Monday: check-in at 08:00 and check-out at 18:00, ten hours of work.\<close>

definition worked_ten_hours :: db where
  "worked_ten_hours =
     fst (attendance_POST (checked_in_at 8 0) (Some budi) check_out_request (monday_at 18 0))"

text \<open>The ended overtime after the administrator rejected it at 18:30.\<close>

definition overtime_rejected :: db where
  "overtime_rejected =
     fst (overtime_PUT overtime_ended (Some hr_admin)
            (approveOvertime_request ''ot-1767629100000'' False) (monday_at 18 30))"

text \<open>Attendance records in local storage: two of the employee in February 2026, one of
  his in January, one of a colleague in February.\<close>

definition stored_records :: "number AttendanceRecord list" where
  "stored_records =
     [\<lparr> rec_id = ''att-1'', userId = ''emp-001'', date = ''2026-01-05'', checkIn = None,
        checkOut = None, status = present, workHours = Num 8 \<rparr>,
      \<lparr> rec_id = ''att-2'', userId = ''emp-001'', date = ''2026-02-02'', checkIn = None,
        checkOut = None, status = present, workHours = Num 8 \<rparr>,
      \<lparr> rec_id = ''att-3'', userId = ''emp-002'', date = ''2026-02-02'', checkIn = None,
        checkOut = None, status = absent, workHours = Num 0 \<rparr>,
      \<lparr> rec_id = ''att-4'', userId = ''emp-001'', date = ''2026-02-03'', checkIn = None,
        checkOut = None, status = late, workHours = Num (15 / 2) \<rparr>]"

text \<open>Local storage with no records and the same schedules in the local form, the
  Monday minimum as given; index and weekday agree.\<close>

definition local_schedules :: "number \<Rightarrow> WorkSchedule list" where
  "local_schedules monday_minimum =
     map (\<lambda>dw. \<lparr> dayOfWeek = dw, sched_startTime = ''08:00'', sched_endTime = ''16:00'',
                 minWorkHours = (if dw = 1 then monday_minimum else Num 8) \<rparr>)
         [0, 1, 2, 3, 4, 5, 6]"

definition local_storage :: "number \<Rightarrow> storage" where
  "local_storage monday_minimum =
     \<lparr> ATTENDANCE = [], OVERTIME = [], WORK_SCHEDULES = local_schedules monday_minimum \<rparr>"

section \<open>Properties\<close>

subsection \<open>Doubles\<close>

text \<open>Floor and ceiling of a quotient of numerals, for evaluating \<open>double\<close> on a given
  rational.\<close>

lemma floor_rat_numeral:
  "\<lfloor>(numeral a :: rat) / numeral b\<rfloor> = numeral a div numeral b"
  "\<lfloor>- ((numeral a :: rat) / numeral b)\<rfloor> = - numeral a div numeral b"
  "\<lfloor>(1 :: rat) / numeral b\<rfloor> = 1 div numeral b"
  "\<lfloor>- ((1 :: rat) / numeral b)\<rfloor> = - 1 div numeral b"
  using floor_divide_of_int_eq [of "numeral a" "numeral b", where ?'a = rat]
        floor_divide_of_int_eq [of "- numeral a" "numeral b", where ?'a = rat]
        floor_divide_of_int_eq [of 1 "numeral b", where ?'a = rat]
        floor_divide_of_int_eq [of "- 1" "numeral b", where ?'a = rat]
  by simp_all

lemma ceiling_rat_numeral:
  "\<lceil>(numeral a :: rat) / numeral b\<rceil> = - (- numeral a div numeral b)"
  "\<lceil>- ((numeral a :: rat) / numeral b)\<rceil> = - (numeral a div numeral b)"
  "\<lceil>(1 :: rat) / numeral b\<rceil> = - (- 1 div numeral b)"
  "\<lceil>- ((1 :: rat) / numeral b)\<rceil> = - (1 div numeral b)"
  by (simp_all add: ceiling_def floor_rat_numeral)

lemmas double_eval = double_def binade_def pow2_def round_even_def bit_length.simps Let_def
  floor_rat_numeral ceiling_rat_numeral

text \<open>The binary exponent is the one its definition names.\<close>

lemma bit_length_bounds:
  "0 < n \<Longrightarrow> 2 ^ (bit_length n - 1) \<le> n \<and> n < 2 ^ bit_length n"
proof (induction n rule: bit_length.induct)
  case (1 n)
  show ?case
  proof (cases "n div 2 = 0")
    case True
    with 1(2) have "n = 1" by (simp add: div_eq_0_iff) 
    then show ?thesis by (simp add: bit_length.simps)
  next
    case False
    then have h: "0 < n div 2" by simp
    from 1(1) [OF _ h] 1(2) have ih: "2 ^ (bit_length (n div 2) - 1) \<le> n div 2" "n div 2 < 2 ^ bit_length (n div 2)"
      by simp_all
    have bl: "bit_length n = Suc (bit_length (n div 2))" using 1(2) by (simp add: bit_length.simps [of n])
    have pos: "0 < bit_length (n div 2)" using h by (simp add: bit_length.simps [of "n div 2"])
    then obtain k where k: "bit_length (n div 2) = Suc k" by (cases "bit_length (n div 2)") simp_all
    from ih k have "2 ^ k \<le> n div 2" "n div 2 < 2 ^ Suc k" by simp_all
    then have "2 * 2 ^ k \<le> n" "n < 2 * 2 ^ Suc k" by arith+
    then show ?thesis by (simp add: bl k)
  qed
qed

lemma pow2_power_int: "pow2 e = power_int 2 e"
  by (simp add: pow2_def power_int_def power_one_over inverse_eq_divide)

lemma pow2_pos: "0 < pow2 e" by (simp add: pow2_power_int)

lemma pow2_add: "pow2 (a + b) = pow2 a * pow2 b"
  by (simp add: pow2_power_int power_int_add)

lemma pow2_mono: "a \<le> b \<Longrightarrow> pow2 a \<le> pow2 b"
  by (simp add: pow2_power_int power_int_increasing)

lemma pow2_nat: "pow2 (int k) = 2 ^ k"
  by (simp add: pow2_def)

lemma pow2_neg_nat: "pow2 (- int k) = 1 / 2 ^ k"
  by (simp add: pow2_def)

lemma pow_le_rat: "2 ^ k \<le> (n::nat) \<Longrightarrow> (2::rat) ^ k \<le> of_nat n"
proof -
  assume "2 ^ k \<le> n"
  then have "(of_nat (2 ^ k) :: rat) \<le> of_nat n" by (simp only: of_nat_le_iff)
  then show ?thesis by simp
qed

lemma less_pow_rat: "(n::nat) < 2 ^ k \<Longrightarrow> of_nat n + 1 \<le> (2::rat) ^ k"
proof -
  assume "n < 2 ^ k"
  then have "Suc n \<le> 2 ^ k" by simp
  then have "(of_nat (Suc n) :: rat) \<le> of_nat (2 ^ k)" by (simp only: of_nat_le_iff)
  then show ?thesis by simp
qed

lemma binade_spec:
  assumes "x \<noteq> 0"
  shows "pow2 (binade x) \<le> \<bar>x\<bar> \<and> \<bar>x\<bar> < pow2 (binade x + 1)"
proof (cases "1 \<le> \<bar>x\<bar>")
  case True
  define n where "n = nat \<lfloor>\<bar>x\<bar>\<rfloor>"
  have n1: "0 < n" using True by (simp add: n_def)
  have fl0: "0 \<le> \<lfloor>\<bar>x\<bar>\<rfloor>" by simp
  have nf: "(of_nat n :: rat) = of_int \<lfloor>\<bar>x\<bar>\<rfloor>"
    unfolding n_def using fl0 by (metis of_int_of_nat_eq of_nat_nat)
  have nx: "of_nat n \<le> \<bar>x\<bar>" "\<bar>x\<bar> < of_nat n + 1"
    unfolding nf by linarith+
  from bit_length_bounds [OF n1] have b: "2 ^ (bit_length n - 1) \<le> n" "n < 2 ^ bit_length n" by simp_all
  have bp: "0 < bit_length n" using n1 by (simp add: bit_length.simps [of n])
  have e: "binade x = int (bit_length n - 1)" using True bp by (simp add: binade_def n_def)
  have e1: "binade x + 1 = int (bit_length n)" using e bp by simp
  have lo: "(2::rat) ^ (bit_length n - 1) \<le> of_nat n" by (rule pow_le_rat [OF b(1)])
  have hi: "of_nat n + 1 \<le> (2::rat) ^ bit_length n" by (rule less_pow_rat [OF b(2)])
  have "pow2 (binade x) \<le> \<bar>x\<bar>" unfolding e pow2_nat using lo nx(1) by (rule order_trans)
  moreover have "\<bar>x\<bar> < pow2 (binade x + 1)" unfolding e1 pow2_nat using nx(2) hi by (rule less_le_trans)
  ultimately show ?thesis ..
next
  case False
  define y where "y = 1 / \<bar>x\<bar>"
  have xp: "0 < \<bar>x\<bar>" "\<bar>x\<bar> < 1" using assms False by simp_all
  then have y1: "1 < y" by (simp add: y_def)
  define n where "n = nat (\<lceil>y\<rceil> - 1)"
  have c2: "2 \<le> \<lceil>y\<rceil>" using y1 by (simp add: le_ceiling_iff) 
  have n1: "0 < n" using c2 by (simp add: n_def)
  have ny: "of_nat n < y" "y \<le> of_nat n + 1"
  proof -
    have nn: "0 \<le> \<lceil>y\<rceil> - 1" using c2 by simp
    have nc: "(of_nat n :: rat) = of_int (\<lceil>y\<rceil> - 1)"
      unfolding n_def using nn by (metis of_nat_nat)
    have "of_int \<lceil>y\<rceil> - 1 < y" "y \<le> of_int \<lceil>y\<rceil>" by linarith+
    then show "of_nat n < y" "y \<le> of_nat n + 1" unfolding nc by simp_all
  qed
  from bit_length_bounds [OF n1] have b: "2 ^ (bit_length n - 1) \<le> n" "n < 2 ^ bit_length n" by simp_all
  have bp: "0 < bit_length n" using n1 by (simp add: bit_length.simps [of n])
  have e: "binade x = - int (bit_length n)" using False by (simp add: binade_def n_def y_def)
  have e1: "binade x + 1 = - int (bit_length n - 1)" using e bp by simp
  have lo: "(2::rat) ^ (bit_length n - 1) \<le> of_nat n" by (rule pow_le_rat [OF b(1)])
  have hi: "of_nat n + 1 \<le> (2::rat) ^ bit_length n" by (rule less_pow_rat [OF b(2)])
  have ylo: "(2::rat) ^ (bit_length n - 1) < y" using lo ny(1) by (rule le_less_trans)
  have yhi: "y \<le> (2::rat) ^ bit_length n" using ny(2) hi by (rule order_trans)
  have xa: "\<bar>x\<bar> = 1 / y" using xp by (simp add: y_def)
  have "1 / (2::rat) ^ bit_length n \<le> 1 / y"
    using yhi y1 by (intro divide_left_mono) simp_all
  moreover have "1 / y < 1 / (2::rat) ^ (bit_length n - 1)"
    using ylo y1 by (intro divide_strict_left_mono) simp_all
  ultimately have "pow2 (- int (bit_length n)) \<le> 1 / y" "1 / y < pow2 (- int (bit_length n - 1))"
    by (simp_all only: pow2_neg_nat)
  moreover have "- int (bit_length n) + 1 = - int (bit_length n - 1)" using bp by simp
  ultimately show ?thesis by (simp only: e xa)
qed

text \<open>Rounding to the nearest integer is within a half, monotonic and odd.\<close>

lemma round_even_cases: "round_even r = \<lfloor>r\<rfloor> \<or> round_even r = \<lfloor>r\<rfloor> + 1"
  by (simp add: round_even_def Let_def)

lemma round_even_near: "\<bar>of_int (round_even r) - r\<bar> \<le> 1 / 2"
proof -
  define f where "f = \<lfloor>r\<rfloor>"
  define dd where "dd = r - of_int f"
  have d: "0 \<le> dd" "dd < 1" unfolding dd_def f_def by linarith+
  have r: "r = of_int f + dd" by (simp add: dd_def)
  have "round_even r = (if dd < 1 / 2 then f else if 1 / 2 < dd then f + 1
                        else if even f then f else f + 1)"
    by (simp add: round_even_def Let_def f_def dd_def)
  moreover have "\<bar>of_int f - r\<bar> \<le> 1 / 2" if "dd \<le> 1 / 2" using that d unfolding r by simp
  moreover have "\<bar>of_int (f + 1) - r\<bar> \<le> 1 / 2" if "1 / 2 \<le> dd" using that d unfolding r by simp
  ultimately show ?thesis by (cases "dd < 1 / 2"; cases "1 / 2 < dd") (auto simp del: of_int_add)
qed

lemma round_even_of_int: "round_even (of_int m) = m"
  by (simp add: round_even_def)

lemma round_even_mono:
  assumes "r \<le> s"
  shows "round_even r \<le> round_even s"
proof (rule ccontr)
  assume "\<not> round_even r \<le> round_even s"
  then have gt: "round_even s + 1 \<le> round_even r" by simp
  then have g: "(of_int (round_even s) :: rat) + 1 \<le> of_int (round_even r)"
    by (metis of_int_1 of_int_add of_int_le_iff)
  from round_even_near [of r] round_even_near [of s]
  have "of_int (round_even r) - 1 / 2 \<le> r" "s \<le> of_int (round_even s) + 1 / 2"
    by linarith+
  with g assms have eq: "r = s" by linarith
  with gt show False by simp
qed

lemma round_even_minus: "round_even (- r) = - round_even r"
proof (cases "r = of_int \<lfloor>r\<rfloor>")
  case True
  then obtain m where "r = of_int m" ..
  then show ?thesis by (simp add: round_even_of_int flip: of_int_minus)
next
  case False
  have fl: "\<lfloor>- r\<rfloor> = - \<lfloor>r\<rfloor> - 1"
    using False by (metis ceiling_altdef ceiling_def add_diff_cancel_right' minus_minus minus_diff_eq diff_minus_eq_add uminus_add_conv_diff)
  define f where "f = \<lfloor>r\<rfloor>"
  define dd where "dd = r - of_int f"
  have d: "0 < dd" "dd < 1" using False unfolding dd_def f_def by linarith+
  have r: "r = of_int f + dd" by (simp add: dd_def)
  have ev: "even (- f - 1) \<longleftrightarrow> odd f" by simp
  show ?thesis
    unfolding round_even_def Let_def fl f_def [symmetric]
    using d ev by (auto simp: r)
qed

text \<open>Rounding to the nearest double is odd and monotonic, stays in the binade of its
  argument or reaches the next power of two, and leaves integers below \<open>2 ^ 53\<close> as they
  are.\<close>

lemma binade_minus: "binade (- x) = binade x"
  by (simp add: binade_def)

lemma double_minus: "double (- x) = - double x"
  by (simp add: double_def binade_minus round_even_minus Let_def)

lemma double_0: "double 0 = 0" by (simp add: double_def)

lemma double_scaled:
  assumes "x \<noteq> 0"
  shows "double x = of_int (round_even (x / pow2 (binade x - 52))) * pow2 (binade x - 52)"
  using assms by (simp add: double_def Let_def)

lemma double_pos_range:
  assumes "0 < x"
  shows "pow2 (binade x) \<le> double x \<and> double x \<le> pow2 (binade x + 1)"
proof -
  define e where "e = binade x"
  define u where "u = pow2 (e - 52)"
  have up: "0 < u" by (simp add: u_def pow2_pos)
  from binade_spec [of x] assms have b: "pow2 e \<le> x" "x < pow2 (e + 1)" by (simp_all add: e_def)
  have pe: "pow2 e = 2 ^ 52 * u" using pow2_add [of 52 "e - 52"] pow2_nat [of 52] by (simp add: u_def)
  have "pow2 (e + 1) = pow2 (53 + (e - 52))" by (simp add: add.commute)
  also have "\<dots> = pow2 53 * pow2 (e - 52)" by (rule pow2_add)
  finally have pe1: "pow2 (e + 1) = 2 ^ 53 * u"
    using pow2_nat [of 53] by (simp add: u_def)
  have "2 ^ 52 \<le> x / u" using b(1) up by (simp add: pe pos_le_divide_eq)
  then have "round_even (of_int (2 ^ 52)) \<le> round_even (x / u)" by (intro round_even_mono) simp
  then have lo: "2 ^ 52 \<le> round_even (x / u)" by (simp only: round_even_of_int)
  have "x / u \<le> 2 ^ 53" using b(2) up by (simp add: pe1 pos_divide_le_eq)
  then have "round_even (x / u) \<le> round_even (of_int (2 ^ 53))" by (intro round_even_mono) simp
  then have hi: "round_even (x / u) \<le> 2 ^ 53" by (simp only: round_even_of_int)
  have dx: "double x = of_int (round_even (x / u)) * u"
    using assms by (simp add: double_scaled u_def e_def)
  have "(2::rat) ^ 52 \<le> of_int (round_even (x / u))" using lo by (metis of_int_le_iff of_int_numeral of_int_power)
  then have 1: "pow2 e \<le> double x" unfolding pe dx using up by (simp add: mult_right_mono)
  have "(of_int (round_even (x / u)) :: rat) \<le> 2 ^ 53" using hi by (metis of_int_le_iff of_int_numeral of_int_power)
  then have 2: "double x \<le> pow2 (e + 1)" unfolding pe1 dx using up by (simp add: mult_right_mono)
  from 1 2 show ?thesis by (simp add: e_def)
qed

lemma double_pos: "0 < x \<Longrightarrow> 0 < double x"
  using double_pos_range [of x] pow2_pos [of "binade x"] by linarith

lemma binade_mono:
  assumes "0 < x" "x \<le> y"
  shows "binade x \<le> binade y"
proof (rule ccontr)
  assume "\<not> binade x \<le> binade y"
  then have "binade y + 1 \<le> binade x" by simp
  then have "pow2 (binade y + 1) \<le> pow2 (binade x)" by (rule pow2_mono)
  moreover from binade_spec [of x] binade_spec [of y] assms
  have "pow2 (binade x) \<le> x" "y < pow2 (binade y + 1)" by simp_all
  ultimately show False using assms by linarith
qed

lemma double_mono_pos:
  assumes "0 < x" "x \<le> y"
  shows "double x \<le> double y"
proof (cases "binade x = binade y")
  case True
  have y: "0 < y" using assms by linarith
  have up: "0 < pow2 (binade y - 52)" by (rule pow2_pos)
  have "x / pow2 (binade y - 52) \<le> y / pow2 (binade y - 52)"
    using assms(2) up by (simp add: divide_right_mono)
  then have "round_even (x / pow2 (binade y - 52)) \<le> round_even (y / pow2 (binade y - 52))"
    by (rule round_even_mono)
  then have "(of_int (round_even (x / pow2 (binade y - 52))) :: rat)
               \<le> of_int (round_even (y / pow2 (binade y - 52)))" by (simp only: of_int_le_iff)
  then show ?thesis
    using assms(1) y up by (simp add: double_scaled True mult_right_mono)
next
  case False
  with binade_mono [OF assms] have "binade x + 1 \<le> binade y" by simp
  then have "pow2 (binade x + 1) \<le> pow2 (binade y)" by (rule pow2_mono)
  moreover have "0 < y" using assms by linarith
  ultimately show ?thesis
    using double_pos_range [OF assms(1)] double_pos_range [of y] by linarith
qed

lemma double_mono:
  assumes "x \<le> y"
  shows "double x \<le> double y"
proof -
  consider "0 < x" | "x = 0" | "x < 0" by linarith
  then show ?thesis
  proof cases
    case 1
    then show ?thesis using assms by (rule double_mono_pos)
  next
    case 2
    show ?thesis
    proof (cases "y = 0")
      case True
      with 2 show ?thesis by simp
    next
      case False
      with 2 assms have "0 < y" by simp
      from double_pos [OF this] 2 show ?thesis by (simp add: double_0)
    qed
  next
    case 3
    then have nx: "0 < - x" by simp
    consider "0 < y" | "y = 0" | "y < 0" by linarith
    then show ?thesis
    proof cases
      case 1
      from double_pos [OF 1] double_pos [OF nx] show ?thesis by (simp add: double_minus)
    next
      case 2
      from double_pos [OF nx] 2 show ?thesis by (simp add: double_minus double_0)
    next
      case 3
      then have "0 < - y" "- y \<le> - x" using assms by simp_all
      from double_mono_pos [OF this] show ?thesis by (simp add: double_minus)
    qed
  qed
qed

lemma double_of_nat:
  assumes "n < 2 ^ 53"
  shows "double (of_nat n) = of_nat n"
proof (cases "n = 0")
  case True
  then show ?thesis by (simp add: double_0)
next
  case False
  define x :: rat where "x = of_nat n"
  have xp: "0 < x" "1 \<le> x" using False by (simp_all add: x_def)
  define e where "e = binade x"
  from binade_spec [of x] xp have b: "pow2 e \<le> x" "x < pow2 (e + 1)" by (simp_all add: e_def)
  have x53: "x < pow2 53" using assms less_pow_rat [OF assms] pow2_nat [of 53] by (simp add: x_def)
  have e52: "e \<le> 52"
  proof (rule ccontr)
    assume "\<not> e \<le> 52"
    then have "53 \<le> e" by simp
    then have "pow2 53 \<le> pow2 e" by (rule pow2_mono)
    with b(1) x53 show False by linarith
  qed
  define k where "k = nat (52 - e)"
  have ke: "e - 52 = - int k" using e52 by (simp add: k_def)
  have u: "pow2 (e - 52) = 1 / 2 ^ k" unfolding ke by (rule pow2_neg_nat)
  have "x / pow2 (e - 52) = of_int (int n * 2 ^ k)" by (simp add: u x_def)
  then have "round_even (x / pow2 (e - 52)) = int n * 2 ^ k" by (simp only: round_even_of_int)
  then have "double x = of_int (int n * 2 ^ k) * (1 / 2 ^ k)"
    using xp by (simp add: double_scaled e_def [symmetric] u)
  then show ?thesis by (simp add: x_def)
qed

lemma double_of_int:
  assumes "\<bar>n\<bar> < 2 ^ 53"
  shows "double (of_int n) = of_int n"
proof (cases "0 \<le> n")
  case True
  then obtain k where k: "n = int k" by (metis nonneg_int_cases)
  with assms have "k < 2 ^ 53" by simp
  from double_of_nat [OF this] k show ?thesis by simp
next
  case False
  then obtain k where k: "n = - int k" by (metis neg_int_cases not_le)
  with assms have "k < 2 ^ 53" by simp
  from double_of_nat [OF this] k show ?thesis by (simp add: double_minus)
qed

text \<open>The rounding error is at most half a unit in the last place.\<close>

lemma double_error:
  assumes "x \<noteq> 0"
  shows "\<bar>double x - x\<bar> \<le> pow2 (binade x - 53)"
proof -
  define u where "u = pow2 (binade x - 52)"
  have up: "0 < u" by (simp add: u_def pow2_pos)
  have "pow2 (binade x - 52) = pow2 (1 + (binade x - 53))" by simp
  also have "\<dots> = pow2 1 * pow2 (binade x - 53)" by (rule pow2_add)
  finally have half: "pow2 (binade x - 53) = u / 2" by (simp add: u_def pow2_def)
  have "double x - x = (of_int (round_even (x / u)) - x / u) * u"
    using assms up by (simp add: double_scaled u_def field_simps)
  then have "\<bar>double x - x\<bar> = \<bar>of_int (round_even (x / u)) - x / u\<bar> * u"
    using up by (simp add: abs_mult)
  also have "\<dots> \<le> 1 / 2 * u"
    using round_even_near [of "x / u"] up by (intro mult_right_mono) simp_all
  finally show ?thesis by (simp add: half)
qed

lemma floor_double_sixtieth:
  assumes "0 \<le> t" "t < 2 ^ 31"
  shows "\<lfloor>double (of_int t / 60)\<rfloor> = t div 60"
proof (cases "t mod 60 = 0")
  case True
  then have t: "t = 60 * (t div 60)" using mult_div_mod_eq [of 60 t] by simp
  have "(of_int t :: rat) / 60 = of_int (t div 60)"
    by (subst t) simp
  moreover have "\<bar>t div 60\<bar> < 2 ^ 53" using assms by simp
  ultimately show ?thesis by (simp add: double_of_int)
next
  case False
  define q where "q = t div 60"
  define r where "r = t mod 60"
  have "0 \<le> t mod 60" "t mod 60 < 60" by simp_all
  with False have r: "1 \<le> r" "r \<le> 59" by (simp_all add: r_def)
  have t: "t = 60 * q + r" by (simp add: q_def r_def)
  define x :: rat where "x = of_int t / 60"
  have x: "x = of_int q + of_int r / 60" by (simp add: x_def t)
  have q0: "0 \<le> q" using assms by (simp add: q_def pos_imp_zdiv_nonneg_iff)
  have xlo: "of_int q + 1 / 60 \<le> x" and xhi: "x \<le> of_int q + 59 / 60"
    using r by (simp_all add: x)
  have q0r: "(0::rat) \<le> of_int q" using q0 by simp
  have xp: "0 < x" using xlo q0r by linarith
  have "q \<le> t" using t r q0 by linarith
  then have qb: "\<bar>q\<bar> < 2 ^ 53" using assms q0 by simp
  have "double (of_int q) \<le> double x" using xlo by (intro double_mono) simp
  then have lo: "of_int q \<le> double x" by (simp add: double_of_int [OF qb])
  have x31: "x < pow2 31" using assms by (simp add: x_def pow2_def)
  have e: "binade x \<le> 30"
  proof (rule ccontr)
    assume "\<not> binade x \<le> 30"
    then have "31 \<le> binade x" by simp
    then have "pow2 31 \<le> pow2 (binade x)" by (rule pow2_mono)
    with binade_spec [of x] xp x31 show False by simp
  qed
  then have "pow2 (binade x - 53) \<le> pow2 (- 23)" by (intro pow2_mono) simp
  with double_error [of x] xp have "\<bar>double x - x\<bar> \<le> pow2 (- 23)" by simp
  moreover have "pow2 (- 23) < 1 / 60" by (simp add: pow2_def)
  ultimately have "double x < x + 1 / 60" by linarith
  with xhi have hi: "double x < of_int q + 1" by simp
  from lo hi have "\<lfloor>double x\<rfloor> = q" by (simp add: floor_unique)
  then show ?thesis by (simp add: x_def q_def)
qed

subsection \<open>Time strings and their order\<close>

lemma is_digit_char_of: "(n::nat) < 10 \<Longrightarrow> is_digit (char_of (48 + n))"
  by (simp add: is_digit_def less_eq_char_def)

lemma digit_val_char_of: "(n::nat) < 10 \<Longrightarrow> digit_val (char_of (48 + n)) = n"
  by (simp add: digit_val_def)

lemma char_of_digit_not_colon: "(n::nat) < 10 \<Longrightarrow> char_of (48 + n) \<noteq> CHR '':''"
proof
  assume n: "n < 10" and e: "char_of (48 + n) = CHR '':''"
  from e have "of_char (char_of (48 + n)) = (of_char (CHR '':'') :: nat)" by simp
  with n show False by simp
qed

lemma char_of_digit_less: "(a::nat) < 10 \<Longrightarrow> (b::nat) < 10 \<Longrightarrow> char_of (48 + a) < char_of (48 + b) \<longleftrightarrow> a < b"
  by (simp add: less_char_def)

lemma char_of_digit_eq: "(a::nat) < 10 \<Longrightarrow> (b::nat) < 10 \<Longrightarrow> char_of (48 + a) = char_of (48 + b) \<longleftrightarrow> a = b"
  by (simp add: char_of_quasi_inj)

lemma char_of_digit_not_sign:
  "(n::nat) < 10 \<Longrightarrow> char_of (48 + n) \<noteq> CHR ''-'' \<and> char_of (48 + n) \<noteq> CHR ''+''"
proof (intro conjI notI)
  assume n: "n < 10" and e: "char_of (48 + n) = CHR ''-''"
  from e have "of_char (char_of (48 + n)) = (of_char (CHR ''-'') :: nat)" by simp
  with n show False by simp
next
  assume n: "n < 10" and e: "char_of (48 + n) = CHR ''+''"
  from e have "of_char (char_of (48 + n)) = (of_char (CHR ''+'') :: nat)" by simp
  with n show False by simp
qed

lemma unsigned_decimal_digits:
  assumes "list_all is_digit t" "t \<noteq> []"
  shows "unsigned_decimal t = Some (of_nat (digits_val t))"
proof -
  from assms(1) have tw: "takeWhile is_digit t = t" and dw: "dropWhile is_digit t = []"
    by (simp_all add: list_all_iff)
  show ?thesis
    unfolding unsigned_decimal_def Let_def tw dw using assms(2) by (simp add: digits_val_def)
qed

lemma Number_pad2: "n < 100 \<Longrightarrow> Number (pad2 n) = Num (of_nat n)"
proof -
  assume n: "n < 100"
  then have d: "n div 10 < 10" "n mod 10 < 10" by simp_all
  have dig: "list_all is_digit (pad2 n)" using d by (simp add: pad2_def is_digit_char_of)
  have val: "digits_val (pad2 n) = n" using d by (simp add: pad2_def digits_val_def digit_val_char_of)
  have ud: "unsigned_decimal (pad2 n) = Some (of_nat n)"
    using unsigned_decimal_digits [OF dig] val by (simp add: pad2_def)
  have "n < 2 ^ 53" using n by simp
  then have dn: "double (of_nat n) = of_nat n" by (rule double_of_nat)
  have "Number (char_of (48 + n div 10) # [char_of (48 + n mod 10)]) = Num (of_nat n)"
    unfolding Number_def using ud char_of_digit_not_sign [OF d(1)] dn
    by (simp add: pad2_def)
  then show ?thesis by (simp add: pad2_def)
qed

lemma minutes_double:
  fixes h m :: nat
  assumes "h < 100" "m < 100"
  shows "js_add (js_mul (Num (of_nat h)) (Num 60)) (Num (of_nat m)) = Num (of_nat (h * 60 + m))"
proof -
  have a: "h * 60 < 2 ^ 53" "h * 60 + m < 2 ^ 53" using assms by simp_all
  have "double (of_nat h * 60) = double (of_nat (h * 60))" by simp
  also have "\<dots> = of_nat (h * 60)" using a(1) by (rule double_of_nat)
  finally have 1: "double (of_nat h * 60) = of_nat (h * 60)" .
  have "double (of_nat (h * 60) + of_nat m) = double (of_nat (h * 60 + m))" by simp
  also have "\<dots> = of_nat (h * 60 + m)" using a(2) by (rule double_of_nat)
  finally have 2: "double (of_nat (h * 60) + of_nat m) = of_nat (h * 60 + m)" .
  show ?thesis by (simp only: js_mul.simps js_add.simps 1 2)
qed

lemma minutes_difference_double:
  fixes a b :: nat
  assumes "a < 10000" "b < 10000"
  shows "js_sub (Num (of_nat a)) (Num (of_nat b)) = Num (of_nat a - of_nat b)"
proof -
  have "\<bar>int a - int b\<bar> < 2 ^ 53" using assms by simp
  from double_of_int [OF this] have "double (of_nat a - of_nat b) = of_nat a - of_nat b"
    by simp
  then show ?thesis by simp
qed

lemma split_colon_time_text:
  assumes "h < 100" "m < 100" "s < 100"
  shows "split_colon (time_text h m None) = [pad2 h, pad2 m]"
    and "split_colon (time_text h m (Some s)) = [pad2 h, pad2 m, pad2 s]"
  using assms by (simp_all add: pad2_def char_of_digit_not_colon)


lemma div_mod_lex:
  fixes a b :: nat
  shows "(a div 10 < b div 10 \<or> a div 10 = b div 10 \<and> a mod 10 < b mod 10) \<longleftrightarrow> a < b"
proof -
  define qa ra qb rb where "qa = a div 10" and "ra = a mod 10" and "qb = b div 10" and "rb = b mod 10"
  have "a = 10 * qa + ra" "ra < 10" "b = 10 * qb + rb" "rb < 10"
    by (simp_all add: qa_def ra_def qb_def rb_def)
  then have "(qa < qb \<or> qa = qb \<and> ra < rb) \<longleftrightarrow> a < b" by arith
  then show ?thesis by (simp add: qa_def ra_def qb_def rb_def)
qed

lemma div_mod_eq10:
  fixes a b :: nat
  shows "(a div 10 = b div 10 \<and> a mod 10 = b mod 10) \<longleftrightarrow> a = b"
  by (metis div_mult_mod_eq)

lemma pad2_less: "a < 100 \<Longrightarrow> b < 100 \<Longrightarrow> pad2 a < pad2 b \<longleftrightarrow> a < b"
proof -
  assume a: "a < 100" and b: "b < 100"
  have d: "a div 10 < 10" "b div 10 < 10" "a mod 10 < 10" "b mod 10 < 10" using a b by auto
  have "pad2 a < pad2 b \<longleftrightarrow> (a div 10 < b div 10 \<or> a div 10 = b div 10 \<and> a mod 10 < b mod 10)"
    using d by (simp add: pad2_def char_of_digit_less char_of_digit_eq)
  then show ?thesis by (simp only: div_mod_lex)
qed

lemma pad2_eq: "a < 100 \<Longrightarrow> b < 100 \<Longrightarrow> pad2 a = pad2 b \<longleftrightarrow> a = b"
proof -
  assume a: "a < 100" and b: "b < 100"
  have d: "a div 10 < 10" "b div 10 < 10" "a mod 10 < 10" "b mod 10 < 10" using a b by auto
  have "pad2 a = pad2 b \<longleftrightarrow> (a div 10 = b div 10 \<and> a mod 10 = b mod 10)"
    using d by (simp add: pad2_def char_of_digit_eq)
  then show ?thesis by (simp only: div_mod_eq10)
qed

lemma length_pad2: "length (pad2 n) = 2" by (simp add: pad2_def)

lemma append_less_same_length:
  "length xs = length ys \<Longrightarrow> (xs @ us < ys @ vs) \<longleftrightarrow> (xs < ys \<or> xs = ys \<and> us < vs)"
  for xs :: "'a::linorder list"
proof (induction xs ys rule: list_induct2)
  case Nil then show ?case by simp
next
  case (Cons x xs y ys) then show ?case by auto
qed

lemma pad2_append_less:
  "a < 100 \<Longrightarrow> b < 100 \<Longrightarrow> (pad2 a @ us < pad2 b @ vs) \<longleftrightarrow> (a < b \<or> a = b \<and> us < vs)"
  by (simp add: append_less_same_length length_pad2 pad2_less pad2_eq)

lemma pad2_append_less_Nil:
  "a < 100 \<Longrightarrow> b < 100 \<Longrightarrow> (pad2 a @ us < pad2 b) \<longleftrightarrow> a < b"
  using pad2_append_less [of a b us "[]"] by simp

lemma time_text_less:
  assumes "h < 100" "m < 100" "sh < 100" "sm < 100"
  shows "time_text sh sm so < time_text h m None \<longleftrightarrow> (sh < h \<or> sh = h \<and> sm < m)"
proof (cases so)
  case None
  then show ?thesis
    using assms by (simp add: pad2_append_less pad2_less)
next
  case (Some ss)
  then show ?thesis
    using assms by (simp add: pad2_append_less pad2_append_less_Nil)
qed

lemma minutes_lex:
  "m < 60 \<Longrightarrow> sm < 60 \<Longrightarrow> (sh < h \<or> sh = h \<and> sm < m) \<longleftrightarrow> sh * 60 + sm < h * 60 + (m::nat)"
  by arith

lemma Number_split_time_text:
  assumes "h < 100" "m < 100"
  shows "at_index (map Number (split_colon (time_text h m None))) 0 = Num (of_nat h)"
    and "at_index (map Number (split_colon (time_text h m None))) 1 = Num (of_nat m)"
  using assms by (simp_all add: split_colon_time_text [of h m 0] at_index_def Number_pad2 del: time_text.simps)

lemma Number_split_time_text_secs:
  assumes "h < 100" "m < 100" "s < 100"
  shows "at_index (map Number (split_colon (time_text h m (Some s)))) 0 = Num (of_nat h)"
    and "at_index (map Number (split_colon (time_text h m (Some s)))) 1 = Num (of_nat m)"
  using assms by (simp_all add: split_colon_time_text [of h m s] at_index_def Number_pad2 del: time_text.simps)

lemma minutes_of_time_text:
  assumes "h < 100" "m < 100" "\<forall>s. so = Some s \<longrightarrow> s < 100"
  shows "js_add (js_mul (at_index (map Number (split_colon (time_text h m so))) 0) (Num 60))
                (at_index (map Number (split_colon (time_text h m so))) 1)
         = Num (of_nat (h * 60 + m))"
proof (cases so)
  case None
  then show ?thesis
    using Number_split_time_text [OF assms(1,2)] minutes_double [OF assms(1,2)]
    by (simp only:)
next
  case (Some s)
  with assms(3) have "s < 100" by simp
  from Number_split_time_text_secs [OF assms(1,2) this] minutes_double [OF assms(1,2)] Some
  show ?thesis by (simp only:)
qed

lemma timeString_time_text: "timeString c = time_text (getHours c) (getMinutes c) None"
  by (simp add: timeString_def)

text \<open>The hours between two times of day: the difference of the minutes, which is
  exact, divided by 60 and rounded to a double.\<close>

lemma workHours_between_time_text:
  assumes "ih < 100" "im < 100" "\<forall>s. so = Some s \<longrightarrow> s < 100" "oh < 100" "om < 100"
  shows "workHours_between (time_text ih im so) (time_text oh om None)
         = Num (double ((of_nat (oh * 60 + om) - of_nat (ih * 60 + im)) / 60))"
proof -
  have b: "oh * 60 + om < 10000" "ih * 60 + im < 10000" using assms by simp_all
  have none: "\<forall>s. (None :: nat option) = Some s \<longrightarrow> s < 100" by simp
  show ?thesis
    unfolding workHours_between_def Let_def
      minutes_of_time_text [OF assms(1,2,3)] minutes_of_time_text [OF assms(4,5) none]
      minutes_difference_double [OF b]
    by simp
qed


subsection \<open>Queries and the rows they return\<close>

lemma queryOne_map: "queryOne (map f xs) = map_option f (queryOne xs)"
  by (cases xs) (simp_all add: queryOne_def)

lemma queryOne_Some_mem: "queryOne xs = Some x \<Longrightarrow> x \<in> set xs"
  by (cases xs) (simp_all add: queryOne_def)

lemma queryOne_None: "queryOne xs = None \<longleftrightarrow> xs = []"
  by (cases xs) (simp_all add: queryOne_def)

lemma timeString_truthy: "truthy (Some (timeString c))"
  by (simp add: timeString_def truthy_string_def pad2_def)

lemma select_attendance_update_check_in:
  "select_attendance (update_check_in d t p loc st i) uid today =
   map (\<lambda>r. if att_id r = i
            then r\<lparr>check_in_time := Some t, check_in_photo := Some p,
                   check_in_latitude := Some (latitude loc),
                   check_in_longitude := Some (longitude loc),
                   check_in_address := Some (address loc), att_status := st\<rparr>
            else r) (select_attendance d uid today)"
  by (simp add: select_attendance_def update_check_in_def filter_map comp_def if_distrib cong: if_cong)


lemma select_attendance_insert:
  assumes "insert_attendance d i uid today t p loc st = Some d'"
  shows "\<exists>row. select_attendance d' uid today = select_attendance d uid today @ [row]
           \<and> check_in_time row = Some t \<and> att_status row = st"
proof -
  from assms have "d' = d\<lparr>attendance_records := attendance_records d @
             [\<lparr> att_id = i, att_user_id = uid, att_date = today,
                check_in_time = Some t, check_in_photo = Some p,
                check_in_latitude = Some (latitude loc),
                check_in_longitude = Some (longitude loc),
                check_in_address = Some (address loc),
                check_out_time = None, check_out_photo = None,
                check_out_latitude = None, check_out_longitude = None,
                check_out_address = None,
                att_status = st, work_hours = ''0.00'' \<rparr>]\<rparr>"
    by (simp add: insert_attendance_def split: if_splits)
  then show ?thesis by (simp add: select_attendance_def)
qed


lemma check_in_action_already:
  assumes "queryOne (select_attendance d (user_id_of u) (toISODate c)) = Some e"
      and "truthy (check_in_time e)"
  shows "check_in_action d u body c schedule = (d, Failure AlreadyCheckedIn)"
  using assms by (simp add: check_in_action_def)

lemma check_in_action_success:
  assumes "check_in_action d u body c schedule = (d', Success r msg)"
  shows "\<exists>row. queryOne (select_attendance d' (user_id_of u) (toISODate c)) = Some row
           \<and> r = mapRowToAttendanceRecord row
           \<and> check_in_time row = Some (timeString c)
           \<and> att_status row = (if string_gt (timeString c) (start_time schedule) then late else present)"
proof -
  let ?uid = "user_id_of u" and ?today = "toISODate c"
  let ?st = "if string_gt (timeString c) (start_time schedule) then late else present"
  let ?msg = "if string_gt (timeString c) (start_time schedule)
              then ''Check-in berhasil (Terlambat)'' else ''Check-in berhasil''"
  let ?reply = "\<lambda>dd. case queryOne (select_attendance dd ?uid ?today) of
                  None \<Rightarrow> (dd, Failure ServerError)
                | Some updatedRecord \<Rightarrow> (dd, Success (mapRowToAttendanceRecord updatedRecord) ?msg)"
  have reply: "\<exists>row. queryOne (select_attendance dd ?uid ?today) = Some row \<and> dd = d'
                 \<and> r = mapRowToAttendanceRecord row"
    if "?reply dd = (d', Success r msg)" for dd
    using that by (cases "queryOne (select_attendance dd ?uid ?today)") simp_all
  show ?thesis
  proof (cases "queryOne (select_attendance d ?uid ?today)")
    case None
    then have empty: "select_attendance d ?uid ?today = []"
      by (simp add: queryOne_None)
    let ?ins = "insert_attendance d (''att-'' @ decimal (Date_now c)) ?uid ?today (timeString c)
                  (body_photo body) (body_location body) ?st"
    have unfold: "check_in_action d u body c schedule =
                    (case ?ins of None \<Rightarrow> (d, Failure ServerError) | Some dd \<Rightarrow> ?reply dd)"
      using None by (simp add: check_in_action_def Let_def)
    from assms unfold obtain dd where ins: "?ins = Some dd" and rep: "?reply dd = (d', Success r msg)"
      by (cases ?ins) simp_all
    from select_attendance_insert [OF ins] empty obtain row0 where
      row0: "select_attendance dd ?uid ?today = [row0]"
        "check_in_time row0 = Some (timeString c)" "att_status row0 = ?st"
      by auto
    from reply [OF rep] obtain row where
      row: "queryOne (select_attendance dd ?uid ?today) = Some row" "dd = d'"
        "r = mapRowToAttendanceRecord row"
      by blast
    from row(1) row0(1) have "row = row0" by (simp add: queryOne_def)
    with row row0 show ?thesis by blast
  next
    case (Some e)
    let ?dd = "update_check_in d (timeString c) (body_photo body) (body_location body) ?st (att_id e)"
    have nt: "\<not> truthy (check_in_time e)"
      using assms Some check_in_action_already [of d u c e body schedule] by auto
    have unfold: "check_in_action d u body c schedule = ?reply ?dd"
      using Some nt by (simp add: check_in_action_def Let_def)
    from reply [of ?dd] assms unfold obtain row where
      row: "queryOne (select_attendance ?dd ?uid ?today) = Some row" "?dd = d'"
        "r = mapRowToAttendanceRecord row"
      by auto
    have "queryOne (select_attendance ?dd ?uid ?today) =
            Some (e\<lparr>check_in_time := Some (timeString c), check_in_photo := Some (body_photo body),
                   check_in_latitude := Some (latitude (body_location body)),
                   check_in_longitude := Some (longitude (body_location body)),
                   check_in_address := Some (address (body_location body)), att_status := ?st\<rparr>)"
      using Some by (simp add: select_attendance_update_check_in queryOne_map)
    with row(1) have "check_in_time row = Some (timeString c) \<and> att_status row = ?st"
      by auto
    with row show ?thesis by blast
  qed
qed



lemma digit_chars:
  "char_of (48::nat) = CHR ''0''" "char_of (49::nat) = CHR ''1''" "char_of (50::nat) = CHR ''2''"
  "char_of (51::nat) = CHR ''3''" "char_of (52::nat) = CHR ''4''" "char_of (53::nat) = CHR ''5''"
  "char_of (54::nat) = CHR ''6''" "char_of (55::nat) = CHR ''7''" "char_of (56::nat) = CHR ''8''"
  "char_of (57::nat) = CHR ''9''"
  by (simp_all add: char_of_def bit_0)

lemma attendance_key_update_check_in:
  "map (\<lambda>r. (att_user_id r, att_date r)) (attendance_records (update_check_in d t p loc st i))
   = map (\<lambda>r. (att_user_id r, att_date r)) (attendance_records d)"
  by (simp add: update_check_in_def comp_def if_distrib cong: if_cong)

lemma attendance_key_update_check_out:
  "map (\<lambda>r. (att_user_id r, att_date r)) (attendance_records (update_check_out d t p loc wh i))
   = map (\<lambda>r. (att_user_id r, att_date r)) (attendance_records d)"
  by (simp add: update_check_out_def comp_def if_distrib cong: if_cong)

lemma unique_insert_attendance:
  assumes "insert_attendance d i uid today t p loc st = Some d'"
      and "unique_user_date (attendance_records d)"
  shows "unique_user_date (attendance_records d')"
proof -
  from assms(1) have no: "\<not> list_ex (\<lambda>r. att_id r = i \<or> (att_user_id r = uid \<and> att_date r = today))
                 (attendance_records d)"
    by (simp add: insert_attendance_def split: if_splits)
  then have fresh: "(uid, today) \<notin> set (map (\<lambda>r. (att_user_id r, att_date r)) (attendance_records d))"
    by (auto simp: list_ex_iff)
  from assms(1) no have "map (\<lambda>r. (att_user_id r, att_date r)) (attendance_records d')
        = map (\<lambda>r. (att_user_id r, att_date r)) (attendance_records d) @ [(uid, today)]"
    by (auto simp: insert_attendance_def)
  with fresh assms(2) show ?thesis by (simp add: unique_user_date_def)
qed


lemma check_in_action_db:
  "fst (check_in_action d u body c schedule) = d
   \<or> (\<exists>st i. fst (check_in_action d u body c schedule)
              = update_check_in d (timeString c) (body_photo body) (body_location body) st i)
   \<or> (\<exists>st i. insert_attendance d i (user_id_of u) (toISODate c) (timeString c) (body_photo body)
                 (body_location body) st = Some (fst (check_in_action d u body c schedule)))"
proof (cases "queryOne (select_attendance d (user_id_of u) (toISODate c))")
  case None
  let ?st = "if string_gt (timeString c) (start_time schedule) then late else present"
  let ?ins = "insert_attendance d (''att-'' @ decimal (Date_now c)) (user_id_of u) (toISODate c)
                (timeString c) (body_photo body) (body_location body) ?st"
  show ?thesis
  proof (cases ?ins)
    case ins_None: None
    with \<open>queryOne _ = None\<close> have "fst (check_in_action d u body c schedule) = d"
      by (simp add: check_in_action_def Let_def)
    then show ?thesis by simp
  next
    case (Some dd)
    with None have "fst (check_in_action d u body c schedule) = dd"
      by (simp add: check_in_action_def Let_def split: option.split)
    with Some show ?thesis by metis
  qed
next
  case (Some e)
  show ?thesis
  proof (cases "truthy (check_in_time e)")
    case True
    with Some show ?thesis by (simp add: check_in_action_already)
  next
    case False
    with Some have "\<exists>st i. fst (check_in_action d u body c schedule)
              = update_check_in d (timeString c) (body_photo body) (body_location body) st i"
      by (simp add: check_in_action_def Let_def split: option.split) blast
    then show ?thesis by simp
  qed
qed


lemma check_out_action_ready:
  assumes "queryOne (select_attendance d (user_id_of u) (toISODate c)) = Some e"
      and "check_in_time e = Some ci" "truthy_string ci" "\<not> truthy (check_out_time e)"
  shows "check_out_action d u body c schedule =
           (if js_less (Numeric (workHours_between ci (timeString c))) (Text (min_work_hours schedule))
            then (d, Failure (MinimumHoursNotMet (Text (min_work_hours schedule))
                    (remaining_time (Number (min_work_hours schedule))
                       (workHours_between ci (timeString c)))))
            else (case DECIMAL_scale_2 (Math_max (Num 0) (workHours_between ci (timeString c))) of
                    None \<Rightarrow> (d, Failure ServerError)
                  | Some hours \<Rightarrow>
                     (case queryOne (select_attendance_by_id
                              (update_check_out d (timeString c) (body_photo body) (body_location body)
                                 hours (att_id e))
                              (att_id e)) of
                        None \<Rightarrow> (update_check_out d (timeString c) (body_photo body) (body_location body)
                                  hours (att_id e),
                                Failure ServerError)
                      | Some updatedRecord \<Rightarrow>
                          (update_check_out d (timeString c) (body_photo body) (body_location body)
                             hours (att_id e),
                           Success (mapRowToAttendanceRecord updatedRecord) ''Check-out berhasil''))))"
  using assms
  by (cases "DECIMAL_scale_2 (Math_max (Num 0) (workHours_between ci (timeString c)))")
     (simp_all add: check_out_action_def Let_def)

lemma check_out_action_db:
  "fst (check_out_action d u body c schedule) = d
   \<or> (\<exists>wh i. fst (check_out_action d u body c schedule)
              = update_check_out d (timeString c) (body_photo body) (body_location body) wh i)"
proof (cases "queryOne (select_attendance d (user_id_of u) (toISODate c))")
  case None
  then show ?thesis by (simp add: check_out_action_def Let_def)
next
  case (Some e)
  show ?thesis
  proof (cases "check_in_time e")
    case None
    with Some show ?thesis by (simp add: check_out_action_def Let_def)
  next
    case ci: (Some ci)
    show ?thesis
    proof (cases "truthy_string ci \<and> \<not> truthy (check_out_time e)")
      case True
      show ?thesis
      proof (cases "DECIMAL_scale_2 (Math_max (Num 0) (workHours_between ci (timeString c)))")
        case None
        with True have "fst (check_out_action d u body c schedule) = d"
          by (simp add: check_out_action_ready [OF Some ci])
        then show ?thesis by simp
      next
        case hours: (Some hours)
        let ?dd = "update_check_out d (timeString c) (body_photo body) (body_location body)
                     hours (att_id e)"
        from True hours have "fst (check_out_action d u body c schedule) = d
                        \<or> fst (check_out_action d u body c schedule) = ?dd"
          by (simp add: check_out_action_ready [OF Some ci] split: option.split)
        then show ?thesis by blast
      qed
    next
      case False
      with Some ci show ?thesis by (auto simp add: check_out_action_def Let_def)
    qed
  qed
qed

lemma select_by_id_update_check_out:
  "select_attendance_by_id (update_check_out d t p loc wh i) j =
   map (\<lambda>r. if att_id r = i
            then r\<lparr>check_out_time := Some t, check_out_photo := Some p,
                   check_out_latitude := Some (latitude loc),
                   check_out_longitude := Some (longitude loc),
                   check_out_address := Some (address loc), work_hours := wh\<rparr>
            else r) (select_attendance_by_id d j)"
  by (simp add: select_attendance_by_id_def update_check_out_def filter_map comp_def if_distrib cong: if_cong)

lemma select_by_id_of_existing:
  assumes "queryOne (select_attendance d uid today) = Some e"
  shows "\<exists>e'. queryOne (select_attendance_by_id d (att_id e)) = Some e' \<and> att_id e' = att_id e"
proof -
  from assms have "e \<in> set (attendance_records d)"
    by (auto dest: queryOne_Some_mem simp: select_attendance_def)
  then have "select_attendance_by_id d (att_id e) \<noteq> []"
    by (auto simp: select_attendance_by_id_def filter_empty_conv)
  then obtain e' where e': "queryOne (select_attendance_by_id d (att_id e)) = Some e'"
    by (cases "select_attendance_by_id d (att_id e)") (simp_all add: queryOne_def)
  then have "e' \<in> set (select_attendance_by_id d (att_id e))" by (rule queryOne_Some_mem)
  then have "att_id e' = att_id e" by (simp add: select_attendance_by_id_def)
  with e' show ?thesis by blast
qed

subsection \<open>Check-in\<close>

lemma attendance_POST_preserves_unique:
  assumes "unique_user_date (attendance_records d)"
  shows "unique_user_date (attendance_records (fst (attendance_POST d session body c)))"
proof (cases session)
  case None
  with assms show ?thesis by (simp add: attendance_POST_def)
next
  case (Some u)
  show ?thesis
  proof (cases "queryOne (select_schedule d (getDay c))")
    case None
    with Some assms show ?thesis by (simp add: attendance_POST_def)
  next
    case sched: (Some schedule)
    have in_ok: "unique_user_date (attendance_records (fst (check_in_action d u body c schedule)))"
      using check_in_action_db [of d u body c schedule] assms
      by (auto simp: unique_user_date_def attendance_key_update_check_in
               intro: unique_insert_attendance [unfolded unique_user_date_def])
    have out_ok: "unique_user_date (attendance_records (fst (check_out_action d u body c schedule)))"
      using check_out_action_db [of d u body c schedule] assms
      by (auto simp: unique_user_date_def attendance_key_update_check_out)
    from Some sched in_ok out_ok assms show ?thesis
      by (simp add: attendance_POST_def)
  qed
qed

lemma attendance_POST_check_in_success:
  assumes "attendance_POST d (Some u) body c = (d', Success r msg)" "action body = ''check-in''"
  shows "\<exists>schedule. queryOne (select_schedule d (getDay c)) = Some schedule
            \<and> check_in_action d u body c schedule = (d', Success r msg)"
  using assms by (cases "queryOne (select_schedule d (getDay c))") (simp_all add: attendance_POST_def)

text \<open>
  Claim C1. Every request to the attendance route keeps at most one attendance row for
  an employee and a date. After a check-in that succeeded, a further check-in of the same
  employee on the same date, whenever it is made, with whatever photo and location, and
  with a schedule row for its weekday (the route resolves the schedule first), fails with
  \<open>AlreadyCheckedIn\<close> and returns the database as it was.
\<close>

theorem second_check_in_rejected:
  assumes inv: "unique_user_date (attendance_records d)"
      and first: "attendance_POST d (Some u) body c = (d', Success r msg)"
                 "action body = ''check-in''"
      and second: "action body2 = ''check-in''" "toISODate c2 = toISODate c"
                  "queryOne (select_schedule d' (getDay c2)) = Some schedule2"
  shows "(\<forall>session b k. unique_user_date (attendance_records (fst (attendance_POST d session b k))))
         \<and> attendance_POST d' (Some u) body2 c2 = (d', Failure AlreadyCheckedIn)"
proof -
  from attendance_POST_check_in_success [OF first] obtain schedule where
    run: "check_in_action d u body c schedule = (d', Success r msg)" by blast
  from check_in_action_success [OF run] obtain row where
    row: "queryOne (select_attendance d' (user_id_of u) (toISODate c)) = Some row"
         "check_in_time row = Some (timeString c)" by blast
  have "truthy (check_in_time row)" using row(2) timeString_truthy by simp
  with row(1) second(2)
  have "check_in_action d' u body2 c2 schedule2 = (d', Failure AlreadyCheckedIn)"
    by (simp add: check_in_action_already)
  with second have "attendance_POST d' (Some u) body2 c2 = (d', Failure AlreadyCheckedIn)"
    by (simp add: attendance_POST_def)
  with inv show ?thesis by (simp add: attendance_POST_preserves_unique)
qed

lemmas scenario_defs = attendance_POST_def check_in_action_def check_out_action_def empty_db_def budi_def
  check_in_request_def check_out_request_def checked_in_at_def
  monday_at_def default_work_schedules_def select_schedule_def queryOne_def select_attendance_def
  select_attendance_by_id_def update_check_in_def update_check_out_def
  insert_attendance_def timeString_def pad2_def digit_chars string_gt_def Let_def
  mapRowToAttendanceRecord_def truthy_string_def or_string_def or_number_def office_def
  unique_user_date_def decimal.simps

theorem second_check_in_rejected_witness:
  "attendance_POST (checked_in_at 8 0) (Some budi) check_in_request (monday_at 8 30)
     = (checked_in_at 8 0, Failure AlreadyCheckedIn)
   \<and> unique_user_date (attendance_records (checked_in_at 8 0))"
proof -
  have ok: "case snd (attendance_POST empty_db (Some budi) check_in_request (monday_at 8 0)) of
              Success r m \<Rightarrow> True | Failure e \<Rightarrow> False"
    by (simp add: scenario_defs)
  then obtain r msg where
    first: "attendance_POST empty_db (Some budi) check_in_request (monday_at 8 0)
              = (checked_in_at 8 0, Success r msg)"
    unfolding checked_in_at_def
    by (cases "attendance_POST empty_db (Some budi) check_in_request (monday_at 8 0)";
        cases "snd (attendance_POST empty_db (Some budi) check_in_request (monday_at 8 0))")
       simp_all
  have inv: "unique_user_date (attendance_records empty_db)"
    by (simp add: scenario_defs)
  have act: "action check_in_request = ''check-in''" by (simp add: check_in_request_def)
  have day: "toISODate (monday_at 8 30) = toISODate (monday_at 8 0)" by (simp add: monday_at_def)
  have sch: "queryOne (select_schedule (checked_in_at 8 0) (getDay (monday_at 8 30)))
             = Some \<lparr> day_of_week = 1, start_time = ''08:00:00'', end_time = ''16:00:00'',
                 min_work_hours = ''8.00'' \<rparr>"
    by (simp add: scenario_defs)
  from second_check_in_rejected [OF inv first act act day sch]
  have "attendance_POST (checked_in_at 8 0) (Some budi) check_in_request (monday_at 8 30)
          = (checked_in_at 8 0, Failure AlreadyCheckedIn)"
    and "unique_user_date (attendance_records (fst (attendance_POST empty_db (Some budi) check_in_request (monday_at 8 0))))"
    by blast+
  then show ?thesis by (simp add: checked_in_at_def)
qed

text \<open>
  Claim C2. A check-in that succeeds stores and returns the status \<open>present\<close> when the
  local time of day is the schedule's start time or earlier, and \<open>late\<close> when it is one
  minute or more after it: equality is not late. The start time is read as text, with or
  without seconds.
\<close>

theorem check_in_late_iff_after_start:
  assumes run: "attendance_POST d (Some u) body c = (d', Success r msg)"
               "action body = ''check-in''"
      and sched: "queryOne (select_schedule d (getDay c)) = Some schedule"
                 "start_time schedule = time_text sh sm so"
      and times: "getHours c < 24" "getMinutes c < 60" "sh < 24" "sm < 60"
  shows "status r = (if sh * 60 + sm < getHours c * 60 + getMinutes c then late else present)
         \<and> (\<exists>row. queryOne (select_attendance d' (user_id_of u) (toISODate c)) = Some row
                  \<and> att_status row = status r)"
proof -
  from attendance_POST_check_in_success [OF run] sched(1)
  have act: "check_in_action d u body c schedule = (d', Success r msg)" by auto
  from check_in_action_success [OF act] obtain row where
    row: "queryOne (select_attendance d' (user_id_of u) (toISODate c)) = Some row"
         "r = mapRowToAttendanceRecord row"
         "att_status row = (if string_gt (timeString c) (start_time schedule) then late else present)"
    by blast
  have "string_gt (timeString c) (start_time schedule)
          \<longleftrightarrow> (sh < getHours c \<or> sh = getHours c \<and> sm < getMinutes c)"
    unfolding string_gt_def sched(2) timeString_time_text
    using times by (intro time_text_less) simp_all
  also have "\<dots> \<longleftrightarrow> sh * 60 + sm < getHours c * 60 + getMinutes c"
    using times by (intro minutes_lex) simp_all
  finally have late: "string_gt (timeString c) (start_time schedule)
          \<longleftrightarrow> sh * 60 + sm < getHours c * 60 + getMinutes c" .
  have "status r = att_status row" using row(2) by (simp add: mapRowToAttendanceRecord_def)
  with row late show ?thesis by auto
qed

theorem check_in_late_iff_after_start_witness:
  "(\<exists>d' r msg. attendance_POST empty_db (Some budi) check_in_request (monday_at 8 0)
                  = (d', Success r msg) \<and> status r = present)
   \<and> (\<exists>d' r msg. attendance_POST empty_db (Some budi) check_in_request (monday_at 8 1)
                  = (d', Success r msg) \<and> status r = late)"
proof -
  have ok: "case snd (attendance_POST empty_db (Some budi) check_in_request (monday_at 8 m)) of
              Success r msg \<Rightarrow> True | Failure e \<Rightarrow> False" if "m < 60" for m
    by (simp add: scenario_defs)
  have run: "\<exists>d' r msg. attendance_POST empty_db (Some budi) check_in_request (monday_at 8 m)
                = (d', Success r msg)" if "m < 60" for m
    using ok [OF that]
    by (cases "attendance_POST empty_db (Some budi) check_in_request (monday_at 8 m)";
        cases "snd (attendance_POST empty_db (Some budi) check_in_request (monday_at 8 m))")
       simp_all
  have act: "action check_in_request = ''check-in''" by (simp add: check_in_request_def)
  have sch: "queryOne (select_schedule empty_db (getDay (monday_at 8 m)))
             = Some \<lparr> day_of_week = 1, start_time = ''08:00:00'', end_time = ''16:00:00'',
                 min_work_hours = ''8.00'' \<rparr>" for m
    by (simp add: scenario_defs)
  have st: "start_time \<lparr> day_of_week = 1, start_time = ''08:00:00'', end_time = ''16:00:00'',
                 min_work_hours = ''8.00'' \<rparr> = time_text 8 0 (Some 0)"
    by (simp add: pad2_def digit_chars)
  from run [of 0] obtain d0 r0 m0 where
    r0: "attendance_POST empty_db (Some budi) check_in_request (monday_at 8 0) = (d0, Success r0 m0)"
    by auto
  from run [of 1] obtain d1 r1 m1 where
    r1: "attendance_POST empty_db (Some budi) check_in_request (monday_at 8 1) = (d1, Success r1 m1)"
    by auto
  have "status r0 = present"
    using check_in_late_iff_after_start [OF r0 act sch st] by (simp add: monday_at_def)
  moreover have "status r1 = late"
    using check_in_late_iff_after_start [OF r1 act sch st] by (simp add: monday_at_def)
  ultimately show ?thesis using r0 r1 by blast
qed

subsection \<open>Check-out\<close>

lemma attendance_POST_check_out:
  assumes "queryOne (select_schedule d (getDay c)) = Some schedule"
      and "action body = ''check-out''"
  shows "attendance_POST d (Some u) body c = check_out_action d u body c schedule"
  using assms by (simp add: attendance_POST_def)

lemma attendance_POST_below_minimum:
  assumes "queryOne (select_schedule d (getDay c)) = Some schedule"
      and "action body = ''check-out''"
      and "queryOne (select_attendance d (user_id_of u) (toISODate c)) = Some e"
      and "check_in_time e = Some ci" "truthy_string ci" "\<not> truthy (check_out_time e)"
      and "js_lt (workHours_between ci (timeString c)) (Number (min_work_hours schedule))"
  shows "attendance_POST d (Some u) body c =
           (d, Failure (MinimumHoursNotMet (Text (min_work_hours schedule))
                  (remaining_time (Number (min_work_hours schedule))
                     (workHours_between ci (timeString c)))))"
  unfolding attendance_POST_check_out [OF assms(1,2)] check_out_action_ready [OF assms(3-6)]
  using assms(7) by simp

lemma check_in_action_failure_unchanged:
  assumes "snd (check_in_action d u body c schedule) = Failure err"
  shows "fst (check_in_action d u body c schedule) = d"
proof (cases "queryOne (select_attendance d (user_id_of u) (toISODate c))")
  case None
  then have empty: "select_attendance d (user_id_of u) (toISODate c) = []"
    by (simp add: queryOne_None)
  let ?st = "if string_gt (timeString c) (start_time schedule) then late else present"
  let ?ins = "insert_attendance d (''att-'' @ decimal (Date_now c)) (user_id_of u) (toISODate c)
                (timeString c) (body_photo body) (body_location body) ?st"
  show ?thesis
  proof (cases ?ins)
    case ins_None: None
    with \<open>queryOne _ = None\<close> show ?thesis by (simp add: check_in_action_def Let_def)
  next
    case (Some dd)
    from select_attendance_insert [OF Some] empty obtain row where
      "select_attendance dd (user_id_of u) (toISODate c) = [row]" by auto
    then have "queryOne (select_attendance dd (user_id_of u) (toISODate c)) = Some row"
      by (simp add: queryOne_def)
    with None Some have "\<exists>r msg. snd (check_in_action d u body c schedule) = Success r msg"
      by (simp add: check_in_action_def Let_def)
    with assms show ?thesis by auto
  qed
next
  case (Some e)
  show ?thesis
  proof (cases "truthy (check_in_time e)")
    case True
    with Some show ?thesis by (simp add: check_in_action_already)
  next
    case False
    have "\<exists>row. queryOne (select_attendance
            (update_check_in d (timeString c) (body_photo body) (body_location body)
               (if string_gt (timeString c) (start_time schedule) then late else present) (att_id e))
            (user_id_of u) (toISODate c)) = Some row"
      using Some by (simp add: select_attendance_update_check_in queryOne_map)
    with Some False have "\<exists>r msg. snd (check_in_action d u body c schedule) = Success r msg"
      by (auto simp add: check_in_action_def Let_def)
    with assms show ?thesis by auto
  qed
qed

lemma check_out_action_failure_unchanged:
  assumes "snd (check_out_action d u body c schedule) = Failure err"
  shows "fst (check_out_action d u body c schedule) = d"
proof (cases "queryOne (select_attendance d (user_id_of u) (toISODate c))")
  case None
  then show ?thesis by (simp add: check_out_action_def Let_def)
next
  case (Some e)
  show ?thesis
  proof (cases "check_in_time e")
    case None
    with Some show ?thesis by (simp add: check_out_action_def Let_def)
  next
    case ci: (Some ci)
    show ?thesis
    proof (cases "truthy_string ci \<and> \<not> truthy (check_out_time e)")
      case True
      from select_by_id_of_existing [OF Some] obtain e' where
        e': "queryOne (select_attendance_by_id d (att_id e)) = Some e'" by blast
      have found: "\<exists>row. queryOne (select_attendance_by_id
               (update_check_out d (timeString c) (body_photo body) (body_location body) wh (att_id e))
               (att_id e)) = Some row" for wh
        using e' by (simp add: select_by_id_update_check_out queryOne_map)
      show ?thesis
      proof (cases "DECIMAL_scale_2 (Math_max (Num 0) (workHours_between ci (timeString c)))")
        case None
        with True show ?thesis by (simp add: check_out_action_ready [OF Some ci])
      next
        case hours: (Some hours)
        from found [of hours] obtain row where
          "queryOne (select_attendance_by_id
                 (update_check_out d (timeString c) (body_photo body) (body_location body)
                    hours (att_id e))
                 (att_id e)) = Some row" by blast
        with True hours assms show ?thesis
          by (simp add: check_out_action_ready [OF Some ci] split: if_splits)
      qed
    next
      case False
      with Some ci show ?thesis by (auto simp add: check_out_action_def Let_def)
    qed
  qed
qed

lemma attendance_POST_failure_unchanged:
  assumes "snd (attendance_POST d session body c) = Failure err"
  shows "fst (attendance_POST d session body c) = d"
proof (cases session)
  case None
  then show ?thesis by (simp add: attendance_POST_def)
next
  case (Some u)
  show ?thesis
  proof (cases "queryOne (select_schedule d (getDay c))")
    case None
    with Some show ?thesis by (simp add: attendance_POST_def)
  next
    case sched: (Some schedule)
    with Some assms show ?thesis
      by (auto simp add: attendance_POST_def check_in_action_failure_unchanged
            check_out_action_failure_unchanged split: if_splits)
  qed
qed

text \<open>
  Claim C4. When the hours computed at check-out are below the schedule's minimum, the
  request fails with \<open>MinimumHoursNotMet\<close> and the database it returns is the one it was
  given: no check-out event, no work hours, no other field is written. More generally, no
  request to the attendance route that ends in a failure writes anything. The minimum is
  the number that the comparison reads from the text of the schedule's column.
\<close>

theorem check_out_below_minimum_rejected:
  assumes "queryOne (select_schedule d (getDay c)) = Some schedule"
      and "action body = ''check-out''"
      and "queryOne (select_attendance d (user_id_of u) (toISODate c)) = Some e"
      and "check_in_time e = Some ci" "truthy_string ci" "\<not> truthy (check_out_time e)"
      and "js_lt (workHours_between ci (timeString c)) (Number (min_work_hours schedule))"
  shows "attendance_POST d (Some u) body c =
           (d, Failure (MinimumHoursNotMet (Text (min_work_hours schedule))
                  (remaining_time (Number (min_work_hours schedule))
                     (workHours_between ci (timeString c)))))
         \<and> (\<forall>session b k err. snd (attendance_POST d session b k) = Failure err
                \<longrightarrow> fst (attendance_POST d session b k) = d)"
  using attendance_POST_below_minimum [OF assms]
  by (simp add: attendance_POST_failure_unchanged)

lemma checked_in_at_8_row:
  "queryOne (select_attendance (checked_in_at 8 0) (user_id_of budi) (toISODate (monday_at h m)))
     = Some \<lparr> att_id = ''att-1767600000000'', att_user_id = ''emp-001'',
            att_date = ''2026-01-05'', check_in_time = Some ''08:00'',
            check_in_photo = Some ''photo-in'',
            check_in_latitude = Some (Num (- 25 / 4)),
            check_in_longitude = Some (Num (427 / 4)),
            check_in_address = Some ''Jakarta'', check_out_time = None,
            check_out_photo = None, check_out_latitude = None,
            check_out_longitude = None, check_out_address = None,
            att_status = present, work_hours = ''0.00'' \<rparr>"
  by (simp add: scenario_defs)

lemma checked_in_at_8_schedule:
  "queryOne (select_schedule (checked_in_at 8 0) (getDay (monday_at h m)))
     = Some \<lparr> day_of_week = 1, start_time = ''08:00:00'', end_time = ''16:00:00'',
              min_work_hours = ''8.00'' \<rparr>"
  by (simp add: scenario_defs)

lemmas number_eval = Number_def unsigned_decimal_def is_digit_def digit_val_def digits_val_def
  less_eq_char_def double_eval

lemma workHours_8_to_15: "workHours_between ''08:00'' (timeString (monday_at 15 0)) = Num 7"
proof -
  have "workHours_between (time_text 8 0 None) (time_text 15 0 None) = Num 7"
    by (simp add: workHours_between_time_text double_eval del: time_text.simps)
  then show ?thesis by (simp add: timeString_def monday_at_def pad2_def digit_chars)
qed

lemma Number_8: "Number ''8.00'' = Num 8"
  by (simp add: number_eval)

theorem check_out_below_minimum_rejected_witness:
  "fst (attendance_POST (checked_in_at 8 0) (Some budi) check_out_request (monday_at 15 0))
     = checked_in_at 8 0
   \<and> (\<exists>t. snd (attendance_POST (checked_in_at 8 0) (Some budi) check_out_request (monday_at 15 0))
           = Failure (MinimumHoursNotMet (Text ''8.00'') t))"
proof -
  have act: "action check_out_request = ''check-out''" by (simp add: check_out_request_def)
  have low: "js_lt (workHours_between ''08:00'' (timeString (monday_at 15 0)))
               (Number (min_work_hours \<lparr> day_of_week = 1, start_time = ''08:00:00'',
                  end_time = ''16:00:00'', min_work_hours = ''8.00'' \<rparr>))"
    by (simp add: workHours_8_to_15 Number_8)
  show ?thesis
    using check_out_below_minimum_rejected [OF checked_in_at_8_schedule act checked_in_at_8_row _ _ _ low]
    by (simp add: truthy_string_def)
qed

lemma time_text_truthy: "truthy_string (time_text h m so)"
  by (cases so) (simp_all add: truthy_string_def pad2_def)

lemma valid_seconds_bound: "valid_seconds so \<Longrightarrow> \<forall>s. so = Some s \<longrightarrow> s < 100"
  by (cases so) simp_all

lemma workHours_between_clock:
  assumes "ih < 24" "im < 60" "valid_seconds so" "getHours c < 24" "getMinutes c < 60"
  shows "workHours_between (time_text ih im so) (timeString c)
         = Num (double ((of_nat (getHours c * 60 + getMinutes c) - of_nat (ih * 60 + im)) / 60))"
  unfolding timeString_time_text
  using assms by (intro workHours_between_time_text valid_seconds_bound) simp_all

lemmas arithmetic_defs = workHours_between_def remaining_time_def at_index_def DECIMAL_scale_2_def
  number_eval

text \<open>The failure reports the product that the code computes, rounded up and split into
  hours and minutes below 60; what it computes is the double arithmetic of
  \<^verbatim>\<open>(min - workHours) * 60\<close>.\<close>

lemma remaining_time_splits_ceiling:
  assumes "t = \<lceil>double (double (mn - w) * 60)\<rceil>" "0 \<le> t" "t < 2 ^ 31"
  shows "remaining_time (Num mn) (Num w) =
           (if 0 < t div 60 then JamMenit (Num (of_int (t div 60))) (Num (of_int (t mod 60)))
            else Menit (Num (of_int (t mod 60))))"
proof -
  have rm: "Math_ceil (js_mul (js_sub (Num mn) (Num w)) (Num 60)) = Num (of_int t)"
    by (simp add: assms(1))
  have hours: "Math_floor (js_div (Num (of_int t)) (Num 60)) = Num (of_int (t div 60))"
    using floor_double_sixtieth [OF assms(2,3)] by simp
  have fl: "\<lfloor>(of_int t :: rat) / 60\<rfloor> = t div 60"
    using floor_divide_of_int_eq [of t 60, where ?'a = rat] by simp
  have nonneg: "0 \<le> (of_int t :: rat) / 60" using assms(2) by simp
  have md: "(of_int t :: rat) - 60 * of_int (t div 60) = of_int (t mod 60)"
    by (simp add: minus_mult_div_eq_mod [symmetric] del: minus_mult_div_eq_mod)
  have minutes: "js_rem (Num (of_int t)) (Num 60) = Num (of_int (t mod 60))"
    using nonneg fl md by simp
  have "remaining_time (Num mn) (Num w) =
          (if js_gt (Num (of_int (t div 60))) (Num 0)
           then JamMenit (Num (of_int (t div 60))) (Num (of_int (t mod 60)))
           else Menit (Num (of_int (t mod 60))))"
    by (simp only: remaining_time_def Let_def rm hours minutes)
  then show ?thesis by simp
qed

text \<open>
  Claim C5, where the code departs from it. With the 08:00 schedule of 8 hours,
  check-in at 08:00 and check-out at 15:00, the failure reports 1 hour 0 minutes, as the
  claim says. After a check-in at 07:50, a check-out at 10:00 has worked 130 minutes and
  is 350 minutes short, a whole number; but 130 / 60 is not a double, the hours are the
  double next to it, and the deficit the code computes from them is a little more than
  350 minutes: rounded up, it reports 5 hours 51 minutes.
\<close>

theorem remaining_time_one_minute_over:
  "attendance_POST (checked_in_at 8 0) (Some budi) check_out_request (monday_at 15 0)
     = (checked_in_at 8 0,
        Failure (MinimumHoursNotMet (Text ''8.00'') (JamMenit (Num 1) (Num 0))))
   \<and> workHours_between ''07:50'' (timeString (monday_at 10 0))
       = Num (4878899596318037 / 2251799813685248)
   \<and> js_mul (js_sub (Number ''8.00'') (workHours_between ''07:50'' (timeString (monday_at 10 0))))
         (Num 60) = Num (6157265115545601 / 17592186044416)
   \<and> attendance_POST (checked_in_at 7 50) (Some budi) check_out_request (monday_at 10 0)
       = (checked_in_at 7 50,
          Failure (MinimumHoursNotMet (Text ''8.00'') (JamMenit (Num 5) (Num 51))))
   \<and> \<lceil>(8 - (of_nat (10 * 60 + 0) - of_nat (7 * 60 + 50)) / 60) * (60::rat)\<rceil> = 5 * 60 + 50"
  by (simp add: scenario_defs arithmetic_defs)

lemma select_attendance_update_check_out:
  "select_attendance (update_check_out d t p loc wh i) uid today =
   map (\<lambda>r. if att_id r = i
            then r\<lparr>check_out_time := Some t, check_out_photo := Some p,
                   check_out_latitude := Some (latitude loc),
                   check_out_longitude := Some (longitude loc),
                   check_out_address := Some (address loc), work_hours := wh\<rparr>
            else r) (select_attendance d uid today)"
  by (simp add: select_attendance_def update_check_out_def filter_map comp_def if_distrib cong: if_cong)

lemma DECIMAL_scale_2_Num: "\<exists>hours. DECIMAL_scale_2 (Num x) = Some hours"
  by (simp add: DECIMAL_scale_2_def Let_def)

lemma DECIMAL_scale_2_zero: "DECIMAL_scale_2 (Num 0) = Some ''0.00''"
  by (simp add: DECIMAL_scale_2_def decimal.simps pad2_def digit_chars)

lemma check_out_passes:
  assumes "queryOne (select_schedule d (getDay c)) = Some schedule"
      and "action body = ''check-out''"
      and "queryOne (select_attendance d (user_id_of u) (toISODate c)) = Some e"
      and "check_in_time e = Some ci" "truthy_string ci" "\<not> truthy (check_out_time e)"
      and "\<not> js_lt (workHours_between ci (timeString c)) (Number (min_work_hours schedule))"
      and "DECIMAL_scale_2 (Math_max (Num 0) (workHours_between ci (timeString c))) = Some hours"
  shows "\<exists>d' r row. attendance_POST d (Some u) body c = (d', Success r ''Check-out berhasil'')
           \<and> workHours r = hours
           \<and> queryOne (select_attendance d' (user_id_of u) (toISODate c)) = Some row
           \<and> work_hours row = hours
           \<and> check_out_time row = Some (timeString c)"
proof -
  let ?dd = "update_check_out d (timeString c) (body_photo body) (body_location body) hours (att_id e)"
  from select_by_id_of_existing [OF assms(3)] obtain e' where
    e': "queryOne (select_attendance_by_id d (att_id e)) = Some e'" "att_id e' = att_id e" by blast
  let ?r = "e'\<lparr>check_out_time := Some (timeString c), check_out_photo := Some (body_photo body),
                check_out_latitude := Some (latitude (body_location body)),
                check_out_longitude := Some (longitude (body_location body)),
                check_out_address := Some (address (body_location body)), work_hours := hours\<rparr>"
  have sel: "queryOne (select_attendance_by_id ?dd (att_id e)) = Some ?r"
    using e' by (simp add: select_by_id_update_check_out queryOne_map)
  have run: "attendance_POST d (Some u) body c
               = (?dd, Success (mapRowToAttendanceRecord ?r) ''Check-out berhasil'')"
    unfolding attendance_POST_check_out [OF assms(1,2)] check_out_action_ready [OF assms(3-6)]
    using assms(7,8) by (simp add: sel)
  have wr: "workHours (mapRowToAttendanceRecord ?r) = hours"
    by (simp add: mapRowToAttendanceRecord_def)
  have "\<exists>row. queryOne (select_attendance ?dd (user_id_of u) (toISODate c)) = Some row
          \<and> work_hours row = hours \<and> check_out_time row = Some (timeString c)"
    using assms(3) by (simp add: select_attendance_update_check_out queryOne_map)
  with run wr show ?thesis by blast
qed

text \<open>
  Claim C3, as the code has it. The hours a check-out computes are the elapsed minutes
  over 60, as a double; the hours a successful check-out stores are these floored at
  zero, in the two decimal places of the column: never negative, and no smaller for a
  later check-out. The minimum-hours test comes first and is made on the unfloored value:
  a check-out whose minutes are before the check-in's succeeds, and stores 0.00, exactly
  when its negative hours are not below the schedule's minimum, and is rejected with
  \<open>MinimumHoursNotMet\<close> otherwise.
\<close>

theorem check_out_floors_hours_after_minimum_test:
  assumes "queryOne (select_schedule d (getDay c)) = Some schedule"
      and "action body = ''check-out''"
      and "queryOne (select_attendance d (user_id_of u) (toISODate c)) = Some e"
      and "check_in_time e = Some (time_text ih im so)" "\<not> truthy (check_out_time e)"
      and "ih < 24" "im < 60" "valid_seconds so" "getHours c < 24" "getMinutes c < 60"
      and "Number (min_work_hours schedule) = Num mn"
      and "w = double ((of_nat (getHours c * 60 + getMinutes c) - of_nat (ih * 60 + im)) / 60)"
  shows "(w < mn \<longrightarrow> (\<exists>t. attendance_POST d (Some u) body c
                               = (d, Failure (MinimumHoursNotMet (Text (min_work_hours schedule)) t))))
       \<and> (\<not> w < mn \<longrightarrow>
            (\<exists>d' r row. attendance_POST d (Some u) body c = (d', Success r ''Check-out berhasil'')
               \<and> DECIMAL_scale_2 (Num (max 0 w)) = Some (workHours r)
               \<and> (w \<le> 0 \<longrightarrow> workHours r = ''0.00'')
               \<and> queryOne (select_attendance d' (user_id_of u) (toISODate c)) = Some row
               \<and> work_hours row = workHours r
               \<and> check_out_time row = Some (timeString c)))
       \<and> (\<forall>(c2::clock) w2. getHours c2 < 24 \<and> getMinutes c2 < 60
              \<and> w2 = double ((of_nat (getHours c2 * 60 + getMinutes c2) - of_nat (ih * 60 + im)) / 60)
              \<and> getHours c * 60 + getMinutes c \<le> getHours c2 * 60 + getMinutes c2
            \<longrightarrow> Math_max (Num 0) (workHours_between (time_text ih im so) (timeString c)) = Num (max 0 w)
              \<and> Math_max (Num 0) (workHours_between (time_text ih im so) (timeString c2)) = Num (max 0 w2)
              \<and> 0 \<le> max 0 w \<and> max 0 w \<le> max 0 w2)"
proof (intro conjI impI allI)
  have wh: "workHours_between (time_text ih im so) (timeString c) = Num w"
    using assms(6-10) assms(12) by (simp only: workHours_between_clock)
  {
    assume "w < mn"
    then have "js_lt (workHours_between (time_text ih im so) (timeString c))
                 (Number (min_work_hours schedule))"
      using assms(11) by (simp add: wh)
    from attendance_POST_below_minimum [OF assms(1-4) time_text_truthy assms(5) this]
    show "\<exists>t. attendance_POST d (Some u) body c
               = (d, Failure (MinimumHoursNotMet (Text (min_work_hours schedule)) t))"
      by blast
  }
  {
    assume nlt: "\<not> w < mn"
    then have pass: "\<not> js_lt (workHours_between (time_text ih im so) (timeString c))
                        (Number (min_work_hours schedule))"
      using assms(11) by (simp add: wh)
    from DECIMAL_scale_2_Num [of "max 0 w"] obtain hours where
      hours: "DECIMAL_scale_2 (Num (max 0 w)) = Some hours" by blast
    then have stored: "DECIMAL_scale_2 (Math_max (Num 0) (workHours_between (time_text ih im so)
                          (timeString c))) = Some hours"
      by (simp add: wh)
    have zero: "hours = ''0.00''" if "w \<le> 0"
    proof -
      from that have "max 0 w = 0" by simp
      with hours show ?thesis by (simp add: DECIMAL_scale_2_zero)
    qed
    from check_out_passes [OF assms(1-4) time_text_truthy assms(5) pass stored] obtain d' r row where
      "attendance_POST d (Some u) body c = (d', Success r ''Check-out berhasil'')"
      "workHours r = hours"
      "queryOne (select_attendance d' (user_id_of u) (toISODate c)) = Some row"
      "work_hours row = hours" "check_out_time row = Some (timeString c)"
      by blast
    with hours zero
    show "\<exists>d' r row. attendance_POST d (Some u) body c = (d', Success r ''Check-out berhasil'')
               \<and> DECIMAL_scale_2 (Num (max 0 w)) = Some (workHours r)
               \<and> (w \<le> 0 \<longrightarrow> workHours r = ''0.00'')
               \<and> queryOne (select_attendance d' (user_id_of u) (toISODate c)) = Some row
               \<and> work_hours row = workHours r
               \<and> check_out_time row = Some (timeString c)"
      by auto
  }
  fix c2 :: clock and w2 :: rat
  assume a: "getHours c2 < 24 \<and> getMinutes c2 < 60
              \<and> w2 = double ((of_nat (getHours c2 * 60 + getMinutes c2) - of_nat (ih * 60 + im)) / 60)
              \<and> getHours c * 60 + getMinutes c \<le> getHours c2 * 60 + getMinutes c2"
  then have wh2: "workHours_between (time_text ih im so) (timeString c2) = Num w2"
    using assms(6-8) by (simp only: workHours_between_clock)
  from a have "(of_nat (getHours c * 60 + getMinutes c) :: rat) \<le> of_nat (getHours c2 * 60 + getMinutes c2)"
    by (simp only: of_nat_le_iff)
  then have "(of_nat (getHours c * 60 + getMinutes c) - of_nat (ih * 60 + im)) / (60::rat)
             \<le> (of_nat (getHours c2 * 60 + getMinutes c2) - of_nat (ih * 60 + im)) / 60"
    by (simp add: divide_right_mono)
  then have le: "w \<le> w2" unfolding assms(12) using a by (simp only: double_mono)
  show "Math_max (Num 0) (workHours_between (time_text ih im so) (timeString c)) = Num (max 0 w)"
    by (simp add: wh)
  show "Math_max (Num 0) (workHours_between (time_text ih im so) (timeString c2)) = Num (max 0 w2)"
    by (simp add: wh2)
  show "0 \<le> max 0 w" by simp
  show "max 0 w \<le> max 0 w2" using le by (simp add: max.coboundedI2)
qed


lemma checked_in_at_9_row:
  "queryOne (select_attendance (checked_in_at 9 0\<lparr>work_schedules := ws\<rparr>) (user_id_of budi)
       (toISODate (monday_at h m)))
     = Some \<lparr> att_id = ''att-1767603600000'', att_user_id = ''emp-001'',
            att_date = ''2026-01-05'', check_in_time = Some ''09:00'',
            check_in_photo = Some ''photo-in'',
            check_in_latitude = Some (Num (- 25 / 4)),
            check_in_longitude = Some (Num (427 / 4)),
            check_in_address = Some ''Jakarta'', check_out_time = None,
            check_out_photo = None, check_out_latitude = None,
            check_out_longitude = None, check_out_address = None,
            att_status = late, work_hours = ''0.00'' \<rparr>"
  by (simp add: scenario_defs)

theorem check_out_floors_hours_after_minimum_test_witness:
  "(\<exists>t. attendance_POST (checked_in_at 8 0) (Some budi) check_out_request (monday_at 15 0)
          = (checked_in_at 8 0, Failure (MinimumHoursNotMet (Text ''8.00'') t)))
   \<and> (\<exists>d' r. attendance_POST (checked_in_at 8 0) (Some budi) check_out_request (monday_at 16 0)
          = (d', Success r ''Check-out berhasil'') \<and> workHours r = ''8.00'')
   \<and> (\<exists>d' r. attendance_POST
            (checked_in_at 9 0\<lparr>work_schedules :=
               [\<lparr> day_of_week = 1, start_time = ''08:00:00'', end_time = ''16:00:00'',
                   min_work_hours = ''-2.00'' \<rparr>]\<rparr>)
            (Some budi) check_out_request (monday_at 8 0)
          = (d', Success r ''Check-out berhasil'') \<and> workHours r = ''0.00'')"
proof -
  have act: "action check_out_request = ''check-out''" by (simp add: check_out_request_def)
  have ci8: "check_in_time \<lparr> att_id = ''att-1767600000000'', att_user_id = ''emp-001'',
            att_date = ''2026-01-05'', check_in_time = Some ''08:00'',
            check_in_photo = Some ''photo-in'',
            check_in_latitude = Some (Num (- 25 / 4)),
            check_in_longitude = Some (Num (427 / 4)),
            check_in_address = Some ''Jakarta'', check_out_time = None,
            check_out_photo = None, check_out_latitude = None,
            check_out_longitude = None, check_out_address = None,
            att_status = present, work_hours = ''0.00'' \<rparr> = Some (time_text 8 0 None)"
    by (simp add: pad2_def digit_chars)
  have ci9: "check_in_time \<lparr> att_id = ''att-1767603600000'', att_user_id = ''emp-001'',
            att_date = ''2026-01-05'', check_in_time = Some ''09:00'',
            check_in_photo = Some ''photo-in'',
            check_in_latitude = Some (Num (- 25 / 4)),
            check_in_longitude = Some (Num (427 / 4)),
            check_in_address = Some ''Jakarta'', check_out_time = None,
            check_out_photo = None, check_out_latitude = None,
            check_out_longitude = None, check_out_address = None,
            att_status = late, work_hours = ''0.00'' \<rparr> = Some (time_text 9 0 None)"
    by (simp add: pad2_def digit_chars)
  have sch9: "queryOne (select_schedule
            (checked_in_at 9 0\<lparr>work_schedules :=
               [\<lparr> day_of_week = 1, start_time = ''08:00:00'', end_time = ''16:00:00'',
                   min_work_hours = ''-2.00'' \<rparr>]\<rparr>) (getDay (monday_at 8 0)))
          = Some \<lparr> day_of_week = 1, start_time = ''08:00:00'', end_time = ''16:00:00'',
                   min_work_hours = ''-2.00'' \<rparr>"
    by (simp add: select_schedule_def queryOne_def monday_at_def)
  have m8: "Number (min_work_hours \<lparr> day_of_week = 1, start_time = ''08:00:00'',
              end_time = ''16:00:00'', min_work_hours = ''8.00'' \<rparr>) = Num 8"
    and m2: "Number (min_work_hours \<lparr> day_of_week = 1, start_time = ''08:00:00'',
              end_time = ''16:00:00'', min_work_hours = ''-2.00'' \<rparr>) = Num (- 2)"
    by (simp_all add: number_eval)
  have w15: "(7::rat) = double ((of_nat (getHours (monday_at 15 0) * 60 + getMinutes (monday_at 15 0))
                        - of_nat (8 * 60 + 0)) / 60)"
    and w16: "(8::rat) = double ((of_nat (getHours (monday_at 16 0) * 60 + getMinutes (monday_at 16 0))
                        - of_nat (8 * 60 + 0)) / 60)"
    and w8: "(- 1::rat) = double ((of_nat (getHours (monday_at 8 0) * 60 + getMinutes (monday_at 8 0))
                        - of_nat (9 * 60 + 0)) / 60)"
    by (simp_all add: monday_at_def double_eval)
  have text8: "DECIMAL_scale_2 (Num 8) = Some ''8.00''"
    by (simp add: DECIMAL_scale_2_def Let_def floor_rat_numeral decimal.simps pad2_def digit_chars)
  have a: "\<exists>t. attendance_POST (checked_in_at 8 0) (Some budi) check_out_request (monday_at 15 0)
          = (checked_in_at 8 0, Failure (MinimumHoursNotMet (Text ''8.00'') t))"
    using check_out_floors_hours_after_minimum_test
            [OF checked_in_at_8_schedule act checked_in_at_8_row ci8 _ _ _ _ _ _ m8 w15]
    by (simp add: monday_at_def)
  have b: "\<exists>d' r. attendance_POST (checked_in_at 8 0) (Some budi) check_out_request (monday_at 16 0)
          = (d', Success r ''Check-out berhasil'') \<and> workHours r = ''8.00''"
    using check_out_floors_hours_after_minimum_test
            [OF checked_in_at_8_schedule act checked_in_at_8_row ci8 _ _ _ _ _ _ m8 w16]
    by (auto simp add: monday_at_def text8)
  have c: "\<exists>d' r. attendance_POST
            (checked_in_at 9 0\<lparr>work_schedules :=
               [\<lparr> day_of_week = 1, start_time = ''08:00:00'', end_time = ''16:00:00'',
                   min_work_hours = ''-2.00'' \<rparr>]\<rparr>)
            (Some budi) check_out_request (monday_at 8 0)
          = (d', Success r ''Check-out berhasil'') \<and> workHours r = ''0.00''"
    using check_out_floors_hours_after_minimum_test
            [OF sch9 act checked_in_at_9_row ci9 _ _ _ _ _ _ m2 w8]
    by (auto simp add: monday_at_def)
  from a b c show ?thesis by blast
qed

text \<open>
  Claim C3 as it was stated fails on the default Monday schedule of 8 hours: after a
  check-in at 09:00, a check-out at 08:00 computes -1 hours and is rejected with
  \<open>MinimumHoursNotMet\<close>; it is not accepted with 0 hours.
\<close>

theorem negative_elapsed_check_out_rejected:
  "workHours_between ''09:00'' (timeString (monday_at 8 0)) = Num (- 1)
   \<and> attendance_POST (checked_in_at 9 0) (Some budi) check_out_request (monday_at 8 0)
       = (checked_in_at 9 0,
          Failure (MinimumHoursNotMet (Text ''8.00'') (JamMenit (Num 9) (Num 0))))"
  by (simp add: scenario_defs arithmetic_defs)

subsection \<open>Overtime\<close>

lemmas overtime_defs = overtime_POST_def overtime_PUT_def end_action_def decide_action_def
  select_open_overtime_def select_overtime_by_id_def insert_overtime_def update_overtime_end_def
  update_overtime_status_def mapRowToOvertimeRecord_def checked_out_at_16_def overtime_started_def
  end_request_def overtime_ended_def worked_ten_hours_def hr_admin_def
  approveOvertime_request_def parseInt_def at_string_def one_open_overtime_def
  or_text_number_def

lemma overtime_POST_ready:
  assumes "truthy_string why"
      and "queryOne (select_attendance d (user_id_of u) (toISODate c)) = Some a"
      and "truthy (check_in_time a)" "truthy (check_out_time a)"
  shows "overtime_POST d (Some u) why c =
           (if js_less (Text (work_hours a))
                 (or_text_number (map_option min_work_hours (queryOne (select_schedule d (getDay c)))) (Num 8))
            then (d, Failure (OvertimeMinimumHoursNotMet
                    (or_text_number (map_option min_work_hours (queryOne (select_schedule d (getDay c)))) (Num 8))))
            else (case queryOne (select_open_overtime d (user_id_of u) (toISODate c)) of
                    Some existingOvertime \<Rightarrow> (d, Failure OvertimeAlreadyOpen)
                  | None \<Rightarrow>
                     (case insert_overtime d (''ot-'' @ decimal (Date_now c)) (user_id_of u) (toISODate c)
                             (timeString c) why of
                        None \<Rightarrow> (d, Failure ServerError)
                      | Some d' \<Rightarrow>
                         (case queryOne (select_overtime_by_id d' (''ot-'' @ decimal (Date_now c))) of
                            None \<Rightarrow> (d', Failure ServerError)
                          | Some newRecord \<Rightarrow>
                             (d', Success (mapRowToOvertimeRecord newRecord) ''Lembur dimulai'')))))"
  unfolding overtime_POST_def Let_def using assms by simp

lemma overtime_POST_not_ready:
  assumes "\<not> (truthy_string why
            \<and> (\<exists>a. queryOne (select_attendance d (user_id_of u) (toISODate c)) = Some a
                   \<and> truthy (check_in_time a) \<and> truthy (check_out_time a)))"
  shows "\<exists>err. overtime_POST d (Some u) why c = (d, Failure err)"
proof (cases "truthy_string why")
  case False
  then show ?thesis by (simp add: overtime_POST_def)
next
  case True
  show ?thesis
  proof (cases "queryOne (select_attendance d (user_id_of u) (toISODate c))")
    case None
    with True show ?thesis by (simp add: overtime_POST_def Let_def)
  next
    case (Some a)
    with True assms have "\<not> truthy (check_in_time a) \<or> \<not> truthy (check_out_time a)" by simp
    with True Some show ?thesis by (auto simp add: overtime_POST_def Let_def)
  qed
qed

lemma insert_overtime_Some:
  assumes "insert_overtime d i uid today t why = Some dd"
  shows "dd = d\<lparr>overtime_records := overtime_records d @
             [\<lparr> ovt_id = i, ovt_user_id = uid, ovt_date = today, ovt_start_time = t,
                ovt_end_time = None, duration = ''0.00'', reason = why, ovt_status = pending,
                approved_by = None, approved_at = None \<rparr>]\<rparr>"
  using assms by (simp add: insert_overtime_def split: if_splits)


lemma overtime_POST_cases:
  "(\<exists>err. overtime_POST d session why c = (d, Failure err))
   \<or> (\<exists>u a r. session = Some u \<and> truthy_string why
          \<and> queryOne (select_attendance d (user_id_of u) (toISODate c)) = Some a
          \<and> truthy (check_in_time a) \<and> truthy (check_out_time a)
          \<and> \<not> js_less (Text (work_hours a))
                (or_text_number (map_option min_work_hours (queryOne (select_schedule d (getDay c)))) (Num 8))
          \<and> select_open_overtime d (user_id_of u) (toISODate c) = []
          \<and> overtime_POST d session why c =
               (d\<lparr>overtime_records := overtime_records d @
                   [\<lparr> ovt_id = ''ot-'' @ decimal (Date_now c), ovt_user_id = user_id_of u,
                      ovt_date = toISODate c, ovt_start_time = timeString c,
                      ovt_end_time = None, duration = ''0.00'', reason = why, ovt_status = pending,
                      approved_by = None, approved_at = None \<rparr>]\<rparr>,
                Success r ''Lembur dimulai''))"
proof (cases session)
  case None
  then show ?thesis by (simp add: overtime_POST_def)
next
  case (Some u)
  show ?thesis
  proof (cases "truthy_string why
            \<and> (\<exists>a. queryOne (select_attendance d (user_id_of u) (toISODate c)) = Some a
                   \<and> truthy (check_in_time a) \<and> truthy (check_out_time a))")
    case False
    from overtime_POST_not_ready [OF False] Some show ?thesis by simp
  next
    case True
    then obtain a where why: "truthy_string why"
      and a: "queryOne (select_attendance d (user_id_of u) (toISODate c)) = Some a"
             "truthy (check_in_time a)" "truthy (check_out_time a)" by blast
    note eq = overtime_POST_ready [OF why a]
    let ?min = "or_text_number (map_option min_work_hours (queryOne (select_schedule d (getDay c)))) (Num 8)"
    let ?ins = "insert_overtime d (''ot-'' @ decimal (Date_now c)) (user_id_of u) (toISODate c)
                  (timeString c) why"
    let ?new = "\<lparr> ovt_id = ''ot-'' @ decimal (Date_now c), ovt_user_id = user_id_of u,
                      ovt_date = toISODate c, ovt_start_time = timeString c,
                      ovt_end_time = None, duration = ''0.00'', reason = why, ovt_status = pending,
                      approved_by = None, approved_at = None \<rparr>"
    show ?thesis
    proof (cases "js_less (Text (work_hours a)) ?min")
      case True
      then have "\<exists>err. overtime_POST d (Some u) why c = (d, Failure err)"
        unfolding eq by simp
      with Some show ?thesis by simp
    next
      case nlt: False
      show ?thesis
      proof (cases "queryOne (select_open_overtime d (user_id_of u) (toISODate c))")
        case op: (Some ex)
        have "\<exists>err. overtime_POST d (Some u) why c = (d, Failure err)"
          unfolding eq using nlt op by simp
        with Some show ?thesis by simp
      next
        case op: None
        then have empty: "select_open_overtime d (user_id_of u) (toISODate c) = []"
          by (simp add: queryOne_None)
        show ?thesis
        proof (cases ?ins)
          case ins: None
          have "\<exists>err. overtime_POST d (Some u) why c = (d, Failure err)"
            unfolding eq using nlt op ins by simp
          with Some show ?thesis by simp
        next
          case ins: (Some dd)
          note dd = insert_overtime_Some [OF ins]
          have "select_overtime_by_id dd (''ot-'' @ decimal (Date_now c)) \<noteq> []"
            unfolding dd by (simp add: select_overtime_by_id_def)
          then obtain row where
            row: "queryOne (select_overtime_by_id dd (''ot-'' @ decimal (Date_now c))) = Some row"
            by (cases "select_overtime_by_id dd (''ot-'' @ decimal (Date_now c))")
               (simp_all add: queryOne_def)
          have "overtime_POST d (Some u) why c
                  = (dd, Success (mapRowToOvertimeRecord row) ''Lembur dimulai'')"
            unfolding eq using nlt op ins row by simp
          then have run: "overtime_POST d session why c
                  = (d\<lparr>overtime_records := overtime_records d @ [?new]\<rparr>,
                     Success (mapRowToOvertimeRecord row) ''Lembur dimulai'')"
            unfolding Some dd .
          show ?thesis
            by (rule disjI2, rule exI [of _ u], rule exI [of _ a],
                rule exI [of _ "mapRowToOvertimeRecord row"])
               (intro conjI Some why a nlt empty run)
        qed
      qed
    qed
  qed
qed







lemma end_action_db:
  "fst (end_action d u c) = d
   \<or> (\<exists>t dur i. fst (end_action d u c) = update_overtime_end d t dur i)"
proof (cases "queryOne (select_open_overtime d (user_id_of u) (toISODate c))")
  case None
  then show ?thesis by (simp add: end_action_def Let_def)
next
  case (Some overtime)
  let ?dur = "Math_max (Num 0)
                 (js_div (js_sub
                    (js_add (js_mul (parseInt (at_string (split_colon (timeString c)) 0)) (Num 60))
                            (parseInt (at_string (split_colon (timeString c)) 1)))
                    (js_add (js_mul (parseInt (at_string (split_colon (ovt_start_time overtime)) 0)) (Num 60))
                            (parseInt (at_string (split_colon (ovt_start_time overtime)) 1))))
                  (Num 60))"
  show ?thesis
  proof (cases "DECIMAL_scale_2 ?dur")
    case None
    with Some have "fst (end_action d u c) = d" by (simp add: end_action_def Let_def)
    then show ?thesis by simp
  next
    case hours: (Some hours)
    with Some have "\<exists>t dur i. fst (end_action d u c) = update_overtime_end d t dur i"
      unfolding end_action_def Let_def
      by (cases "queryOne (select_overtime_by_id
             (update_overtime_end d (timeString c) hours (ovt_id overtime)) (ovt_id overtime))") auto
    then show ?thesis by simp
  qed
qed




lemma checked_out_at_16_value:
  "checked_out_at_16 =
     \<lparr> attendance_records =
         [\<lparr> att_id = ''att-1767600000000'', att_user_id = ''emp-001'',
            att_date = ''2026-01-05'', check_in_time = Some ''08:00'',
            check_in_photo = Some ''photo-in'',
            check_in_latitude = Some (Num (- 25 / 4)),
            check_in_longitude = Some (Num (427 / 4)),
            check_in_address = Some ''Jakarta'', check_out_time = Some ''16:00'',
            check_out_photo = Some ''photo-out'',
            check_out_latitude = Some (Num (- 25 / 4)),
            check_out_longitude = Some (Num (427 / 4)),
            check_out_address = Some ''Jakarta'',
            att_status = present, work_hours = ''8.00'' \<rparr>],
       overtime_records = [],
       work_schedules = default_work_schedules \<rparr>"
  by (simp add: scenario_defs arithmetic_defs overtime_defs)

lemma overtime_started_run:
  "overtime_POST checked_out_at_16 (Some budi) ''stock count'' (monday_at 16 5)
     = (overtime_started,
        Success \<lparr> ot_rec_id = ''ot-1767629100000'', ot_userId = ''emp-001'', ot_date = ''2026-01-05'',
                  startTime = ''16:05'', endTime = None, ot_duration = ''0.00'',
                  ot_reason = ''stock count'', ot_status = pending, approvedBy = None \<rparr>
                ''Lembur dimulai'')"
  unfolding overtime_started_def
  by (simp add: checked_out_at_16_value scenario_defs arithmetic_defs overtime_defs)


lemma decide_action_admin:
  assumes "role u = admin" "truthy_string (overtimeId body)"
      and "queryOne (select_overtime_by_id d (overtimeId body)) = Some row"
  shows "decide_action d u body c =
           (update_overtime_status d (if put_action body = ''approve'' then approved else rejected)
              (user_id_of u) (sql_NOW c) (overtimeId body),
            Success (mapRowToOvertimeRecord
                       (row\<lparr>ovt_status := (if put_action body = ''approve'' then approved else rejected),
                            approved_by := Some (user_id_of u), approved_at := Some (sql_NOW c)\<rparr>))
                    (''Lembur '' @ (if put_action body = ''approve'' then ''disetujui'' else ''ditolak'')))"
proof -
  let ?st = "if put_action body = ''approve'' then approved else rejected"
  from assms(3) have "row \<in> set (select_overtime_by_id d (overtimeId body))"
    by (rule queryOne_Some_mem)
  then have id: "ovt_id row = overtimeId body" by (simp add: select_overtime_by_id_def)
  have "select_overtime_by_id (update_overtime_status d ?st (user_id_of u) (sql_NOW c) (overtimeId body))
          (overtimeId body)
        = map (\<lambda>r. if ovt_id r = overtimeId body
                  then r\<lparr>ovt_status := ?st, approved_by := Some (user_id_of u),
                         approved_at := Some (sql_NOW c)\<rparr>
                  else r) (select_overtime_by_id d (overtimeId body))"
    by (simp add: select_overtime_by_id_def update_overtime_status_def filter_map comp_def
          if_distrib cong: if_cong)
  then have "queryOne (select_overtime_by_id
                (update_overtime_status d ?st (user_id_of u) (sql_NOW c) (overtimeId body))
                (overtimeId body))
             = Some (row\<lparr>ovt_status := ?st, approved_by := Some (user_id_of u),
                         approved_at := Some (sql_NOW c)\<rparr>)"
    using assms(3) id by (simp add: queryOne_map)
  then show ?thesis
    unfolding decide_action_def Let_def using assms(1,2) by simp
qed

lemma queryOne_by_id_exists:
  assumes "list_ex (\<lambda>r. ovt_id r = oid) (overtime_records d)"
  shows "\<exists>row. queryOne (select_overtime_by_id d oid) = Some row \<and> ovt_id row = oid
               \<and> row \<in> set (overtime_records d)"
proof -
  from assms have "select_overtime_by_id d oid \<noteq> []"
    by (auto simp: select_overtime_by_id_def filter_empty_conv list_ex_iff)
  then obtain row where r: "queryOne (select_overtime_by_id d oid) = Some row"
    by (cases "select_overtime_by_id d oid") (simp_all add: queryOne_def)
  from queryOne_Some_mem [OF r] have "ovt_id row = oid \<and> row \<in> set (overtime_records d)"
    by (simp add: select_overtime_by_id_def)
  with r show ?thesis by blast
qed

text \<open>
  Claim C8. A rejection by an administrator of an overtime record that exists succeeds,
  whatever the record's end time is, set or not. It sets the status to \<open>rejected\<close> and
  the approver to the administrator on the rows with that id, and leaves every row's
  start time, end time, duration, owner, date and reason, and every other row, as they
  were; the attendance rows and schedules are untouched.
\<close>

theorem reject_writes_status_and_approver_only:
  assumes "role u = admin" "truthy_string oid"
      and "list_ex (\<lambda>r. ovt_id r = oid) (overtime_records d)"
  shows "\<exists>d' r. overtime_PUT d (Some u) (approveOvertime_request oid False) c
                  = (d', Success r ''Lembur ditolak'')
           \<and> ot_rec_id r = oid \<and> ot_status r = rejected \<and> approvedBy r = Some (user_id_of u)
           \<and> list_all2
                (\<lambda>old new. ovt_start_time new = ovt_start_time old
                          \<and> ovt_end_time new = ovt_end_time old
                          \<and> duration new = duration old
                          \<and> ovt_id new = ovt_id old \<and> ovt_user_id new = ovt_user_id old
                          \<and> ovt_date new = ovt_date old \<and> reason new = reason old
                          \<and> (if ovt_id old = oid
                              then ovt_status new = rejected \<and> approved_by new = Some (user_id_of u)
                              else new = old))
                (overtime_records d) (overtime_records d')
           \<and> attendance_records d' = attendance_records d
           \<and> work_schedules d' = work_schedules d"
proof -
  let ?body = "approveOvertime_request oid False"
  from queryOne_by_id_exists [OF assms(3)] obtain row where
    row: "queryOne (select_overtime_by_id d oid) = Some row" "ovt_id row = oid" by blast
  have b: "overtimeId ?body = oid" "put_action ?body = ''reject''"
    by (simp_all add: approveOvertime_request_def)
  have run: "overtime_PUT d (Some u) ?body c =
          (update_overtime_status d rejected (user_id_of u) (sql_NOW c) oid,
           Success (mapRowToOvertimeRecord
                       (row\<lparr>ovt_status := rejected,
                            approved_by := Some (user_id_of u), approved_at := Some (sql_NOW c)\<rparr>))
                   ''Lembur ditolak'')"
    using decide_action_admin [of u ?body d row c] assms(1,2) row(1)
    by (simp add: overtime_PUT_def b)
  have rows: "list_all2
                (\<lambda>old new. ovt_start_time new = ovt_start_time old
                          \<and> ovt_end_time new = ovt_end_time old
                          \<and> duration new = duration old
                          \<and> ovt_id new = ovt_id old \<and> ovt_user_id new = ovt_user_id old
                          \<and> ovt_date new = ovt_date old \<and> reason new = reason old
                          \<and> (if ovt_id old = oid
                              then ovt_status new = rejected \<and> approved_by new = Some (user_id_of u)
                              else new = old))
                (overtime_records d)
                (overtime_records (update_overtime_status d rejected (user_id_of u) (sql_NOW c) oid))"
    by (simp add: update_overtime_status_def list_all2_map2 list_all2_same)
  let ?d' = "update_overtime_status d rejected (user_id_of u) (sql_NOW c) oid"
  let ?r = "mapRowToOvertimeRecord
              (row\<lparr>ovt_status := rejected,
                   approved_by := Some (user_id_of u), approved_at := Some (sql_NOW c)\<rparr>)"
  show ?thesis
  proof (intro exI [of _ ?d'] exI [of _ ?r] conjI)
    show "overtime_PUT d (Some u) ?body c = (?d', Success ?r ''Lembur ditolak'')" by (rule run)
    show "ot_rec_id ?r = oid" by (simp add: mapRowToOvertimeRecord_def row(2))
    show "ot_status ?r = rejected" by (simp add: mapRowToOvertimeRecord_def)
    show "approvedBy ?r = Some (user_id_of u)" by (simp add: mapRowToOvertimeRecord_def)
    show "attendance_records ?d' = attendance_records d" by (simp add: update_overtime_status_def)
    show "work_schedules ?d' = work_schedules d" by (simp add: update_overtime_status_def)
  qed (rule rows)
qed


lemma overtime_started_rows:
  "overtime_records overtime_started =
     [\<lparr> ovt_id = ''ot-1767629100000'', ovt_user_id = ''emp-001'', ovt_date = ''2026-01-05'',
        ovt_start_time = ''16:05'', ovt_end_time = None, duration = ''0.00'',
        reason = ''stock count'', ovt_status = pending, approved_by = None, approved_at = None \<rparr>]"
  using overtime_started_run
  by (simp add: checked_out_at_16_value scenario_defs arithmetic_defs overtime_defs)

lemma overtime_ended_rows:
  "overtime_records overtime_ended =
     [\<lparr> ovt_id = ''ot-1767629100000'', ovt_user_id = ''emp-001'', ovt_date = ''2026-01-05'',
        ovt_start_time = ''16:05'', ovt_end_time = Some ''18:05'', duration = ''2.00'',
        reason = ''stock count'', ovt_status = pending, approved_by = None, approved_at = None \<rparr>]"
  unfolding overtime_ended_def
  by (simp add: overtime_started_rows overtime_PUT_def end_action_def end_request_def
        select_open_overtime_def select_overtime_by_id_def update_overtime_end_def
        budi_def monday_at_def timeString_def pad2_def digit_chars queryOne_def Let_def
        parseInt_def at_string_def arithmetic_defs decimal.simps)

theorem reject_writes_status_and_approver_only_witness:
  "(\<exists>d' r. overtime_PUT overtime_started (Some hr_admin)
               (approveOvertime_request ''ot-1767629100000'' False) (monday_at 16 30)
              = (d', Success r ''Lembur ditolak'')
          \<and> ot_status r = rejected \<and> map ovt_end_time (overtime_records d') = [None])
   \<and> (\<exists>d' r. overtime_PUT overtime_ended (Some hr_admin)
               (approveOvertime_request ''ot-1767629100000'' False) (monday_at 18 30)
              = (d', Success r ''Lembur ditolak'')
          \<and> ot_status r = rejected \<and> map ovt_end_time (overtime_records d') = [Some ''18:05'']
          \<and> map duration (overtime_records d') = [''2.00''])"
proof -
  have adm: "role hr_admin = admin" by (simp add: hr_admin_def)
  have oid: "truthy_string ''ot-1767629100000''" by (simp add: truthy_string_def)
  have ex1: "list_ex (\<lambda>r. ovt_id r = ''ot-1767629100000'') (overtime_records overtime_started)"
    by (simp add: overtime_started_rows)
  have ex2: "list_ex (\<lambda>r. ovt_id r = ''ot-1767629100000'') (overtime_records overtime_ended)"
    by (simp add: overtime_ended_rows)
  have a: "\<exists>d' r. overtime_PUT overtime_started (Some hr_admin)
               (approveOvertime_request ''ot-1767629100000'' False) (monday_at 16 30)
              = (d', Success r ''Lembur ditolak'')
          \<and> ot_status r = rejected \<and> map ovt_end_time (overtime_records d') = [None]"
    using reject_writes_status_and_approver_only [OF adm oid ex1, of "monday_at 16 30"]
    by (auto simp add: overtime_started_rows list_all2_Cons1)
  have b: "\<exists>d' r. overtime_PUT overtime_ended (Some hr_admin)
               (approveOvertime_request ''ot-1767629100000'' False) (monday_at 18 30)
              = (d', Success r ''Lembur ditolak'')
          \<and> ot_status r = rejected \<and> map ovt_end_time (overtime_records d') = [Some ''18:05'']
          \<and> map duration (overtime_records d') = [''2.00'']"
    using reject_writes_status_and_approver_only [OF adm oid ex2, of "monday_at 18 30"]
    by (auto simp add: overtime_ended_rows list_all2_Cons1)
  from a b show ?thesis by blast
qed

lemma overtime_POST_appends_pending:
  "\<exists>added. overtime_records (fst (overtime_POST d session why k)) = overtime_records d @ added
           \<and> (\<forall>row \<in> set added. ovt_status row = pending)"
  using overtime_POST_cases [of d session why k]
proof (elim disjE exE conjE)
  fix err assume "overtime_POST d session why k = (d, Failure err)"
  then have "overtime_records (fst (overtime_POST d session why k)) = overtime_records d @ []"
    by simp
  then show ?thesis by (intro exI [of _ "[]"]) simp
next
  fix u a r
  assume p: "overtime_POST d session why k =
               (d\<lparr>overtime_records := overtime_records d @
                   [\<lparr> ovt_id = ''ot-'' @ decimal (Date_now k), ovt_user_id = user_id_of u,
                      ovt_date = toISODate k, ovt_start_time = timeString k,
                      ovt_end_time = None, duration = ''0.00'', reason = why, ovt_status = pending,
                      approved_by = None, approved_at = None \<rparr>]\<rparr>,
                Success r ''Lembur dimulai'')"
  show ?thesis
    by (intro exI [of _ "[\<lparr> ovt_id = ''ot-'' @ decimal (Date_now k), ovt_user_id = user_id_of u,
                      ovt_date = toISODate k, ovt_start_time = timeString k,
                      ovt_end_time = None, duration = ''0.00'', reason = why, ovt_status = pending,
                      approved_by = None, approved_at = None \<rparr>]"]) (simp add: p)
qed

lemma status_update_end:
  "map ovt_status (overtime_records (update_overtime_end d t dur i)) = map ovt_status (overtime_records d)"
  by (simp add: update_overtime_end_def comp_def if_distrib cong: if_cong)

lemma end_keeps_status:
  assumes "put_action b = ''end''"
  shows "map ovt_status (overtime_records (fst (overtime_PUT d session b k)))
         = map ovt_status (overtime_records d)"
proof (cases session)
  case None
  then show ?thesis by (simp add: overtime_PUT_def)
next
  case (Some u)
  have "map ovt_status (overtime_records (fst (end_action d u k))) = map ovt_status (overtime_records d)"
    using end_action_db [of d u k] by (auto simp: status_update_end)
  with Some assms show ?thesis by (simp add: overtime_PUT_def)
qed

lemma decide_sets_status:
  assumes "role u = admin" "truthy_string oid"
  shows "list_all2 (\<lambda>old new. ovt_status new =
                       (if ovt_id old = oid then (if approve then approved else rejected)
                        else ovt_status old))
           (overtime_records d)
           (overtime_records (fst (overtime_PUT d (Some u) (approveOvertime_request oid approve) k)))"
proof -
  let ?body = "approveOvertime_request oid approve"
  let ?st = "if approve then approved else rejected"
  have b: "overtimeId ?body = oid" "put_action ?body \<noteq> ''end''"
          "put_action ?body = ''approve'' \<or> put_action ?body = ''reject''"
          "(if put_action ?body = ''approve'' then approved else rejected) = ?st"
    by (simp_all add: approveOvertime_request_def)
  have "fst (decide_action d u ?body k)
          = update_overtime_status d ?st (user_id_of u) (sql_NOW k) oid"
    unfolding decide_action_def Let_def b using assms
    by (cases "queryOne (select_overtime_by_id
                  (update_overtime_status d ?st (user_id_of u) (sql_NOW k) oid) oid)") simp_all
  then have "overtime_records (fst (overtime_PUT d (Some u) ?body k))
          = overtime_records (update_overtime_status d ?st (user_id_of u) (sql_NOW k) oid)"
    using b(2,3) by (simp add: overtime_PUT_def)
  then show ?thesis
    by (simp add: update_overtime_status_def list_all2_map2 list_all2_same)
qed

lemma decide_forbidden:
  assumes "role u \<noteq> admin"
  shows "overtime_PUT d (Some u) (approveOvertime_request oid approve) k = (d, Failure Forbidden)"
  using assms by (simp add: overtime_PUT_def decide_action_def approveOvertime_request_def)

lemma insert_attendance_keeps_overtime:
  "insert_attendance d i uid today t p loc st = Some dd \<Longrightarrow> overtime_records dd = overtime_records d"
  by (auto simp: insert_attendance_def split: if_splits)

lemma attendance_POST_keeps_overtime:
  "overtime_records (fst (attendance_POST d session body k)) = overtime_records d"
proof (cases session)
  case None
  then show ?thesis by (simp add: attendance_POST_def)
next
  case (Some u)
  show ?thesis
  proof (cases "queryOne (select_schedule d (getDay k))")
    case None
    with Some show ?thesis by (simp add: attendance_POST_def)
  next
    case sched: (Some schedule)
    have i: "overtime_records (fst (check_in_action d u body k schedule)) = overtime_records d"
      using check_in_action_db [of d u body k schedule]
      by (auto simp: update_check_in_def dest: insert_attendance_keeps_overtime)
    have o: "overtime_records (fst (check_out_action d u body k schedule)) = overtime_records d"
      using check_out_action_db [of d u body k schedule]
      by (auto simp: update_check_out_def)
    from Some sched i o show ?thesis by (simp add: attendance_POST_def)
  qed
qed


text \<open>
  Claim C9, as the code has it. The status of an overtime record is written by a
  decision only: a start adds rows with status \<open>pending\<close> and changes no existing row,
  ending an overtime and every request to the attendance route leave all statuses as they
  were, and a decision by someone who is not an administrator is refused. A decision by
  an administrator sets the status of the rows with the given id to \<open>approved\<close> or
  \<open>rejected\<close> whatever it was before, so a decided record can be decided again.
\<close>

theorem status_written_by_every_decision_only:
  "(\<exists>added. overtime_records (fst (overtime_POST d session why k)) = overtime_records d @ added
            \<and> (\<forall>row \<in> set added. ovt_status row = pending))
   \<and> (put_action b = ''end'' \<longrightarrow>
         map ovt_status (overtime_records (fst (overtime_PUT d session b k)))
           = map ovt_status (overtime_records d))
   \<and> overtime_records (fst (attendance_POST d session body k)) = overtime_records d
   \<and> (role u \<noteq> admin \<longrightarrow>
         overtime_PUT d (Some u) (approveOvertime_request oid approve) k = (d, Failure Forbidden))
   \<and> (role u = admin \<and> truthy_string oid \<longrightarrow>
         list_all2 (\<lambda>old new. ovt_status new =
                       (if ovt_id old = oid then (if approve then approved else rejected)
                        else ovt_status old))
           (overtime_records d)
           (overtime_records (fst (overtime_PUT d (Some u) (approveOvertime_request oid approve) k))))"
  using overtime_POST_appends_pending [of d session why k]
        end_keeps_status [of b d session k]
        attendance_POST_keeps_overtime [of d session body k]
        decide_forbidden [of u d oid approve k]
        decide_sets_status [of u oid approve d k]
  by (intro conjI impI) simp_all

lemma overtime_rejected_rows:
  "overtime_records overtime_rejected =
     [\<lparr> ovt_id = ''ot-1767629100000'', ovt_user_id = ''emp-001'', ovt_date = ''2026-01-05'',
        ovt_start_time = ''16:05'', ovt_end_time = Some ''18:05'', duration = ''2.00'',
        reason = ''stock count'', ovt_status = rejected, approved_by = Some ''admin-001'',
        approved_at = Some ''2026-01-05 18:30:00'' \<rparr>]"
  unfolding overtime_rejected_def
  by (simp add: overtime_ended_rows overtime_PUT_def decide_action_def approveOvertime_request_def
        select_overtime_by_id_def update_overtime_status_def hr_admin_def monday_at_def
        pad2_def digit_chars queryOne_def Let_def truthy_string_def)

theorem status_written_by_every_decision_only_witness:
  "map ovt_status (overtime_records
     (fst (overtime_PUT overtime_ended (Some hr_admin)
             (approveOvertime_request ''ot-1767629100000'' True) (monday_at 18 30)))) = [approved]
   \<and> map ovt_status (overtime_records
     (fst (overtime_PUT overtime_started (Some budi) end_request (monday_at 18 5)))) = [pending]
   \<and> overtime_PUT overtime_ended (Some budi)
        (approveOvertime_request ''ot-1767629100000'' True) (monday_at 18 30)
       = (overtime_ended, Failure Forbidden)"
proof -
  have adm: "role hr_admin = admin \<and> truthy_string ''ot-1767629100000''"
    by (simp add: hr_admin_def truthy_string_def)
  have emp: "role budi \<noteq> admin" by (simp add: budi_def)
  have e: "put_action end_request = ''end''" by (simp add: end_request_def)
  from status_written_by_every_decision_only
         [of overtime_ended None "''x''" "monday_at 18 30" end_request check_in_request
             hr_admin "''ot-1767629100000''" True] adm
  have a: "map ovt_status (overtime_records
     (fst (overtime_PUT overtime_ended (Some hr_admin)
             (approveOvertime_request ''ot-1767629100000'' True) (monday_at 18 30)))) = [approved]"
    by (auto simp add: overtime_ended_rows list_all2_Cons1)
  from status_written_by_every_decision_only
         [of overtime_started "Some budi" "''x''" "monday_at 18 5" end_request check_in_request
             budi "''ot-1767629100000''" True] e
  have b: "map ovt_status (overtime_records
     (fst (overtime_PUT overtime_started (Some budi) end_request (monday_at 18 5)))) = [pending]"
    by (simp add: overtime_started_rows)
  from status_written_by_every_decision_only
         [of overtime_ended None "''x''" "monday_at 18 30" end_request check_in_request
             budi "''ot-1767629100000''" True] emp
  have c: "overtime_PUT overtime_ended (Some budi)
        (approveOvertime_request ''ot-1767629100000'' True) (monday_at 18 30)
       = (overtime_ended, Failure Forbidden)"
    by simp
  from a b c show ?thesis by blast
qed

text \<open>
  Claim C9 as it was stated fails: the overtime record that was rejected at 18:30 is
  approved by a second decision at 18:40.
\<close>

theorem rejected_overtime_approved_afterwards:
  "map ovt_status (overtime_records overtime_rejected) = [rejected]
   \<and> map ovt_status (overtime_records
        (fst (overtime_PUT overtime_rejected (Some hr_admin)
                (approveOvertime_request ''ot-1767629100000'' True) (monday_at 18 40)))) = [approved]"
  by (simp add: overtime_rejected_rows overtime_PUT_def decide_action_def approveOvertime_request_def
        select_overtime_by_id_def update_overtime_status_def hr_admin_def monday_at_def
        pad2_def digit_chars queryOne_def Let_def truthy_string_def)

text \<open>
  Claim C6, where the code departs from it. The minimum is resolved as the claim says:
  \<^verbatim>\<open>schedule?.min_work_hours || 8\<close> is the schedule's minimum when the weekday has a row and 8
  when it has none. But with a row, the hours worked and the minimum are both the texts
  of their \<^verbatim>\<open>DECIMAL\<close> columns, and \<^verbatim>\<open><\<close> orders two strings character by character:
  \<^verbatim>\<open>'10.00'\<close> is below \<^verbatim>\<open>'8.00'\<close>. After a check-in at 08:00 and a check-out at 18:00 on a day
  with a minimum of 8 hours, the employee has worked 10 hours, which is not below 8, and
  the start of the overtime is refused for not reaching the minimum.
\<close>

theorem ten_hours_refused_under_minimum_of_eight:
  "map work_hours (attendance_records worked_ten_hours) = [''10.00'']
   \<and> map min_work_hours (select_schedule worked_ten_hours (getDay (monday_at 18 5))) = [''8.00'']
   \<and> Number ''10.00'' = Num 10 \<and> Number ''8.00'' = Num 8
   \<and> overtime_POST worked_ten_hours (Some budi) ''inventory'' (monday_at 18 5)
       = (worked_ten_hours, Failure (OvertimeMinimumHoursNotMet (Text ''8.00'')))"
  by (simp add: scenario_defs arithmetic_defs overtime_defs)

text \<open>The minimum the route resolves: the text of the row, the number 8 without a row (no
  \<^verbatim>\<open>DECIMAL\<close> text is empty).\<close>

lemma overtime_minimum_resolved:
  "or_text_number (map_option min_work_hours schedule) (Num 8) =
     (case schedule of
        None \<Rightarrow> Numeric (Num 8)
      | Some row \<Rightarrow> if min_work_hours row = [] then Numeric (Num 8) else Text (min_work_hours row))"
  by (cases schedule) (simp_all add: or_text_number_def truthy_string_def)

text \<open>Without a schedule row the same hours are compared as numbers with the default 8,
  and the overtime starts.\<close>

lemma ten_hours_accepted_without_schedule:
  "snd (overtime_POST (worked_ten_hours\<lparr>work_schedules := []\<rparr>) (Some budi) ''inventory''
          (monday_at 18 5))
   = Success \<lparr> ot_rec_id = ''ot-1767636300000'', ot_userId = ''emp-001'', ot_date = ''2026-01-05'',
                startTime = ''18:05'', endTime = None, ot_duration = ''0.00'',
                ot_reason = ''inventory'', ot_status = pending, approvedBy = None \<rparr>
             ''Lembur dimulai''"
  by (simp add: scenario_defs arithmetic_defs overtime_defs)

subsection \<open>Statistics\<close>

lemma digits_of_four:
  fixes y :: nat
  shows "1000 * (y div 1000) + 100 * (y div 100 mod 10) + 10 * (y div 10 mod 10) + y mod 10 = y"
proof -
  define a b c where "a = y div 10" and "b = y div 100" and "c = y div 1000"
  have ba: "b = a div 10" and cb: "c = b div 10"
    by (simp_all add: a_def b_def c_def div_mult2_eq)
  have "y = 10 * a + y mod 10" "a = 10 * b + a mod 10" "b = 10 * c + b mod 10"
    by (simp_all add: a_def ba cb)
  then have "1000 * c + 100 * (b mod 10) + 10 * (a mod 10) + y mod 10 = y" by linarith
  then show ?thesis by (simp only: a_def b_def c_def)
qed

lemma new_Date_iso_date:
  assumes "calendar_date y m dd"
  shows "new_Date (iso_date y m dd) = Some (y, m, dd)"
proof -
  from assms have b: "y < 10000" "1 \<le> m" "m \<le> 12" "1 \<le> dd" "dd \<le> days_in_month y m"
    by (simp_all add: calendar_date_def)
  have "days_in_month y m \<le> 31" by (simp add: days_in_month_def)
  with b have d: "dd < 100" "m < 100" by simp_all
  have dg: "y div 1000 < 10" "y div 100 mod 10 < 10" "y div 10 mod 10 < 10" "y mod 10 < 10"
           "m div 10 < 10" "m mod 10 < 10" "dd div 10 < 10" "dd mod 10 < 10"
    using b(1) d by (simp_all add: less_mult_imp_div_less)
  have y4: "digits_val (pad4 y) = y"
    using dg by (simp add: pad4_def digits_val_def digit_val_char_of digits_of_four)
  have m2: "digits_val (pad2 m) = m" and d2: "digits_val (pad2 dd) = dd"
    using dg by (simp_all add: pad2_def digits_val_def digit_val_char_of)
  have dig: "list_all is_digit (pad4 y)" "list_all is_digit (pad2 m)" "list_all is_digit (pad2 dd)"
    using dg by (simp_all add: pad4_def pad2_def is_digit_char_of)
  have parts: "take 4 (iso_date y m dd) = pad4 y" "take 2 (drop 5 (iso_date y m dd)) = pad2 m"
      "drop 8 (iso_date y m dd) = pad2 dd" "length (iso_date y m dd) = 10"
      "iso_date y m dd ! 4 = CHR ''-''" "iso_date y m dd ! 7 = CHR ''-''"
    by (simp_all add: iso_date_def pad4_def pad2_def)
  show ?thesis
    unfolding new_Date_def Let_def parts y4 m2 d2 by (simp only: b dig simp_thms if_True)
qed

lemma Date_fields_iso_date:
  assumes "calendar_date y m dd"
  shows "Date_getMonth (iso_date y m dd) = Num (of_nat (m - 1))"
    and "Date_getFullYear (iso_date y m dd) = Num (of_nat y)"
  by (simp_all add: Date_getMonth_def Date_getFullYear_def new_Date_iso_date [OF assms])

lemma js_strict_eq_Num: "js_strict_eq (Num a) x \<longleftrightarrow> x = Num a"
  by (cases x) auto

lemma foldl_js_add_exact:
  assumes "\<forall>a \<in> set xs. workHours a \<noteq> NaN"
      and "\<forall>n \<le> length xs.
             double (z + sum_list (take n (map (\<lambda>a. case workHours a of Num w \<Rightarrow> w | NaN \<Rightarrow> 0) xs)))
               = z + sum_list (take n (map (\<lambda>a. case workHours a of Num w \<Rightarrow> w | NaN \<Rightarrow> 0) xs))"
  shows "foldl (\<lambda>sum a. js_add sum (workHours a)) (Num z) xs
         = Num (z + sum_list (map (\<lambda>a. case workHours a of Num w \<Rightarrow> w | NaN \<Rightarrow> 0) xs))"
  using assms
proof (induction xs arbitrary: z)
  case Nil
  then show ?case by simp
next
  case (Cons x xs)
  let ?h = "\<lambda>a. case workHours a of Num w \<Rightarrow> w | NaN \<Rightarrow> 0"
  from Cons.prems(1) obtain w where w: "workHours x = Num w" by (cases "workHours x") auto
  from Cons.prems(2) [rule_format, of 1] w have one: "double (z + w) = z + w" by simp
  have rest: "\<forall>n \<le> length xs. double (z + w + sum_list (take n (map ?h xs)))
                 = z + w + sum_list (take n (map ?h xs))"
  proof (intro allI impI)
    fix n assume "n \<le> length xs"
    then have "Suc n \<le> length (x # xs)" by simp
    from Cons.prems(2) [rule_format, OF this] w show
      "double (z + w + sum_list (take n (map ?h xs))) = z + w + sum_list (take n (map ?h xs))"
      by (simp add: add.assoc)
  qed
  from Cons.prems(1) have "\<forall>a \<in> set xs. workHours a \<noteq> NaN" by simp
  from Cons.IH [OF this rest] w one show ?case by (simp add: add.assoc)
qed

lemma status_partition:
  "length (filter (\<lambda>a. status a = present) xs) + length (filter (\<lambda>a. status a = late) xs)
   + length (filter (\<lambda>a. status a = absent) xs) + length (filter (\<lambda>a. status a = holiday) xs)
   = length xs"
proof (induction xs)
  case Nil
  then show ?case by simp
next
  case (Cons x xs)
  then show ?case by (cases "status x") simp_all
qed

lemma getAttendanceStats_selected:
  assumes "e \<noteq> []"
  shows "getAttendanceStats stored now (Some e) (Some month) (Some year) =
           (let sel = filter (\<lambda>a. userId a = e
                                 \<and> js_strict_eq (Date_getMonth (date a)) month
                                 \<and> js_strict_eq (Date_getFullYear (date a)) year) stored
            in \<lparr> stats_present = length (filter (\<lambda>a. status a = present) sel),
                 stats_late = length (filter (\<lambda>a. status a = late) sel),
                 stats_absent = length (filter (\<lambda>a. status a = absent) sel),
                 totalWorkHours = foldl (\<lambda>sum a. js_add sum (workHours a)) (Num 0) sel,
                 total = length sel \<rparr>)"
proof -
  have "filter (\<lambda>a. js_strict_eq (Date_getMonth (date a)) month
                    \<and> js_strict_eq (Date_getFullYear (date a)) year)
          (filter (\<lambda>a. Some (userId a) = Some e) stored)
        = filter (\<lambda>a. userId a = e
                                 \<and> js_strict_eq (Date_getMonth (date a)) month
                                 \<and> js_strict_eq (Date_getFullYear (date a)) year) stored"
    by (simp add: conj_commute conj_left_commute)
  then show ?thesis
    unfolding getAttendanceStats_def Let_def using assms
    by (simp add: truthy_string_def del: filter_filter)
qed


text \<open>
  Claim C10. For an employee id and a month and year, the statistics are computed over
  the stored records of that employee whose date falls in that year and in the month
  with that index (January is 0, as \<^verbatim>\<open>getMonth\<close> counts): the three status counts are
  the numbers of selected records with that status, zero when there is none, the total
  is the number of selected records of any status, and the hours are the sum of their
  work hours, added one after the other in JavaScript's arithmetic, which is their exact
  sum whenever every partial sum is a double. When exactly two records are selected,
  one \<open>present\<close> with 8 hours and one \<open>late\<close> with 7.5, the result is 1, 1, 0, 15.5 and 2.
\<close>

theorem stats_over_selected_records:
  assumes "e \<noteq> []"
      and "sel = filter (\<lambda>a. userId a = e
                            \<and> js_strict_eq (Date_getMonth (date a)) month
                            \<and> js_strict_eq (Date_getFullYear (date a)) year) stored"
      and "s = getAttendanceStats stored now (Some e) (Some month) (Some year)"
  shows "stats_present s = length (filter (\<lambda>a. status a = present) sel)
       \<and> stats_late s = length (filter (\<lambda>a. status a = late) sel)
       \<and> stats_absent s = length (filter (\<lambda>a. status a = absent) sel)
       \<and> total s = length sel
       \<and> stats_present s + stats_late s + stats_absent s
            + length (filter (\<lambda>a. status a = holiday) sel) = total s
       \<and> totalWorkHours s = foldl (\<lambda>sum a. js_add sum (workHours a)) (Num 0) sel
       \<and> ((\<forall>a \<in> set sel. workHours a \<noteq> NaN)
            \<and> (\<forall>n \<le> length sel.
                  double (sum_list (take n (map (\<lambda>a. case workHours a of Num w \<Rightarrow> w | NaN \<Rightarrow> 0) sel)))
                    = sum_list (take n (map (\<lambda>a. case workHours a of Num w \<Rightarrow> w | NaN \<Rightarrow> 0) sel))) \<longrightarrow>
            totalWorkHours s
              = Num (sum_list (map (\<lambda>a. case workHours a of Num w \<Rightarrow> w | NaN \<Rightarrow> 0) sel)))
       \<and> (\<forall>a y m dd. a \<in> set stored \<and> date a = iso_date y m dd \<and> calendar_date y m dd \<longrightarrow>
             (a \<in> set sel \<longleftrightarrow>
                userId a = e \<and> month = Num (of_nat (m - 1)) \<and> year = Num (of_nat y)))
       \<and> (\<forall>r1 r2. sel = [r1, r2] \<and> status r1 = present \<and> workHours r1 = Num 8
                   \<and> status r2 = late \<and> workHours r2 = Num (15 / 2) \<longrightarrow>
             s = \<lparr> stats_present = 1, stats_late = 1, stats_absent = 0,
                   totalWorkHours = Num (31 / 2), total = 2 \<rparr>)"
proof -
  have s: "s = \<lparr> stats_present = length (filter (\<lambda>a. status a = present) sel),
                 stats_late = length (filter (\<lambda>a. status a = late) sel),
                 stats_absent = length (filter (\<lambda>a. status a = absent) sel),
                 totalWorkHours = foldl (\<lambda>sum a. js_add sum (workHours a)) (Num 0) sel,
                 total = length sel \<rparr>"
    unfolding assms(3) getAttendanceStats_selected [OF assms(1)] Let_def assms(2) ..
  have counts: "stats_present s = length (filter (\<lambda>a. status a = present) sel)"
       "stats_late s = length (filter (\<lambda>a. status a = late) sel)"
       "stats_absent s = length (filter (\<lambda>a. status a = absent) sel)"
       "total s = length sel"
       "totalWorkHours s = foldl (\<lambda>sum a. js_add sum (workHours a)) (Num 0) sel"
    by (simp_all add: s)
  have part: "stats_present s + stats_late s + stats_absent s
            + length (filter (\<lambda>a. status a = holiday) sel) = total s"
    unfolding counts by (rule status_partition)
  have hours: "(\<forall>a \<in> set sel. workHours a \<noteq> NaN)
            \<and> (\<forall>n \<le> length sel.
                  double (sum_list (take n (map (\<lambda>a. case workHours a of Num w \<Rightarrow> w | NaN \<Rightarrow> 0) sel)))
                    = sum_list (take n (map (\<lambda>a. case workHours a of Num w \<Rightarrow> w | NaN \<Rightarrow> 0) sel))) \<longrightarrow>
            totalWorkHours s
              = Num (sum_list (map (\<lambda>a. case workHours a of Num w \<Rightarrow> w | NaN \<Rightarrow> 0) sel))"
    unfolding counts using foldl_js_add_exact [of sel 0] by simp
  have dates: "\<forall>a y m dd. a \<in> set stored \<and> date a = iso_date y m dd \<and> calendar_date y m dd \<longrightarrow>
             (a \<in> set sel \<longleftrightarrow>
                userId a = e \<and> month = Num (of_nat (m - 1)) \<and> year = Num (of_nat y))"
    unfolding assms(2) by (auto simp add: Date_fields_iso_date js_strict_eq_Num)
  have two: "\<forall>r1 r2. sel = [r1, r2] \<and> status r1 = present \<and> workHours r1 = Num 8
                   \<and> status r2 = late \<and> workHours r2 = Num (15 / 2) \<longrightarrow>
             s = \<lparr> stats_present = 1, stats_late = 1, stats_absent = 0,
                   totalWorkHours = Num (31 / 2), total = 2 \<rparr>"
    by (auto simp add: s double_eval)
  from counts part hours dates two show ?thesis by blast
qed

lemma february_selection:
  "filter (\<lambda>a. userId a = ''emp-001''
               \<and> js_strict_eq (Date_getMonth (date a)) (Num 1)
               \<and> js_strict_eq (Date_getFullYear (date a)) (Num 2026)) stored_records
   = [\<lparr> rec_id = ''att-2'', userId = ''emp-001'', date = ''2026-02-02'', checkIn = None,
        checkOut = None, status = present, workHours = Num 8 \<rparr>,
      \<lparr> rec_id = ''att-4'', userId = ''emp-001'', date = ''2026-02-03'', checkIn = None,
        checkOut = None, status = late, workHours = Num (15 / 2) \<rparr>]"
  by (simp add: stored_records_def Date_getMonth_def Date_getFullYear_def new_Date_def Let_def
        is_digit_def digit_val_def digits_val_def less_eq_char_def days_in_month_def leap_year_def)

theorem stats_over_selected_records_witness:
  "getAttendanceStats stored_records (monday_at 8 0) (Some ''emp-001'') (Some (Num 1)) (Some (Num 2026))
     = \<lparr> stats_present = 1, stats_late = 1, stats_absent = 0,
         totalWorkHours = Num (31 / 2), total = 2 \<rparr>"
proof -
  have e: "''emp-001'' \<noteq> []" by simp
  from stats_over_selected_records [OF e february_selection [symmetric] refl,
         of "monday_at 8 0"]
  show ?thesis by simp
qed

subsection \<open>The local-storage operations\<close>

lemma findIndex_Some:
  "findIndex P xs = Some k \<Longrightarrow> k < length xs \<and> P (xs ! k) \<and> (\<forall>i<k. \<not> P (xs ! i))"
proof (induction xs arbitrary: k)
  case Nil
  then show ?case by simp
next
  case (Cons x xs)
  show ?case
  proof (cases "P x")
    case True
    with Cons.prems show ?thesis by simp
  next
    case False
    with Cons.prems obtain k' where k': "findIndex P xs = Some k'" "k = Suc k'" by auto
    from Cons.IH [OF k'(1)] False k'(2) show ?thesis
      by (auto simp: nth_Cons split: nat.splits)
  qed
qed

lemma findIndex_None: "findIndex P xs = None \<longleftrightarrow> (\<forall>x \<in> set xs. \<not> P x)"
  by (induction xs) auto

lemma find_findIndex:
  "find P xs = Some a \<Longrightarrow> \<exists>j. findIndex P xs = Some j \<and> xs ! j = a"
proof (induction xs)
  case Nil
  then show ?case by simp
next
  case (Cons x xs)
  then show ?case by (cases "P x") auto
qed

lemma find_first:
  "k < length zs \<Longrightarrow> P (zs ! k) \<Longrightarrow> \<forall>i<k. \<not> P (zs ! i) \<Longrightarrow> find P zs = Some (zs ! k)"
proof (induction zs arbitrary: k)
  case Nil
  then show ?case by simp
next
  case (Cons z zs)
  show ?case
  proof (cases k)
    case 0
    with Cons.prems show ?thesis by simp
  next
    case (Suc k')
    with Cons.prems have nz: "\<not> P z" by auto
    from Cons.prems Suc have "k' < length zs" "P (zs ! k')" "\<forall>i<k'. \<not> P (zs ! i)" by auto
    from Cons.IH [OF this] nz Suc show ?thesis by simp
  qed
qed

lemma find_append_last:
  "\<forall>x \<in> set xs. \<not> P x \<Longrightarrow> P y \<Longrightarrow> find P (xs @ [y]) = Some y"
  by (induction xs) auto

lemma find_write_back:
  assumes "find P records = Some a" "P changed" "Q changed"
  shows "find P (write_back records P Q changed) = Some changed"
proof -
  from find_findIndex [OF assms(1)] obtain j where j: "findIndex P records = Some j" by blast
  from findIndex_Some [OF j] have jl: "j < length records" and jm: "\<forall>i<j. \<not> P (records ! i)" by auto
  let ?m = "records[j := changed]"
  have "Q (?m ! j)" using jl assms(3) by simp
  then have "findIndex Q ?m \<noteq> None" using jl by (auto simp: findIndex_None set_conv_nth)
  then obtain k where k: "findIndex Q ?m = Some k" by auto
  from findIndex_Some [OF k] have kl: "k < length ?m" and km: "\<forall>i<k. \<not> Q (?m ! i)" by auto
  have kj: "k \<le> j"
  proof (rule ccontr)
    assume "\<not> k \<le> j"
    then have "j < k" by simp
    with km have "\<not> Q (?m ! j)" by blast
    with \<open>Q (?m ! j)\<close> show False by simp
  qed
  let ?z = "?m[k := changed]"
  have wb: "write_back records P Q changed = ?z"
    by (simp add: write_back_def j k)
  have "k < length ?z" using kl by simp
  moreover have "P (?z ! k)" using kl assms(2) by simp
  moreover have "\<forall>i<k. \<not> P (?z ! i)" using jm kj by simp
  ultimately have "find P ?z = Some (?z ! k)" by (rule find_first)
  then show ?thesis using kl by (simp add: wb)
qed

text \<open>
  The local-storage \<^verbatim>\<open>checkIn\<close> tests for an earlier check-in before it reads the
  schedule: after a check-in that returned a record, a further one by the same employee
  on the same date returns the \<open>AlreadyCheckedIn\<close> error and stores nothing.
\<close>

lemma checkIn_fn_second_rejected:
  assumes "checkIn_fn st now uid ph loc = (st', Returns r)"
      and "toISODate now2 = toISODate now"
  shows "checkIn_fn st' now2 uid ph2 loc2 = (st', ReturnsError AlreadyCheckedIn)"
proof -
  let ?P = "\<lambda>a. userId a = uid \<and> date a = toISODate now"
  have found: "\<exists>a. find ?P (ATTENDANCE st') = Some a \<and> checkIn a \<noteq> None"
  proof (cases "find ?P (ATTENDANCE st)")
    case None
    then have no: "\<forall>a \<in> set (ATTENDANCE st). \<not> ?P a" by (simp add: find_None_iff)
    from assms(1) None obtain schedule where
      "at_schedule (WORK_SCHEDULES st) (getDay now) = Some schedule"
      by (cases "at_schedule (WORK_SCHEDULES st) (getDay now)") (simp_all add: checkIn_fn_def Let_def)
    with assms(1) None obtain changed where
      st': "st' = st\<lparr>ATTENDANCE := ATTENDANCE st @ [changed]\<rparr>"
      and c: "?P changed" "checkIn changed \<noteq> None"
      unfolding checkIn_fn_def Let_def by auto
    from no c(1) have "find ?P (ATTENDANCE st @ [changed]) = Some changed"
      by (rule find_append_last)
    with st' c(2) show ?thesis by auto
  next
    case (Some a)
    then have pa: "?P a" by (auto simp: find_Some_iff)
    from assms(1) Some have nci: "checkIn a = None"
      by (auto simp add: checkIn_fn_def Let_def split: if_splits)
    from assms(1) Some nci obtain schedule where
      "at_schedule (WORK_SCHEDULES st) (getDay now) = Some schedule"
      by (cases "at_schedule (WORK_SCHEDULES st) (getDay now)") (simp_all add: checkIn_fn_def Let_def)
    with assms(1) Some nci obtain changed where
      st': "st' = st\<lparr>ATTENDANCE := write_back (ATTENDANCE st) ?P (\<lambda>b. rec_id b = rec_id a) changed\<rparr>"
      and c: "userId changed = userId a" "date changed = date a" "rec_id changed = rec_id a"
             "checkIn changed \<noteq> None"
      unfolding checkIn_fn_def Let_def by auto
    from c pa have "?P changed" by simp
    from find_write_back [of ?P "ATTENDANCE st" a changed "\<lambda>b. rec_id b = rec_id a", OF Some this c(3)]
    show ?thesis using st' c(4) by auto
  qed
  then obtain a where a: "find ?P (ATTENDANCE st') = Some a" "checkIn a \<noteq> None" by blast
  then show ?thesis
    unfolding checkIn_fn_def Let_def assms(2) by simp
qed


lemmas local_defs = checkIn_fn_def checkOut_fn_def startOvertime_def endOvertime_def
  approveOvertime_def write_back_def at_schedule_def local_storage_def local_schedules_def

text \<open>The minimum-hours test precedes the floor at zero in the local-storage \<^verbatim>\<open>checkOut\<close>
  as well.\<close>

lemma checkOut_fn_negative_elapsed_rejected:
  "checkOut_fn (fst (checkIn_fn (local_storage (Num 8)) (monday_at 9 0) ''emp-001'' ''photo-in'' office))
       (monday_at 8 0) ''emp-001'' ''photo-out'' office
   = (fst (checkIn_fn (local_storage (Num 8)) (monday_at 9 0) ''emp-001'' ''photo-in'' office),
      ReturnsError (MinimumHoursNotMet (Numeric (Num 8)) (JamMenit (Num 9) (Num 0))))"
  by (simp add: local_defs scenario_defs arithmetic_defs)

text \<open>The local-storage \<^verbatim>\<open>checkOut\<close> computes the remaining time with the same arithmetic:
  after a check-in at 07:50, a check-out at 10:00 is 350 minutes short and is told 5
  hours 51 minutes.\<close>

lemma checkOut_fn_one_minute_over:
  "snd (checkOut_fn
          (fst (checkIn_fn (local_storage (Num 8)) (monday_at 7 50) ''emp-001'' ''photo-in'' office))
          (monday_at 10 0) ''emp-001'' ''photo-out'' office)
   = ReturnsError (MinimumHoursNotMet (Numeric (Num 8)) (JamMenit (Num 5) (Num 51)))"
  by (simp add: local_defs scenario_defs arithmetic_defs)

text \<open>The local-storage \<^verbatim>\<open>startOvertime\<close> compares numbers: after ten hours of work on a
  day with a minimum of 8 it starts the overtime.\<close>

lemma startOvertime_accepts_ten_hours:
  "snd (startOvertime
          (fst (checkOut_fn
                  (fst (checkIn_fn (local_storage (Num 8)) (monday_at 8 0) ''emp-001'' ''photo-in'' office))
                  (monday_at 18 0) ''emp-001'' ''photo-out'' office))
          (monday_at 18 5) ''emp-001'' ''inventory'')
   = Returns \<lparr> ot_rec_id = ''ot-1767636300000'', ot_userId = ''emp-001'', ot_date = ''2026-01-05'',
               startTime = ''18:05'', endTime = None, ot_duration = Num 0,
               ot_reason = ''inventory'', ot_status = pending, approvedBy = None \<rparr>"
  by (simp add: local_defs scenario_defs arithmetic_defs)

text \<open>Nor does the local-storage \<^verbatim>\<open>approveOvertime\<close> look at the current status.\<close>

lemma approveOvertime_decides_again:
  assumes "find (\<lambda>x. ot_rec_id x = oid) (OVERTIME st) = Some overtime"
  shows "\<exists>st1 r1 st2 r2. approveOvertime st oid adminId False = (st1, Returns r1)
           \<and> ot_status r1 = rejected
           \<and> approveOvertime st1 oid adminId True = (st2, Returns r2)
           \<and> ot_status r2 = approved"
proof -
  let ?Q = "\<lambda>x. ot_rec_id x = oid"
  let ?c1 = "overtime\<lparr>ot_status := rejected, approvedBy := Some adminId\<rparr>"
  let ?st1 = "st\<lparr>OVERTIME := write_back (OVERTIME st) ?Q ?Q ?c1\<rparr>"
  let ?c2 = "?c1\<lparr>ot_status := approved, approvedBy := Some adminId\<rparr>"
  let ?st2 = "?st1\<lparr>OVERTIME := write_back (OVERTIME ?st1) ?Q ?Q ?c2\<rparr>"
  from assms have q: "?Q overtime" by (auto simp: find_Some_iff)
  have one: "approveOvertime st oid adminId False = (?st1, Returns ?c1)"
    using assms by (simp add: approveOvertime_def Let_def)
  have "find ?Q (OVERTIME ?st1) = Some ?c1"
    using find_write_back [of ?Q "OVERTIME st" overtime ?c1 ?Q, OF assms] q by simp
  then have two: "approveOvertime ?st1 oid adminId True = (?st2, Returns ?c2)"
    by (simp add: approveOvertime_def Let_def)
  show ?thesis
    by (intro exI [of _ ?st1] exI [of _ ?c1] exI [of _ ?st2] exI [of _ ?c2] conjI one two) simp_all
qed

end
